theory Spec2Isabelle
  imports Main "HOL-Library.Word" "HOL-Library.AList"
begin

unbundle bit_operations_syntax

section \<open>Machine types and hardware constants\<close>

text \<open>
  The target is an 8-bit AVR: \<open>uint8_t\<close>, \<open>uint16_t\<close> and \<open>uint32_t\<close> are words of
  that width; \<open>size_t\<close> values are bounded by the sizes of the static buffers and are
  kept as \<open>nat\<close>. The constants are those of \<open>HardwareConfig.h\<close>.
\<close>

type_synonym u8 = "8 word"
type_synonym u16 = "16 word"
type_synonym u32 = "32 word"

definition RING_BUFFER_SIZE :: nat where "RING_BUFFER_SIZE = 96"
definition TRANSFER_BUFFER_SIZE :: nat where "TRANSFER_BUFFER_SIZE = 32"
definition MAX_FILENAME_LENGTH :: nat where "MAX_FILENAME_LENGTH = 8"
definition ACK_PULSE_WIDTH :: nat where "ACK_PULSE_WIDTH = 20"
definition HARDWARE_DELAY :: nat where "HARDWARE_DELAY = 5"
definition EEPROM_SIZE :: nat where "EEPROM_SIZE = 16777216"
definition EEPROM_PAGE_SIZE :: nat where "EEPROM_PAGE_SIZE = 256"
definition EEPROM_SECTOR_SIZE :: nat where "EEPROM_SECTOR_SIZE = 4096"

definition LPT_DATA0_PIN :: nat where "LPT_DATA0_PIN = 25"
definition LPT_DATA1_PIN :: nat where "LPT_DATA1_PIN = 27"
definition LPT_DATA2_PIN :: nat where "LPT_DATA2_PIN = 29"
definition LPT_DATA3_PIN :: nat where "LPT_DATA3_PIN = 31"
definition LPT_DATA4_PIN :: nat where "LPT_DATA4_PIN = 33"
definition LPT_DATA5_PIN :: nat where "LPT_DATA5_PIN = 35"
definition LPT_DATA6_PIN :: nat where "LPT_DATA6_PIN = 37"
definition LPT_DATA7_PIN :: nat where "LPT_DATA7_PIN = 39"
definition LPT_ACKNOWLEDGE_PIN :: nat where "LPT_ACKNOWLEDGE_PIN = 41"
definition LPT_BUSY_PIN :: nat where "LPT_BUSY_PIN = 43"
definition LPT_ACTIVITY_LED_PIN :: nat where "LPT_ACTIVITY_LED_PIN = 30"

definition STATUS_OK :: int where "STATUS_OK = 0"
definition STATUS_NOT_INITIALIZED :: int where "STATUS_NOT_INITIALIZED = 2"

section \<open>RingBuffer\<close>

text \<open>
  The byte ring of \<open>RingBuffer.cpp\<close>. The array length is \<open>RING_BUFFER_SIZE\<close> in the
  source; the operations take the capacity \<open>N\<close> as a parameter so that the same code
  can be read at another compile-time size.
\<close>

record RingBuffer =
  buffer :: "u8 list"
  head :: nat
  tail :: nat
  count :: nat
  overflowFlag :: bool

definition RingBuffer_init :: "nat \<Rightarrow> RingBuffer" where
  "RingBuffer_init N = \<lparr>buffer = replicate N 0, head = 0, tail = 0, count = 0, overflowFlag = False\<rparr>"

definition RingBuffer_write :: "nat \<Rightarrow> RingBuffer \<Rightarrow> u8 \<Rightarrow> RingBuffer \<times> bool" where
  "RingBuffer_write N rb d =
     (if count rb \<ge> N then (rb\<lparr>overflowFlag := True\<rparr>, False)
      else (rb\<lparr>buffer := (buffer rb)[head rb := d],
                head := (head rb + 1) mod N,
                count := count rb + 1\<rparr>, True))"

definition RingBuffer_available :: "RingBuffer \<Rightarrow> nat" where
  "RingBuffer_available rb = count rb"

definition RingBuffer_hasOverflow :: "RingBuffer \<Rightarrow> bool" where
  "RingBuffer_hasOverflow rb = overflowFlag rb"

definition RingBuffer_clearOverflow :: "RingBuffer \<Rightarrow> RingBuffer" where
  "RingBuffer_clearOverflow rb = rb\<lparr>overflowFlag := False\<rparr>"

text \<open>
  \<open>readBytes\<close>: the loop \<open>while (bytesRead < maxBytes && count > 0)\<close>, with the
  number of bytes still wanted as the recursion argument. It returns the buffer and the
  bytes stored into \<open>dest\<close>, in order.
\<close>

fun RingBuffer_readLoop :: "nat \<Rightarrow> nat \<Rightarrow> RingBuffer \<Rightarrow> RingBuffer \<times> u8 list" where
  "RingBuffer_readLoop N 0 rb = (rb, [])"
| "RingBuffer_readLoop N (Suc k) rb =
     (if count rb > 0 then
        (let b = buffer rb ! tail rb;
             rb' = rb\<lparr>tail := (tail rb + 1) mod N, count := count rb - 1\<rparr>;
             (rb'', bs) = RingBuffer_readLoop N k rb'
         in (rb'', b # bs))
      else (rb, []))"

definition RingBuffer_readBytes :: "nat \<Rightarrow> RingBuffer \<Rightarrow> nat \<Rightarrow> RingBuffer \<times> u8 list" where
  "RingBuffer_readBytes N rb maxBytes =
     (if maxBytes = 0 then (rb, []) else RingBuffer_readLoop N maxBytes rb)"

section \<open>ParallelPortManager\<close>

text \<open>
  Effects on the outside world are recorded as a list of events in program order: pin
  writes, pin reads, busy-wait delays, the attempt to store a byte in the ring, and the
  lines printed on the serial console.
\<close>

datatype hw_event =
    DigitalWrite nat bool
  | DigitalRead nat
  | DelayMicroseconds nat
  | BufferWrite u8 bool
  | SerialPrintln string

record ParallelPortManager =
  ringBuffer :: RingBuffer
  ppm_initialized :: bool
  captureEnabled :: bool
  bytesReceived :: u32
  overflowCount :: u32
  lastInterruptTime :: u32
  ppm_debugEnabled :: bool
  busyAsserted :: bool
  errorState :: bool
  totalInterrupts :: u32
  maxISRTime :: u16
  avgISRTime :: u16

definition updateTimingStats :: "ParallelPortManager \<Rightarrow> u16 \<Rightarrow> ParallelPortManager" where
  "updateTimingStats p executionTime =
     (let p1 = (if executionTime > maxISRTime p then p\<lparr>maxISRTime := executionTime\<rparr> else p)
      in p1\<lparr>avgISRTime := (avgISRTime p1 + executionTime) div 2\<rparr>)"

text \<open>
  The eight \<open>digitalRead\<close> calls of the ISR, OR-ed into one byte. \<open>pins\<close> gives the
  level of each input pin at the time of the interrupt.
\<close>

definition readDataPins :: "(nat \<Rightarrow> bool) \<Rightarrow> u8" where
  "readDataPins pins =
     (if pins LPT_DATA0_PIN then 0x01 else 0x00) OR
     (if pins LPT_DATA1_PIN then 0x02 else 0x00) OR
     (if pins LPT_DATA2_PIN then 0x04 else 0x00) OR
     (if pins LPT_DATA3_PIN then 0x08 else 0x00) OR
     (if pins LPT_DATA4_PIN then 0x10 else 0x00) OR
     (if pins LPT_DATA5_PIN then 0x20 else 0x00) OR
     (if pins LPT_DATA6_PIN then 0x40 else 0x00) OR
     (if pins LPT_DATA7_PIN then 0x80 else 0x00)"

definition readDataEvents :: "hw_event list" where
  "readDataEvents =
     [DigitalRead LPT_DATA0_PIN, DigitalRead LPT_DATA1_PIN, DigitalRead LPT_DATA2_PIN,
      DigitalRead LPT_DATA3_PIN, DigitalRead LPT_DATA4_PIN, DigitalRead LPT_DATA5_PIN,
      DigitalRead LPT_DATA6_PIN, DigitalRead LPT_DATA7_PIN]"

text \<open>
  \<open>handleInterrupt\<close>: \<open>startTime\<close> and \<open>endTime\<close> are the two readings of
  \<open>micros()\<close>. The result is the new state and the events of this execution.
\<close>

definition handleInterrupt ::
  "nat \<Rightarrow> (nat \<Rightarrow> bool) \<Rightarrow> u32 \<Rightarrow> u32 \<Rightarrow> ParallelPortManager \<Rightarrow> ParallelPortManager \<times> hw_event list" where
  "handleInterrupt N pins startTime endTime p =
     (if \<not> captureEnabled p \<or> \<not> ppm_initialized p then (p, [])
      else
        (let data = readDataPins pins;
             (rb, ok) = RingBuffer_write N (ringBuffer p) data;
             p1 = p\<lparr>ringBuffer := rb\<rparr>;
             p2 = (if ok then p1\<lparr>bytesReceived := bytesReceived p1 + 1\<rparr> else p1);
             p3 = p2\<lparr>totalInterrupts := totalInterrupts p2 + 1\<rparr>;
             executionTime = (ucast (endTime - startTime) :: u16);
             p4 = updateTimingStats p3 executionTime
         in (p4\<lparr>lastInterruptTime := endTime\<rparr>,
             [DigitalWrite LPT_BUSY_PIN True, DelayMicroseconds HARDWARE_DELAY] @
             readDataEvents @
             [BufferWrite data ok,
              DigitalWrite LPT_ACKNOWLEDGE_PIN False,
              DelayMicroseconds ACK_PULSE_WIDTH,
              DigitalWrite LPT_ACKNOWLEDGE_PIN True,
              DigitalWrite LPT_BUSY_PIN False])))"

text \<open>\<open>ParallelPortManager::update\<close>, the per-tick work of the run loop.\<close>

definition ParallelPortManager_update ::
  "ParallelPortManager \<Rightarrow> ParallelPortManager \<times> int \<times> hw_event list" where
  "ParallelPortManager_update p =
     (if \<not> ppm_initialized p then (p, STATUS_NOT_INITIALIZED, [])
      else
        (let p1 = (if RingBuffer_hasOverflow (ringBuffer p)
                   then p\<lparr>overflowCount := overflowCount p + 1,
                          ringBuffer := RingBuffer_clearOverflow (ringBuffer p)\<rparr>
                   else p);
             msg = (if RingBuffer_hasOverflow (ringBuffer p) \<and> ppm_debugEnabled p
                    then [SerialPrintln ''ParallelPortManager: Buffer overflow detected'']
                    else [])
         in (p1, STATUS_OK,
             msg @ [DigitalWrite LPT_ACTIVITY_LED_PIN (RingBuffer_available (ringBuffer p1) > 0)])))"

definition getAvailableBytes :: "ParallelPortManager \<Rightarrow> nat" where
  "getAvailableBytes p = RingBuffer_available (ringBuffer p)"

definition ParallelPortManager_readData ::
  "nat \<Rightarrow> ParallelPortManager \<Rightarrow> nat \<Rightarrow> ParallelPortManager \<times> u8 list" where
  "ParallelPortManager_readData N p maxBytes =
     (if \<not> ppm_initialized p then (p, [])
      else (let (rb, bs) = RingBuffer_readBytes N (ringBuffer p) maxBytes
            in (p\<lparr>ringBuffer := rb\<rparr>, bs)))"

text \<open>
  A burst of strobes with no run-loop activity in between: one ISR execution per
  element, each with its pin levels and its two clock readings.
\<close>

fun strobes :: "nat \<Rightarrow> ((nat \<Rightarrow> bool) \<times> u32 \<times> u32) list \<Rightarrow> ParallelPortManager \<Rightarrow> ParallelPortManager" where
  "strobes N [] p = p"
| "strobes N ((pins, t0, t1) # rest) p = strobes N rest (fst (handleInterrupt N pins t0 t1 p))"

text \<open>The state right after \<open>initialize()\<close>, with a ring of capacity \<open>N\<close>.\<close>

definition ppm_initial :: "nat \<Rightarrow> ParallelPortManager" where
  "ppm_initial N =
     \<lparr>ringBuffer = RingBuffer_init N, ppm_initialized = True, captureEnabled = True,
      bytesReceived = 0, overflowCount = 0, lastInterruptTime = 0, ppm_debugEnabled = False,
      busyAsserted = False, errorState = False, totalInterrupts = 0, maxISRTime = 0,
      avgISRTime = 0\<rparr>"

text \<open>Pin levels that present the byte \<open>b\<close> on D0..D7.\<close>

definition pinsOf :: "u8 \<Rightarrow> nat \<Rightarrow> bool" where
  "pinsOf b pin = (if pin < LPT_DATA0_PIN \<or> pin > LPT_DATA7_PIN then False
                   else bit b ((pin - LPT_DATA0_PIN) div 2))"

text \<open>
  Order of effects inside one trace: \<open>b\<close> occurs exactly once and \<open>a\<close> occurs
  somewhere before it.
\<close>

definition occurs_before :: "'a \<Rightarrow> 'a \<Rightarrow> 'a list \<Rightarrow> bool" where
  "occurs_before a b es = (count_list es b = 1 \<and> a \<in> set (takeWhile (\<lambda>e. e \<noteq> b) es))"

text \<open>
  The burst of scenario S2: twenty strobes presenting the bytes 0..19, each ISR
  execution taking 27 microseconds on the clock.
\<close>

definition strobe_of :: "u8 \<Rightarrow> (nat \<Rightarrow> bool) \<times> u32 \<times> u32" where
  "strobe_of b = (pinsOf b, 0, 27)"

definition s2_burst :: "((nat \<Rightarrow> bool) \<times> u32 \<times> u32) list" where
  "s2_burst = map strobe_of (map of_nat [0..<20])"

text \<open>
  The burst of the repository's test \<open>test_parallel_port_buffer_overflow\<close>:
  \<open>RING_BUFFER_SIZE + 1\<close> strobes presenting the bytes 0, 1, 2, ... to a receiver
  that has just been initialised, one more than the ring holds.
\<close>

definition burst97 :: "((nat \<Rightarrow> bool) \<times> u32 \<times> u32) list" where
  "burst97 = map strobe_of (map of_nat [0..<RING_BUFFER_SIZE + 1])"

text \<open>A state whose ring of capacity 2 is already full.\<close>

definition ppm_full2 :: ParallelPortManager where
  "ppm_full2 = strobes 2 [strobe_of 0x41, strobe_of 0x42] (ppm_initial 2)"

section \<open>MemoryUtils\<close>

text \<open>
  C characters are \<open>char\<close>; a character array is a \<open>string\<close> holding every cell of
  the array, and a \<open>const char*\<close> argument is read up to its first NUL (or to the end
  of the list, which stands for the terminator). Pointers are never null in the model.
\<close>

definition NUL :: char where "NUL = CHR 0x00"

definition cstr :: "string \<Rightarrow> string" where
  "cstr s = takeWhile (\<lambda>c. c \<noteq> NUL) s"

definition strlen :: "string \<Rightarrow> nat" where
  "strlen s = length (cstr s)"

definition safeStrlen :: "string \<Rightarrow> nat \<Rightarrow> nat" where
  "safeStrlen str maxLen = length (cstr (take maxLen str))"

text \<open>
  \<open>safeCopy(dest, destSize, src)\<close> with the default \<open>maxCopy = 0\<close>: at most
  \<open>destSize - 1\<close> characters, then a NUL; the cells after it keep their old content.
  The result is the array and the number of characters copied.
\<close>

definition safeCopy :: "string \<Rightarrow> nat \<Rightarrow> string \<Rightarrow> string \<times> nat" where
  "safeCopy dest destSize src =
     (if destSize = 0 then (dest, 0)
      else (let copyLen = min (destSize - 1) (strlen src)
            in (take copyLen (cstr src) @ [NUL] @ drop (copyLen + 1) dest, copyLen)))"

definition appendString :: "string \<Rightarrow> nat \<Rightarrow> string \<Rightarrow> string \<times> bool" where
  "appendString dest destSize src =
     (if destSize = 0 then (dest, False)
      else (let destLen = safeStrlen dest destSize
            in if destLen \<ge> destSize - 1 then (dest, False)
               else (let remainingSpace = destSize - destLen - 1;
                         (tl', copied) = safeCopy (drop destLen dest) (remainingSpace + 1) src
                     in (take destLen dest @ tl', copied > 0))))"

definition startsWith :: "string \<Rightarrow> nat \<Rightarrow> string \<Rightarrow> bool" where
  "startsWith str strLen prefix =
     (if strLen = 0 then False
      else (let prefixLen = strlen prefix
            in if prefixLen > strLen then False
               else take prefixLen str = cstr prefix))"

definition tolower :: "char \<Rightarrow> char" where
  "tolower c = (let n = (of_char c :: nat)
                in if 65 \<le> n \<and> n \<le> 90 then char_of (n + 32) else c)"

definition equalsIgnoreCase :: "string \<Rightarrow> nat \<Rightarrow> string \<Rightarrow> bool" where
  "equalsIgnoreCase str1 str1Len str2 =
     (let str2Len = strlen str2
      in if str1Len \<noteq> str2Len then False
         else map tolower (take str1Len str1) = map tolower (take str1Len (cstr str2)))"

text \<open>\<open>findChar\<close>: the index of the first \<open>ch\<close>, looking at no more than \<open>strLen\<close>
  cells and stopping after a NUL.\<close>

fun findChar :: "string \<Rightarrow> nat \<Rightarrow> char \<Rightarrow> nat option" where
  "findChar [] strLen ch = None"
| "findChar (c # cs) 0 ch = None"
| "findChar (c # cs) (Suc n) ch =
     (if c = ch then Some 0
      else if c = NUL then None
      else map_option Suc (findChar cs n ch))"

text \<open>Decimal and hexadecimal rendering, as \<open>Serial.print\<close> and \<open>snprintf\<close> do it.\<close>

definition digitChar :: "nat \<Rightarrow> char" where
  "digitChar d = ''0123456789ABCDEF'' ! d"

fun printDec :: "nat \<Rightarrow> string" where
  "printDec n = (if n < 10 then [digitChar n] else printDec (n div 10) @ [digitChar (n mod 10)])"

fun printHex :: "nat \<Rightarrow> string" where
  "printHex n = (if n < 16 then [digitChar n] else printHex (n div 16) @ [digitChar (n mod 16)])"

definition zeroPad :: "nat \<Rightarrow> string \<Rightarrow> string" where
  "zeroPad w s = replicate (w - length s) (CHR ''0'') @ s"

definition CRLF :: string where "CRLF = [CHR 0x0D, CHR 0x0A]"

section \<open>SerialStoragePlugin\<close>

text \<open>
  The UART (\<open>Serial\<close>) is a global device: whether \<open>Serial && availableForWrite() > 0\<close>
  holds, the characters printed so far, and the characters still to be read. The
  characters printed are those of this plugin and the diagnostics of the
  \<open>FileSystemManager\<close>; the diagnostics of the two other plugins and the messages of
  \<open>main.cpp\<close> are left out.
\<close>

record SerialPort =
  serialReady :: bool
  tx :: string
  rx :: string

record SerialStoragePlugin =
  ser_initialized :: bool
  ser_debugEnabled :: bool
  transferInProgress :: bool
  currentFilename :: string
  totalBytesTransferred :: u32
  totalFilesTransferred :: u32

definition HEX_BYTES_PER_LINE :: nat where "HEX_BYTES_PER_LINE = 32"
definition HEX_LINE_BUFFER_SIZE :: nat where "HEX_LINE_BUFFER_SIZE = 64"

definition byteToHex :: "u8 \<Rightarrow> string" where
  "byteToHex v = [digitChar (unat (drop_bit 4 v AND 0x0F)), digitChar (unat (v AND 0x0F)), NUL]"

definition hexNibble :: "char \<Rightarrow> u8 option" where
  "hexNibble ch =
     (let n = (of_char ch :: nat)
      in if 48 \<le> n \<and> n \<le> 57 then Some (of_nat (n - 48))
         else if 65 \<le> n \<and> n \<le> 70 then Some (of_nat (n - 65 + 10))
         else if 97 \<le> n \<and> n \<le> 102 then Some (of_nat (n - 97 + 10))
         else None)"

text \<open>\<open>hexToByte\<close> on the string that starts at the pointer it is given.\<close>

definition hexToByte :: "string \<Rightarrow> u8 option" where
  "hexToByte hexStr =
     (if safeStrlen hexStr 3 < 2 then None
      else (case hexNibble (hexStr ! 0) of
              None \<Rightarrow> None
            | Some hi \<Rightarrow>
               (case hexNibble (hexStr ! 1) of
                  None \<Rightarrow> None
                | Some lo \<Rightarrow> Some (push_bit 4 hi OR lo))))"

definition serial_print :: "SerialPort \<Rightarrow> string \<Rightarrow> SerialPort" where
  "serial_print u str = u\<lparr>tx := tx u @ cstr str\<rparr>"

definition sendProtocolHeader :: "SerialPort \<Rightarrow> string \<Rightarrow> u32 \<Rightarrow> SerialPort" where
  "sendProtocolHeader u name fileSize =
     serial_print u (''BEGIN:'' @ cstr name @ CRLF @ ''SIZE:'' @ printDec (unat fileSize) @ CRLF)"

definition sendProtocolFooter :: "SerialPort \<Rightarrow> string \<Rightarrow> SerialPort" where
  "sendProtocolFooter u name = serial_print u (''END:'' @ cstr name @ CRLF)"

text \<open>
  The loop of \<open>sendHexLine\<close> over the bytes of one line; \<open>i\<close> is the loop index and
  \<open>sz\<close> the number of bytes of the line (\<open>size\<close> in the source). The line is built in
  the 64-cell \<open>hexLineBuffer\<close> through \<open>appendString\<close>.
\<close>

fun hexLineLoop :: "string \<Rightarrow> nat \<Rightarrow> nat \<Rightarrow> u8 list \<Rightarrow> string" where
  "hexLineLoop buf i sz [] = buf"
| "hexLineLoop buf i sz (b # bs) =
     (let buf1 = fst (appendString buf HEX_LINE_BUFFER_SIZE (byteToHex b));
          buf2 = (if (i + 1) mod 8 = 0 \<and> i < sz - 1
                  then fst (appendString buf1 HEX_LINE_BUFFER_SIZE '' '') else buf1)
      in hexLineLoop buf2 (i + 1) sz bs)"

text \<open>
  With debugging on, the line starts with \<open>snprintf(addrStr, 10, "%08X: ", address)\<close>:
  the 16-bit \<open>unsigned int\<close> that \<open>%X\<close> reads from the argument, cut to nine
  characters by the size of \<open>addrStr\<close>.
\<close>

definition addrPrefix :: "u32 \<Rightarrow> string" where
  "addrPrefix address = take 9 (zeroPad 8 (printHex (unat address mod 65536)) @ '': '')"

definition sendHexLine :: "bool \<Rightarrow> SerialPort \<Rightarrow> u8 list \<Rightarrow> u32 \<Rightarrow> SerialPort" where
  "sendHexLine dbg u data address =
     (if length data = 0 \<or> length data > HEX_BYTES_PER_LINE then u
      else (let buf0 = replicate HEX_LINE_BUFFER_SIZE NUL;
                buf1 = (if dbg
                        then fst (safeCopy buf0 HEX_LINE_BUFFER_SIZE (addrPrefix address))
                        else buf0);
                buf2 = hexLineLoop buf1 0 (length data) data
            in serial_print (serial_print u buf2) CRLF))"

definition sendProgressUpdate :: "bool \<Rightarrow> SerialPort \<Rightarrow> string \<Rightarrow> u32 \<Rightarrow> u32 \<Rightarrow> SerialPort" where
  "sendProgressUpdate dbg u name bytesTransferred totalBytes =
     (if \<not> dbg then u
      else (let percentage = (if totalBytes > 0
                              then (ucast ((bytesTransferred * 100) div totalBytes) :: u8) else 0)
            in serial_print u (''PROGRESS:'' @ cstr name @ '':'' @
                 printDec (unat bytesTransferred) @ ''/'' @ printDec (unat totalBytes) @
                 '' ('' @ printDec (unat percentage) @ ''%)'' @ CRLF)))"

definition SerialStoragePlugin_isReady :: "SerialStoragePlugin \<Rightarrow> SerialPort \<Rightarrow> bool" where
  "SerialStoragePlugin_isReady s u = (ser_initialized s \<and> serialReady u)"

text \<open>
  The \<open>while (remaining > 0)\<close> loop of \<open>streamFile\<close>: \<open>remaining\<close> is the data
  not yet sent, \<open>sz\<close> the length of the whole file (\<open>size\<close> in the source).
\<close>

function streamLoop ::
  "bool \<Rightarrow> SerialPort \<Rightarrow> string \<Rightarrow> nat \<Rightarrow> u8 list \<Rightarrow> u32 \<Rightarrow> nat \<Rightarrow> SerialPort \<times> nat" where
  "streamLoop dbg u name sz remaining address totalSent =
     (if remaining = [] then (u, totalSent)
      else (let lineSize = min (length remaining) HEX_BYTES_PER_LINE;
                u1 = sendHexLine dbg u (take lineSize remaining) address;
                totalSent' = totalSent + lineSize;
                u2 = (if totalSent' mod 1024 = 0
                      then sendProgressUpdate dbg u1 name (of_nat totalSent') (of_nat sz)
                      else u1)
            in streamLoop dbg u2 name sz (drop lineSize remaining)
                 (address + of_nat lineSize) totalSent'))"
  by pat_completeness auto
termination
  by (relation "measure (\<lambda>(dbg, u, name, sz, remaining, address, totalSent). length remaining)")
     (auto simp: HEX_BYTES_PER_LINE_def)

definition streamFile ::
  "SerialStoragePlugin \<Rightarrow> SerialPort \<Rightarrow> string \<Rightarrow> u8 list \<Rightarrow> SerialStoragePlugin \<times> SerialPort \<times> nat" where
  "streamFile s u name data =
     (if \<not> SerialStoragePlugin_isReady s u \<or> length data = 0 then (s, u, 0)
      else if transferInProgress s then
        (s, (if ser_debugEnabled s
             then serial_print u (''SerialStoragePlugin: Transfer already in progress'' @ CRLF)
             else u), 0)
      else
        (let dbg = ser_debugEnabled s;
             s1 = s\<lparr>transferInProgress := True,
                     currentFilename := fst (safeCopy (currentFilename s) MAX_FILENAME_LENGTH name)\<rparr>;
             u1 = sendProtocolHeader u name (of_nat (length data));
             (u2, totalSent) = streamLoop dbg u1 name (length data) data 0 0;
             u3 = sendProtocolFooter u2 name;
             s' = s1\<lparr>totalFilesTransferred := totalFilesTransferred s1 + 1,
                      totalBytesTransferred := totalBytesTransferred s1 + of_nat totalSent,
                      transferInProgress := False,
                      currentFilename := replicate MAX_FILENAME_LENGTH NUL\<rparr>;
             u4 = (if dbg
                   then serial_print u3 (''SerialStoragePlugin: Streamed '' @ printDec totalSent @
                          '' bytes as '' @ cstr name @ CRLF)
                   else u3)
         in (s', u4, totalSent)))"

definition SerialStoragePlugin_writeFile ::
  "SerialStoragePlugin \<Rightarrow> SerialPort \<Rightarrow> string \<Rightarrow> u8 list \<Rightarrow> SerialStoragePlugin \<times> SerialPort \<times> nat" where
  "SerialStoragePlugin_writeFile s u name data =
     (if \<not> ser_initialized s \<or> length data = 0 then (s, u, 0) else streamFile s u name data)"

definition SerialStoragePlugin_readFile ::
  "SerialStoragePlugin \<Rightarrow> SerialPort \<Rightarrow> string \<Rightarrow> nat \<Rightarrow> SerialPort \<times> nat \<times> u8 list" where
  "SerialStoragePlugin_readFile s u name maxSize =
     (if \<not> ser_initialized s \<or> maxSize = 0 then (u, 0, [])
      else ((if ser_debugEnabled s
             then serial_print u (''SerialStoragePlugin: Read not supported (write-only)'' @ CRLF)
             else u), 0, []))"

definition SerialStoragePlugin_fileExists :: "SerialStoragePlugin \<Rightarrow> string \<Rightarrow> bool" where
  "SerialStoragePlugin_fileExists s name = False"

definition SerialStoragePlugin_getFileSize :: "SerialStoragePlugin \<Rightarrow> string \<Rightarrow> u32" where
  "SerialStoragePlugin_getFileSize s name = 0"

text \<open>
  \<open>receiveFile\<close>. A completed line is in \<open>lineBuffer[0..linePos)\<close> followed by the NUL
  just stored. The hex pairs are decoded from \<open>hexStart\<close>; reading \<open>lineBuffer\<close>
  beyond that NUL (cells never written for this line) is undefined in the source and is
  the result \<open>None\<close> here.
\<close>

text \<open>The \<open>for (i = 0; i < hexLen - 1 && bytesReceived < maxSize; i += 2)\<close> loop, on
  the string at \<open>hexStart\<close> whose length \<open>hexLen\<close> is at least 1.\<close>

fun decodePairs :: "string \<Rightarrow> nat \<Rightarrow> u8 list \<Rightarrow> u8 list" where
  "decodePairs [] maxSize received = received"
| "decodePairs [c] maxSize received = received"
| "decodePairs (c1 # c2 # cs) maxSize received =
     (if length received < maxSize
      then decodePairs cs maxSize
             (case hexToByte (c1 # c2 # cs) of None \<Rightarrow> received | Some b \<Rightarrow> received @ [b])
      else received)"

definition processLine :: "string \<Rightarrow> nat \<Rightarrow> u8 list \<Rightarrow> u8 list option" where
  "processLine line maxSize received =
     (if startsWith line (length line) ''BEGIN:'' \<or>
         startsWith line (length line) ''END:'' \<or>
         startsWith line (length line) ''SIZE:'' then Some received
      else (let hexStart = (case findChar (line @ [NUL]) (length line) (CHR '':'') of
                              None \<Rightarrow> 0 | Some colonPos \<Rightarrow> colonPos + 2)
            in if hexStart \<ge> length (cstr line) then None
               else Some (decodePairs (drop hexStart (cstr line)) maxSize received)))"

text \<open>
  The receive loop over the characters that arrive before the timeout; when none is
  left the loop ends by timeout. The state is the bytes stored so far and the current
  line (\<open>linePos\<close> is its length).
\<close>

fun receiveLoop :: "string \<Rightarrow> nat \<Rightarrow> u8 list \<Rightarrow> string \<Rightarrow> (u8 list \<times> string) option" where
  "receiveLoop [] maxSize received line = Some (received, [])"
| "receiveLoop (ch # input) maxSize received line =
     (if \<not> length received < maxSize then Some (received, ch # input)
      else if ch = CHR 0x0D \<or> ch = CHR 0x0A then
        (if length line > 0 then
           (case processLine line maxSize received of
              None \<Rightarrow> None
            | Some received' \<Rightarrow> receiveLoop input maxSize received' [])
         else receiveLoop input maxSize received line)
      else if length line < 255 then receiveLoop input maxSize received (line @ [ch])
      else receiveLoop input maxSize received line)"

definition receiveFile ::
  "SerialStoragePlugin \<Rightarrow> SerialPort \<Rightarrow> nat \<Rightarrow> (SerialPort \<times> u8 list) option" where
  "receiveFile s u maxSize =
     (if \<not> SerialStoragePlugin_isReady s u \<or> maxSize = 0 then Some (u, [])
      else (case receiveLoop (rx u) maxSize [] [] of
              None \<Rightarrow> None
            | Some (received, rest) \<Rightarrow> Some (u\<lparr>rx := rest\<rparr>, received)))"

text \<open>An initialised plugin, and a ready UART with \<open>input\<close> waiting to be read.\<close>

definition serial_fresh :: "bool \<Rightarrow> SerialStoragePlugin" where
  "serial_fresh dbg =
     \<lparr>ser_initialized = True, ser_debugEnabled = dbg, transferInProgress = False,
      currentFilename = replicate MAX_FILENAME_LENGTH NUL, totalBytesTransferred = 0,
      totalFilesTransferred = 0\<rparr>"

definition uart_with :: "string \<Rightarrow> SerialPort" where
  "uart_with input = \<lparr>serialReady = True, tx = [], rx = input\<rparr>"

text \<open>What \<open>streamFile\<close> prints for a file, from an idle plugin with debugging off.\<close>

definition streamed :: "string \<Rightarrow> u8 list \<Rightarrow> string" where
  "streamed name B = tx (fst (snd (streamFile (serial_fresh False) (uart_with []) name B)))"

text \<open>
  The round trip of the hex framing: what one device prints with \<open>streamFile\<close> is what
  the other reads with \<open>receiveFile\<close> into a buffer of \<open>maxSize\<close> bytes.
\<close>

definition hexRoundTrip :: "string \<Rightarrow> u8 list \<Rightarrow> nat \<Rightarrow> u8 list option" where
  "hexRoundTrip name B maxSize =
     map_option snd (receiveFile (serial_fresh False) (uart_with (streamed name B)) maxSize)"

section \<open>The SPI NOR chip\<close>

text \<open>
  The chip is the environment of \<open>EEPROMStoragePlugin\<close>: 16 MiB of cells addressed by
  24 bits, programmed in 256-byte pages and erased in 4 KiB sectors. Programming can
  only clear bits, and inside one command the address wraps within its page; erasing
  sets a whole sector to \<open>0xFF\<close>. \<open>wipClears n\<close> tells whether the \<open>n\<close>-th wait for
  completion sees the write-in-progress bit clear before its timeout. \<open>spiLog\<close> keeps the
  erase, program and read commands in the order they were issued.
\<close>

datatype flash_cmd =
    SECTOR_ERASE nat
  | PAGE_PROGRAM nat "u8 list"
  | READ_DATA nat nat

record Flash =
  cells :: "nat \<Rightarrow> u8"
  jedecId :: u32
  wipClears :: "nat \<Rightarrow> bool"
  waits :: nat
  spiLog :: "flash_cmd list"

definition addr24 :: "u32 \<Rightarrow> nat" where
  "addr24 address = unat address mod 16777216"

definition programCell :: "nat \<Rightarrow> (nat \<Rightarrow> u8) \<Rightarrow> nat \<times> u8 \<Rightarrow> (nat \<Rightarrow> u8)" where
  "programCell a0 m = (\<lambda>(i, d). let a = (a0 div 256) * 256 + (a0 + i) mod 256
                                in m(a := m a AND d))"

definition flash_program :: "Flash \<Rightarrow> nat \<Rightarrow> u8 list \<Rightarrow> Flash" where
  "flash_program f a0 data =
     f\<lparr>cells := fold (\<lambda>id m. programCell a0 m id) (zip [0..<length data] data) (cells f),
       spiLog := spiLog f @ [PAGE_PROGRAM a0 data]\<rparr>"

definition flash_erase :: "Flash \<Rightarrow> nat \<Rightarrow> Flash" where
  "flash_erase f a0 =
     f\<lparr>cells := (\<lambda>a. if a div 4096 = a0 div 4096 then 0xFF else cells f a),
       spiLog := spiLog f @ [SECTOR_ERASE a0]\<rparr>"

definition flash_read :: "Flash \<Rightarrow> nat \<Rightarrow> nat \<Rightarrow> Flash \<times> u8 list" where
  "flash_read f a0 n =
     (f\<lparr>spiLog := spiLog f @ [READ_DATA a0 n]\<rparr>,
      map (\<lambda>i. cells f ((a0 + i) mod 16777216)) [0..<n])"

definition waitForWriteComplete :: "Flash \<Rightarrow> Flash \<times> bool" where
  "waitForWriteComplete f = (f\<lparr>waits := waits f + 1\<rparr>, wipClears f (waits f))"

section \<open>EEPROMStoragePlugin\<close>

definition MAX_FILES :: nat where "MAX_FILES = 64"
definition FILE_ENTRY_SIZE :: nat where "FILE_ENTRY_SIZE = 24"
definition DIRECTORY_SECTOR :: u32 where "DIRECTORY_SECTOR = 0"
definition DATA_START_SECTOR :: u32 where "DATA_START_SECTOR = 1"
definition TOTAL_SECTORS :: u32 where "TOTAL_SECTORS = 4096"
definition STATUS_EMPTY :: u8 where "STATUS_EMPTY = 0xFF"
definition STATUS_ACTIVE :: u8 where "STATUS_ACTIVE = 0xAA"
definition STATUS_DELETED :: u8 where "STATUS_DELETED = 0x55"
definition STATUS_ERROR :: int where "STATUS_ERROR = 1"

record FileEntry =
  filename :: string
  startSector :: u32
  sizeBytes :: u32
  sizeComplement :: u32
  status :: u8
  reserved :: "u8 list"

record EEPROMStoragePlugin =
  ee_initialized :: bool
  ee_debugEnabled :: bool
  directory :: "FileEntry list"
  nextFreeSector :: u32
  totalFiles :: u32
  deletedFiles :: u32
  chip :: Flash

text \<open>The 24-byte layout of \<open>struct FileEntry\<close> (little-endian, no padding).\<close>

definition le32 :: "u32 \<Rightarrow> u8 list" where
  "le32 w = [ucast w, ucast (drop_bit 8 w), ucast (drop_bit 16 w), ucast (drop_bit 24 w)]"

definition from_le32 :: "u8 list \<Rightarrow> u32" where
  "from_le32 bs = ucast (bs ! 0) OR push_bit 8 (ucast (bs ! 1)) OR
                  push_bit 16 (ucast (bs ! 2)) OR push_bit 24 (ucast (bs ! 3))"

definition entryBytes :: "FileEntry \<Rightarrow> u8 list" where
  "entryBytes e = map of_char (filename e) @ le32 (startSector e) @ le32 (sizeBytes e) @
                  le32 (sizeComplement e) @ [status e] @ reserved e"

definition parseEntry :: "u8 list \<Rightarrow> FileEntry" where
  "parseEntry bs =
     \<lparr>filename = map (\<lambda>b. char_of (unat b)) (take 8 bs),
      startSector = from_le32 (take 4 (drop 8 bs)),
      sizeBytes = from_le32 (take 4 (drop 12 bs)),
      sizeComplement = from_le32 (take 4 (drop 16 bs)),
      status = bs ! 20,
      reserved = take 3 (drop 21 bs)\<rparr>"

definition directoryBytes :: "FileEntry list \<Rightarrow> u8 list" where
  "directoryBytes dir = concat (map entryBytes dir)"

definition parseDirectory :: "u8 list \<Rightarrow> FileEntry list" where
  "parseDirectory bs =
     map (\<lambda>i. parseEntry (take FILE_ENTRY_SIZE (drop (i * FILE_ENTRY_SIZE) bs))) [0..<MAX_FILES]"

definition readData :: "Flash \<Rightarrow> u32 \<Rightarrow> nat \<Rightarrow> Flash \<times> bool \<times> u8 list" where
  "readData f address n =
     (if n = 0 then (f, False, [])
      else (let (f', bs) = flash_read f (addr24 address) n in (f', True, bs)))"

definition writePage :: "Flash \<Rightarrow> u32 \<Rightarrow> u8 list \<Rightarrow> Flash \<times> bool" where
  "writePage f address data =
     (if length data = 0 \<or> length data > EEPROM_PAGE_SIZE then (f, False)
      else waitForWriteComplete (flash_program f (addr24 address) data))"

definition eraseSector :: "Flash \<Rightarrow> u32 \<Rightarrow> Flash \<times> bool" where
  "eraseSector f sectorNum =
     (if sectorNum \<ge> TOTAL_SECTORS then (f, False)
      else (let address = sectorNum * of_nat EEPROM_SECTOR_SIZE
            in waitForWriteComplete (flash_erase f (addr24 address))))"

definition getSectorCount :: "u32 \<Rightarrow> u32" where
  "getSectorCount sz = (sz + of_nat EEPROM_SECTOR_SIZE - 1) div of_nat EEPROM_SECTOR_SIZE"

definition validateFileEntry :: "FileEntry \<Rightarrow> bool" where
  "validateFileEntry entry =
     (if sizeBytes entry \<noteq> NOT (sizeComplement entry) then False
      else if startSector entry < DATA_START_SECTOR \<or> startSector entry \<ge> TOTAL_SECTORS then False
      else if safeStrlen (filename entry) MAX_FILENAME_LENGTH = 0 then False
      else True)"

text \<open>
  The counting loop of \<open>loadDirectory\<close>, entry by entry, with the three counters it
  updates.
\<close>

fun loadLoop :: "FileEntry list \<Rightarrow> u32 \<Rightarrow> u32 \<Rightarrow> u32 \<Rightarrow> FileEntry list \<times> u32 \<times> u32 \<times> u32" where
  "loadLoop [] tot del nfs = ([], tot, del, nfs)"
| "loadLoop (e # es) tot del nfs =
     (if status e = STATUS_ACTIVE then
        (if validateFileEntry e then
           (let fileEndSector = startSector e + getSectorCount (sizeBytes e);
                nfs' = (if fileEndSector > nfs then fileEndSector else nfs);
                (es', r) = loadLoop es (tot + 1) del nfs'
            in (e # es', r))
         else
           (let (es', r) = loadLoop es tot (del + 1) nfs
            in (e\<lparr>status := STATUS_DELETED\<rparr> # es', r)))
      else if status e = STATUS_DELETED then
        (let (es', r) = loadLoop es tot (del + 1) nfs in (e # es', r))
      else
        (let (es', r) = loadLoop es tot del nfs in (e # es', r)))"

definition loadDirectory :: "EEPROMStoragePlugin \<Rightarrow> EEPROMStoragePlugin \<times> bool" where
  "loadDirectory p =
     (let (f, ok, bs) = readData (chip p) 0 (MAX_FILES * FILE_ENTRY_SIZE)
      in if \<not> ok then (p\<lparr>chip := f\<rparr>, False)
         else (let (dir, tot, del, nfs) = loadLoop (parseDirectory bs) 0 0 DATA_START_SECTOR
               in (p\<lparr>chip := f, directory := dir, totalFiles := tot, deletedFiles := del,
                     nextFreeSector := nfs\<rparr>, True)))"

text \<open>The page loop of \<open>saveDirectory\<close>.\<close>

function saveLoop :: "Flash \<Rightarrow> u32 \<Rightarrow> u8 list \<Rightarrow> Flash \<times> bool" where
  "saveLoop f address remaining =
     (if remaining = [] then (f, True)
      else (let pageSize = min (length remaining) EEPROM_PAGE_SIZE;
                (f', ok) = writePage f address (take pageSize remaining)
            in if \<not> ok then (f', False)
               else saveLoop f' (address + of_nat pageSize) (drop pageSize remaining)))"
  by pat_completeness auto
termination
  by (relation "measure (\<lambda>(f, address, remaining). length remaining)")
     (auto simp: EEPROM_PAGE_SIZE_def)

definition saveDirectory :: "EEPROMStoragePlugin \<Rightarrow> EEPROMStoragePlugin \<times> bool" where
  "saveDirectory p =
     (let (f, ok) = eraseSector (chip p) DIRECTORY_SECTOR
      in if \<not> ok then (p\<lparr>chip := f\<rparr>, False)
         else (let (f', ok') = saveLoop f 0 (directoryBytes (directory p))
               in (p\<lparr>chip := f'\<rparr>, ok')))"

text \<open>The index of the first entry that satisfies \<open>P\<close>: the linear searches of the
  directory.\<close>

fun firstIndex :: "('a \<Rightarrow> bool) \<Rightarrow> 'a list \<Rightarrow> nat option" where
  "firstIndex P [] = None"
| "firstIndex P (x # xs) = (if P x then Some 0 else map_option Suc (firstIndex P xs))"

definition findFileEntry :: "EEPROMStoragePlugin \<Rightarrow> string \<Rightarrow> nat option" where
  "findFileEntry p name =
     firstIndex (\<lambda>e. status e = STATUS_ACTIVE \<and>
                      equalsIgnoreCase (filename e) MAX_FILENAME_LENGTH name)
       (take MAX_FILES (directory p))"

definition findEmptyEntry :: "EEPROMStoragePlugin \<Rightarrow> nat option" where
  "findEmptyEntry p =
     firstIndex (\<lambda>e. status e = STATUS_EMPTY \<or> status e = STATUS_DELETED)
       (take MAX_FILES (directory p))"

text \<open>\<open>defragment\<close> is a stub that reports failure.\<close>

definition defragment :: "EEPROMStoragePlugin \<Rightarrow> EEPROMStoragePlugin \<times> bool" where
  "defragment p = (p, False)"

definition allocateSectors :: "EEPROMStoragePlugin \<Rightarrow> u32 \<Rightarrow> EEPROMStoragePlugin \<times> u32" where
  "allocateSectors p sz =
     (let sectorsNeeded = getSectorCount sz;
          alloc = (\<lambda>q. (q\<lparr>nextFreeSector := nextFreeSector q + sectorsNeeded\<rparr>, nextFreeSector q))
      in if nextFreeSector p + sectorsNeeded > TOTAL_SECTORS then
           (let (p', ok) = defragment p
            in if ok then
                 (if nextFreeSector p' + sectorsNeeded > TOTAL_SECTORS then (p', 0) else alloc p')
               else (p', 0))
         else alloc p)"

definition freeSectors :: "EEPROMStoragePlugin \<Rightarrow> u32 \<Rightarrow> u32 \<Rightarrow> EEPROMStoragePlugin" where
  "freeSectors p start sz =
     (let sectorsToFree = getSectorCount sz
      in p\<lparr>chip := fold (\<lambda>i f. fst (eraseSector f (start + of_nat i)))
                        [0..<unat sectorsToFree] (chip p)\<rparr>)"

definition EEPROMStoragePlugin_deleteFile ::
  "EEPROMStoragePlugin \<Rightarrow> string \<Rightarrow> EEPROMStoragePlugin \<times> bool" where
  "EEPROMStoragePlugin_deleteFile p name =
     (if \<not> ee_initialized p then (p, False)
      else (case findFileEntry p name of
              None \<Rightarrow> (p, False)
            | Some i \<Rightarrow>
               (let p1 = p\<lparr>directory := (directory p)[i := (directory p ! i)\<lparr>status := STATUS_DELETED\<rparr>],
                           totalFiles := totalFiles p - 1,
                           deletedFiles := deletedFiles p + 1\<rparr>
                in saveDirectory p1)))"

text \<open>The page loop of \<open>writeFile\<close>; \<open>address\<close> is the start of the extent.\<close>

function writeLoop :: "Flash \<Rightarrow> u32 \<Rightarrow> u8 list \<Rightarrow> nat \<Rightarrow> Flash \<times> bool" where
  "writeLoop f address remaining totalWritten =
     (if remaining = [] then (f, True)
      else (let pageSize = min (length remaining) EEPROM_PAGE_SIZE;
                (f', ok) = writePage f (address + of_nat totalWritten) (take pageSize remaining)
            in if \<not> ok then (f', False)
               else writeLoop f' address (drop pageSize remaining) (totalWritten + pageSize)))"
  by pat_completeness auto
termination
  by (relation "measure (\<lambda>(f, address, remaining, totalWritten). length remaining)")
     (auto simp: EEPROM_PAGE_SIZE_def)

text \<open>
  \<open>writeFile\<close>. The length of \<open>data\<close> is the \<open>size_t size\<close> of the source, a 16-bit
  \<open>unsigned int\<close> on the AVR target, so \<open>~size\<close> is a 16-bit complement that is
  zero-extended when stored in the 32-bit \<open>sizeComplement\<close>. The result is the new
  state and the number of bytes reported as written.
\<close>

definition EEPROMStoragePlugin_writeFile ::
  "EEPROMStoragePlugin \<Rightarrow> string \<Rightarrow> u8 list \<Rightarrow> EEPROMStoragePlugin \<times> nat" where
  "EEPROMStoragePlugin_writeFile p name data =
     (if \<not> ee_initialized p \<or> length data = 0 then (p, 0)
      else
        (let p1 = (case findFileEntry p name of
                     None \<Rightarrow> p
                   | Some i \<Rightarrow> fst (EEPROMStoragePlugin_deleteFile p name))
         in case findEmptyEntry p1 of
              None \<Rightarrow> (p1, 0)
            | Some j \<Rightarrow>
               (let (p2, start) = allocateSectors p1 (of_nat (length data))
                in if start = 0 then (p2, 0)
                   else
                     (let address = start * of_nat EEPROM_SECTOR_SIZE;
                          (f, ok) = writeLoop (chip p2) address data 0;
                          p3 = p2\<lparr>chip := f\<rparr>
                      in if \<not> ok then (freeSectors p3 start (of_nat (length data)), 0)
                         else
                           (let entry = directory p3 ! j;
                                entry' = entry\<lparr>filename := fst (safeCopy (filename entry) MAX_FILENAME_LENGTH name),
                                               startSector := start,
                                               sizeBytes := of_nat (length data),
                                               sizeComplement := ucast (NOT (of_nat (length data) :: u16)),
                                               status := STATUS_ACTIVE\<rparr>;
                                p4 = p3\<lparr>directory := (directory p3)[j := entry']\<rparr>;
                                (p5, saved) = saveDirectory p4
                            in if \<not> saved then (freeSectors p5 start (of_nat (length data)), 0)
                               else (p5\<lparr>totalFiles := totalFiles p5 + 1\<rparr>, length data))))))"

text \<open>\<open>readFile\<close>: the new state, the number of bytes returned and the bytes stored at
  the start of the destination buffer.\<close>

definition EEPROMStoragePlugin_readFile ::
  "EEPROMStoragePlugin \<Rightarrow> string \<Rightarrow> nat \<Rightarrow> EEPROMStoragePlugin \<times> nat \<times> u8 list" where
  "EEPROMStoragePlugin_readFile p name maxSize =
     (if \<not> ee_initialized p \<or> maxSize = 0 then (p, 0, [])
      else (case findFileEntry p name of
              None \<Rightarrow> (p, 0, [])
            | Some i \<Rightarrow>
               (let entry = directory p ! i;
                    bytesToRead = min (unat (sizeBytes entry)) maxSize;
                    address = startSector entry * of_nat EEPROM_SECTOR_SIZE;
                    (f, ok, bs) = readData (chip p) address bytesToRead
                in if \<not> ok then (p\<lparr>chip := f\<rparr>, 0, [])
                   else (p\<lparr>chip := f\<rparr>, bytesToRead, bs))))"

definition EEPROMStoragePlugin_fileExists :: "EEPROMStoragePlugin \<Rightarrow> string \<Rightarrow> bool" where
  "EEPROMStoragePlugin_fileExists p name = (findFileEntry p name \<noteq> None)"

definition EEPROMStoragePlugin_getFileSize :: "EEPROMStoragePlugin \<Rightarrow> string \<Rightarrow> u32" where
  "EEPROMStoragePlugin_getFileSize p name =
     (case findFileEntry p name of None \<Rightarrow> 0 | Some i \<Rightarrow> sizeBytes (directory p ! i))"

text \<open>\<open>listFiles\<close>: the names copied into the caller's slots, as C strings.\<close>

definition EEPROMStoragePlugin_listFiles :: "EEPROMStoragePlugin \<Rightarrow> nat \<Rightarrow> string list" where
  "EEPROMStoragePlugin_listFiles p maxFiles =
     take maxFiles
       (map (\<lambda>e. cstr (fst (safeCopy (replicate MAX_FILENAME_LENGTH NUL) MAX_FILENAME_LENGTH (filename e))))
          (filter (\<lambda>e. status e = STATUS_ACTIVE) (take MAX_FILES (directory p))))"

definition emptyEntry :: FileEntry where
  "emptyEntry = \<lparr>filename = replicate 8 NUL, startSector = 0, sizeBytes = 0,
                 sizeComplement = 0, status = STATUS_EMPTY, reserved = [0, 0, 0]\<rparr>"

definition EEPROMStoragePlugin_format :: "EEPROMStoragePlugin \<Rightarrow> EEPROMStoragePlugin \<times> bool" where
  "EEPROMStoragePlugin_format p =
     saveDirectory (p\<lparr>directory := replicate MAX_FILES emptyEntry, totalFiles := 0,
                      deletedFiles := 0, nextFreeSector := DATA_START_SECTOR\<rparr>)"

text \<open>The demoting loop of \<open>fsck\<close>: the directory and \<open>hasErrors\<close>.\<close>

fun fsckLoop :: "FileEntry list \<Rightarrow> FileEntry list \<times> bool" where
  "fsckLoop [] = ([], False)"
| "fsckLoop (e # es) =
     (let (es', hasErrors) = fsckLoop es
      in if status e = STATUS_ACTIVE \<and> \<not> validateFileEntry e
         then (e\<lparr>status := STATUS_DELETED\<rparr> # es', True)
         else (e # es', hasErrors))"

definition fsck :: "EEPROMStoragePlugin \<Rightarrow> EEPROMStoragePlugin \<times> bool" where
  "fsck p =
     (if \<not> ee_initialized p then (p, False)
      else (let (dir, hasErrors) = fsckLoop (directory p);
                p1 = p\<lparr>directory := dir\<rparr>
            in if hasErrors then (fst (loadDirectory (fst (saveDirectory p1))), False)
               else (p1, True)))"

definition EEPROMStoragePlugin_initialize :: "EEPROMStoragePlugin \<Rightarrow> EEPROMStoragePlugin \<times> int" where
  "EEPROMStoragePlugin_initialize p =
     (if ee_initialized p then (p, STATUS_OK)
      else if jedecId (chip p) = 0x000000 \<or> jedecId (chip p) = 0xFFFFFF then (p, STATUS_ERROR)
      else (let (p1, loaded) = loadDirectory p
            in if \<not> loaded then
                 (let (p2, formatted) = EEPROMStoragePlugin_format p1
                  in if \<not> formatted then (p2, STATUS_ERROR)
                     else (p2\<lparr>ee_initialized := True\<rparr>, STATUS_OK))
               else (p1\<lparr>ee_initialized := True\<rparr>, STATUS_OK)))"

definition EEPROMStoragePlugin_isReady :: "EEPROMStoragePlugin \<Rightarrow> bool" where
  "EEPROMStoragePlugin_isReady p = ee_initialized p"

text \<open>The state built by the constructor, attached to the chip \<open>f\<close>.\<close>

definition eeprom_constructed :: "Flash \<Rightarrow> EEPROMStoragePlugin" where
  "eeprom_constructed f =
     \<lparr>ee_initialized = False, ee_debugEnabled = False,
      directory = replicate MAX_FILES
        \<lparr>filename = replicate 8 NUL, startSector = 0, sizeBytes = 0, sizeComplement = 0,
         status = 0, reserved = [0, 0, 0]\<rparr>,
      nextFreeSector = DATA_START_SECTOR, totalFiles = 0, deletedFiles = 0, chip = f\<rparr>"

text \<open>A W25Q128 whose cells are all erased and whose operations complete in time.\<close>

definition blankChip :: Flash where
  "blankChip = \<lparr>cells = (\<lambda>a. 0xFF), jedecId = 0xEF4018, wipClears = (\<lambda>n. True), waits = 0,
                spiLog = []\<rparr>"

text \<open>The plugin after \<open>initialize()\<close> and \<open>format()\<close> on the blank chip.\<close>

definition eeprom_formatted :: EEPROMStoragePlugin where
  "eeprom_formatted = fst (EEPROMStoragePlugin_format (fst (EEPROMStoragePlugin_initialize (eeprom_constructed blankChip))))"

section \<open>SDCardStoragePlugin\<close>

text \<open>
  The FAT library and the two sense pins are the plugin's environment. The volume is an
  association from names to contents; opening a file for writing creates it when it is
  missing and appends, as the Arduino SD library does, and \<open>mkdir\<close> succeeds.
\<close>

record SdCard =
  cardDetectLow :: bool
  writeProtectHigh :: bool
  sdFiles :: "(string \<times> u8 list) list"

record SDCardStoragePlugin =
  sd_initialized :: bool
  cardPresent :: bool
  writeProtected :: bool
  sd_debugEnabled :: bool
  cardSize :: u32
  freeSpace :: u32
  card :: SdCard

definition SDCardStoragePlugin_isReady :: "SDCardStoragePlugin \<Rightarrow> bool" where
  "SDCardStoragePlugin_isReady p = (sd_initialized p \<and> cardPresent p \<and> \<not> writeProtected p)"

definition checkCardStatus :: "SDCardStoragePlugin \<Rightarrow> SDCardStoragePlugin" where
  "checkCardStatus p = p\<lparr>cardPresent := cardDetectLow (card p),
                          writeProtected := writeProtectHigh (card p)\<rparr>"

definition SDCardStoragePlugin_writeFile ::
  "SDCardStoragePlugin \<Rightarrow> string \<Rightarrow> u8 list \<Rightarrow> SDCardStoragePlugin \<times> nat" where
  "SDCardStoragePlugin_writeFile p name data =
     (if \<not> SDCardStoragePlugin_isReady p \<or> length data = 0 then (p, 0)
      else (let p1 = checkCardStatus p
            in if \<not> cardPresent p1 \<or> writeProtected p1 then (p1, 0)
               else (let old = (case map_of (sdFiles (card p1)) (cstr name) of
                                  None \<Rightarrow> [] | Some c \<Rightarrow> c);
                         files' = AList.update (cstr name) (old @ data) (sdFiles (card p1));
                         bytesWritten = length data;
                         p2 = p1\<lparr>card := (card p1)\<lparr>sdFiles := files'\<rparr>\<rparr>
                     in (p2\<lparr>freeSpace := (if freeSpace p2 > of_nat bytesWritten
                                           then freeSpace p2 - of_nat bytesWritten else 0)\<rparr>,
                         bytesWritten))))"

definition SDCardStoragePlugin_readFile ::
  "SDCardStoragePlugin \<Rightarrow> string \<Rightarrow> nat \<Rightarrow> SDCardStoragePlugin \<times> nat \<times> u8 list" where
  "SDCardStoragePlugin_readFile p name maxSize =
     (if \<not> sd_initialized p \<or> \<not> cardPresent p \<or> maxSize = 0 then (p, 0, [])
      else (let p1 = checkCardStatus p
            in if \<not> cardPresent p1 then (p1, 0, [])
               else (case map_of (sdFiles (card p1)) (cstr name) of
                       None \<Rightarrow> (p1, 0, [])
                     | Some c \<Rightarrow> (p1, min (length c) maxSize, take maxSize c))))"

definition SDCardStoragePlugin_fileExists :: "SDCardStoragePlugin \<Rightarrow> string \<Rightarrow> bool" where
  "SDCardStoragePlugin_fileExists p name =
     (if \<not> sd_initialized p \<or> \<not> cardPresent p then False
      else map_of (sdFiles (card p)) (cstr name) \<noteq> None)"

definition SDCardStoragePlugin_getFileSize :: "SDCardStoragePlugin \<Rightarrow> string \<Rightarrow> u32" where
  "SDCardStoragePlugin_getFileSize p name =
     (if \<not> sd_initialized p \<or> \<not> cardPresent p then 0
      else (case map_of (sdFiles (card p)) (cstr name) of
              None \<Rightarrow> 0 | Some c \<Rightarrow> of_nat (length c)))"

section \<open>FileSystemManager\<close>

datatype StorageType = STORAGE_SD_CARD | STORAGE_EEPROM | STORAGE_SERIAL | STORAGE_AUTO

text \<open>
  The three plugin objects and the UART live outside the manager, which holds pointers
  to them. A registered pointer is a flag; \<open>currentStorage\<close> is the kind of the
  plugin the pointer designates, or \<open>None\<close> for \<open>nullptr\<close>.
\<close>

record World =
  sd :: SDCardStoragePlugin
  eeprom :: EEPROMStoragePlugin
  serial :: SerialStoragePlugin
  uart :: SerialPort

record FileSystemManager =
  sdCardPlugin :: bool
  eepromPlugin :: bool
  serialPlugin :: bool
  currentStorage :: "StorageType option"
  currentStorageType :: StorageType
  fsm_initialized :: bool
  fsm_debugEnabled :: bool
  totalFilesWritten :: u32
  totalBytesWritten :: u32
  totalFilesRead :: u32
  totalBytesRead :: u32
  transferBuffer :: "u8 list"

text \<open>Virtual dispatch through an \<open>IStoragePlugin*\<close> that designates the plugin of
  kind \<open>k\<close>.\<close>

definition plugin_isReady :: "World \<Rightarrow> StorageType \<Rightarrow> bool" where
  "plugin_isReady w k =
     (case k of
        STORAGE_SD_CARD \<Rightarrow> SDCardStoragePlugin_isReady (sd w)
      | STORAGE_EEPROM \<Rightarrow> EEPROMStoragePlugin_isReady (eeprom w)
      | STORAGE_SERIAL \<Rightarrow> SerialStoragePlugin_isReady (serial w) (uart w)
      | STORAGE_AUTO \<Rightarrow> False)"

definition plugin_fileExists :: "World \<Rightarrow> StorageType \<Rightarrow> string \<Rightarrow> bool" where
  "plugin_fileExists w k name =
     (case k of
        STORAGE_SD_CARD \<Rightarrow> SDCardStoragePlugin_fileExists (sd w) name
      | STORAGE_EEPROM \<Rightarrow> EEPROMStoragePlugin_fileExists (eeprom w) name
      | STORAGE_SERIAL \<Rightarrow> SerialStoragePlugin_fileExists (serial w) name
      | STORAGE_AUTO \<Rightarrow> False)"

definition plugin_getFileSize :: "World \<Rightarrow> StorageType \<Rightarrow> string \<Rightarrow> u32" where
  "plugin_getFileSize w k name =
     (case k of
        STORAGE_SD_CARD \<Rightarrow> SDCardStoragePlugin_getFileSize (sd w) name
      | STORAGE_EEPROM \<Rightarrow> EEPROMStoragePlugin_getFileSize (eeprom w) name
      | STORAGE_SERIAL \<Rightarrow> SerialStoragePlugin_getFileSize (serial w) name
      | STORAGE_AUTO \<Rightarrow> 0)"

definition plugin_readFile :: "World \<Rightarrow> StorageType \<Rightarrow> string \<Rightarrow> nat \<Rightarrow> World \<times> nat \<times> u8 list" where
  "plugin_readFile w k name maxSize =
     (case k of
        STORAGE_SD_CARD \<Rightarrow>
          (let (p, n, bs) = SDCardStoragePlugin_readFile (sd w) name maxSize in (w\<lparr>sd := p\<rparr>, n, bs))
      | STORAGE_EEPROM \<Rightarrow>
          (let (p, n, bs) = EEPROMStoragePlugin_readFile (eeprom w) name maxSize
           in (w\<lparr>eeprom := p\<rparr>, n, bs))
      | STORAGE_SERIAL \<Rightarrow>
          (let (u, n, bs) = SerialStoragePlugin_readFile (serial w) (uart w) name maxSize
           in (w\<lparr>uart := u\<rparr>, n, bs))
      | STORAGE_AUTO \<Rightarrow> (w, 0, []))"

definition plugin_writeFile :: "World \<Rightarrow> StorageType \<Rightarrow> string \<Rightarrow> u8 list \<Rightarrow> World \<times> nat" where
  "plugin_writeFile w k name data =
     (case k of
        STORAGE_SD_CARD \<Rightarrow>
          (let (p, n) = SDCardStoragePlugin_writeFile (sd w) name data in (w\<lparr>sd := p\<rparr>, n))
      | STORAGE_EEPROM \<Rightarrow>
          (let (p, n) = EEPROMStoragePlugin_writeFile (eeprom w) name data in (w\<lparr>eeprom := p\<rparr>, n))
      | STORAGE_SERIAL \<Rightarrow>
          (let (s, u, n) = SerialStoragePlugin_writeFile (serial w) (uart w) name data
           in (w\<lparr>serial := s, uart := u\<rparr>, n))
      | STORAGE_AUTO \<Rightarrow> (w, 0))"

text \<open>\<open>getName()\<close> of the plugin of kind \<open>k\<close>.\<close>

definition plugin_getName :: "StorageType \<Rightarrow> string" where
  "plugin_getName k =
     (case k of
        STORAGE_SD_CARD \<Rightarrow> ''SD Card''
      | STORAGE_EEPROM \<Rightarrow> ''EEPROM''
      | STORAGE_SERIAL \<Rightarrow> ''Serial''
      | STORAGE_AUTO \<Rightarrow> [])"

text \<open>A diagnostic line of the manager: \<open>if (debugEnabled) Serial.println(...)\<close>.\<close>

definition fsm_println :: "FileSystemManager \<Rightarrow> World \<Rightarrow> string \<Rightarrow> World" where
  "fsm_println m w msg =
     (if fsm_debugEnabled m then w\<lparr>uart := serial_print (uart w) (msg @ CRLF)\<rparr> else w)"

definition getPluginByType :: "FileSystemManager \<Rightarrow> StorageType \<Rightarrow> StorageType option" where
  "getPluginByType m t =
     (case t of
        STORAGE_SD_CARD \<Rightarrow> (if sdCardPlugin m then Some STORAGE_SD_CARD else None)
      | STORAGE_EEPROM \<Rightarrow> (if eepromPlugin m then Some STORAGE_EEPROM else None)
      | STORAGE_SERIAL \<Rightarrow> (if serialPlugin m then Some STORAGE_SERIAL else None)
      | STORAGE_AUTO \<Rightarrow> None)"

definition autoDetectStorage :: "FileSystemManager \<Rightarrow> World \<Rightarrow> StorageType" where
  "autoDetectStorage m w =
     (if sdCardPlugin m \<and> plugin_isReady w STORAGE_SD_CARD then STORAGE_SD_CARD
      else if eepromPlugin m \<and> plugin_isReady w STORAGE_EEPROM then STORAGE_EEPROM
      else if serialPlugin m \<and> plugin_isReady w STORAGE_SERIAL then STORAGE_SERIAL
      else STORAGE_SD_CARD)"

definition setStorageType ::
  "FileSystemManager \<Rightarrow> World \<Rightarrow> StorageType \<Rightarrow> FileSystemManager \<times> World \<times> bool" where
  "setStorageType m w t =
     (if \<not> fsm_initialized m then (m, w, False)
      else (case getPluginByType m t of
              None \<Rightarrow> (m, fsm_println m w ''FileSystemManager: Storage type not available'', False)
            | Some newStorage \<Rightarrow>
                (if \<not> plugin_isReady w newStorage
                 then (m, fsm_println m w ''FileSystemManager: Storage type not available'', False)
                 else (m\<lparr>currentStorage := Some newStorage, currentStorageType := t\<rparr>,
                       fsm_println m w (''FileSystemManager: Storage set to '' @ plugin_getName newStorage),
                       True))))"

definition FileSystemManager_update ::
  "FileSystemManager \<Rightarrow> World \<Rightarrow> FileSystemManager \<times> World \<times> int" where
  "FileSystemManager_update m w =
     (if \<not> fsm_initialized m then (m, w, STATUS_NOT_INITIALIZED)
      else (case currentStorage m of
              None \<Rightarrow> (m, w, STATUS_OK)
            | Some cur \<Rightarrow>
                (if \<not> plugin_isReady w cur then
                   (let newType = autoDetectStorage m w
                    in if newType \<noteq> currentStorageType m
                       then (let w1 = fsm_println m w ''FileSystemManager: Storage changed, switching'';
                                 (m', w2, switched) = setStorageType m w1 newType
                             in (m', w2, STATUS_OK))
                       else (m, w, STATUS_OK))
                 else (m, w, STATUS_OK))))"

text \<open>
  \<open>isValidFilename\<close>. Plain \<open>char\<close> is signed on the AVR, so \<open>ch < 32\<close> also holds
  for the characters from 0x80 up.
\<close>

definition invalidChar :: "char \<Rightarrow> bool" where
  "invalidChar ch =
     ((of_char ch :: nat) \<ge> 128 \<or> (of_char ch :: nat) < 32 \<or> ch \<in> set [CHR ''/'', CHR 0x5C, CHR '':'', CHR ''*'', CHR ''?'', CHR 0x22,
                 CHR ''<'', CHR ''>'', CHR ''|''])"

definition isValidFilename :: "string \<Rightarrow> bool" where
  "isValidFilename name =
     (let len = safeStrlen name MAX_FILENAME_LENGTH
      in if len = 0 \<or> len \<ge> MAX_FILENAME_LENGTH then False
         else \<not> list_ex invalidChar (take len name))"

definition FileSystemManager_writeFile ::
  "FileSystemManager \<Rightarrow> World \<Rightarrow> string \<Rightarrow> u8 list \<Rightarrow> FileSystemManager \<times> World \<times> nat" where
  "FileSystemManager_writeFile m w name data =
     (if \<not> fsm_initialized m \<or> length data = 0 then (m, w, 0)
      else (case currentStorage m of
              None \<Rightarrow> (m, w, 0)
            | Some cur \<Rightarrow>
                (if \<not> isValidFilename name
                 then (m, fsm_println m w ''FileSystemManager: Invalid filename'', 0)
                 else if \<not> plugin_isReady w cur
                 then (m, fsm_println m w ''FileSystemManager: Storage not ready'', 0)
                 else (let (w', bytesWritten) = plugin_writeFile w cur name data
                       in if bytesWritten > 0
                          then (m\<lparr>totalFilesWritten := totalFilesWritten m + 1,
                                  totalBytesWritten := totalBytesWritten m + of_nat bytesWritten\<rparr>,
                                fsm_println m w' (''FileSystemManager: Wrote '' @ printDec bytesWritten @
                                                  '' bytes to '' @ cstr name),
                                bytesWritten)
                          else (m, fsm_println m w' (''FileSystemManager: Failed to write '' @ cstr name),
                                bytesWritten)))))"

definition FileSystemManager_readFile ::
  "FileSystemManager \<Rightarrow> World \<Rightarrow> string \<Rightarrow> nat \<Rightarrow> FileSystemManager \<times> World \<times> nat \<times> u8 list" where
  "FileSystemManager_readFile m w name maxSize =
     (if \<not> fsm_initialized m \<or> maxSize = 0 then (m, w, 0, [])
      else (case currentStorage m of
              None \<Rightarrow> (m, w, 0, [])
            | Some cur \<Rightarrow>
                (if \<not> isValidFilename name
                 then (m, fsm_println m w ''FileSystemManager: Invalid filename'', 0, [])
                 else if \<not> plugin_isReady w cur
                 then (m, fsm_println m w ''FileSystemManager: Storage not ready'', 0, [])
                 else (let (w', bytesRead, bs) = plugin_readFile w cur name maxSize
                       in if bytesRead > 0
                          then (m\<lparr>totalFilesRead := totalFilesRead m + 1,
                                  totalBytesRead := totalBytesRead m + of_nat bytesRead\<rparr>,
                                fsm_println m w' (''FileSystemManager: Read '' @ printDec bytesRead @
                                                  '' bytes from '' @ cstr name),
                                bytesRead, bs)
                          else (m, fsm_println m w' (''FileSystemManager: Failed to read '' @ cstr name),
                                bytesRead, bs)))))"

text \<open>
  \<open>copyFile\<close>. The bytes read from the source land at the start of
  \<open>transferBuffer\<close>, which is then handed to the destination. Each refusal after the
  readiness test prints one diagnostic line when the manager's debugging is on.
\<close>

definition copyFile ::
  "FileSystemManager \<Rightarrow> World \<Rightarrow> string \<Rightarrow> StorageType \<Rightarrow> StorageType \<Rightarrow>
     FileSystemManager \<times> World \<times> bool" where
  "copyFile m w name sourceType destType =
     (if sourceType = destType then (m, w, False)
      else (case (getPluginByType m sourceType, getPluginByType m destType) of
              (Some sourcePlugin, Some destPlugin) \<Rightarrow>
                (if \<not> plugin_isReady w sourcePlugin \<or> \<not> plugin_isReady w destPlugin
                 then (m, w, False)
                 else if \<not> plugin_fileExists w sourcePlugin name
                 then (m, fsm_println m w ''FileSystemManager: Source file not found'', False)
                 else (let fileSize = plugin_getFileSize w sourcePlugin name
                       in if fileSize = 0 \<or> fileSize > of_nat TRANSFER_BUFFER_SIZE
                          then (m, fsm_println m w ''FileSystemManager: File too large for transfer'', False)
                          else (let (w1, bytesRead, bs) =
                                      plugin_readFile w sourcePlugin name (unat fileSize);
                                    m1 = m\<lparr>transferBuffer := bs @ drop (length bs) (transferBuffer m)\<rparr>
                                in if bytesRead \<noteq> unat fileSize
                                   then (m1, fsm_println m1 w1 ''FileSystemManager: Failed to read source file'',
                                         False)
                                   else (let (w2, bytesWritten) =
                                               plugin_writeFile w1 destPlugin name
                                                 (take bytesRead (transferBuffer m1))
                                         in if bytesWritten \<noteq> bytesRead
                                            then (m1, fsm_println m1 w2
                                                        ''FileSystemManager: Failed to write destination file'',
                                                  False)
                                            else (m1, fsm_println m1 w2
                                                        (''FileSystemManager: Copied '' @ cstr name @ '' ('' @
                                                         printDec bytesWritten @ '' bytes)''),
                                                  True)))))
            | _ \<Rightarrow> (m, w, False)))"

section \<open>The run loop\<close>

text \<open>
  \<open>snprintf(filename, sizeof(filename), "data_%04d.bin", fileCounter++)\<close>: \<open>%04d\<close>
  reads the 16-bit counter as an \<open>int\<close>, and the 8-cell buffer keeps seven characters.
\<close>

definition fmt04d :: "int \<Rightarrow> string" where
  "fmt04d v = (if v < 0 then ''-'' @ zeroPad 3 (printDec (nat (- v)))
               else zeroPad 4 (printDec (nat v)))"

definition captureFilename :: "u16 \<Rightarrow> string" where
  "captureFilename fileCounter =
     take (MAX_FILENAME_LENGTH - 1) (''data_'' @ fmt04d (sint fileCounter) @ ''.bin'')"

record System =
  ppm :: ParallelPortManager
  fsm :: FileSystemManager
  world :: World
  fileCounter :: u16

text \<open>
  \<open>processParallelPortData\<close>. The repository holds two copies of \<open>main.cpp\<close> whose
  capture paths differ in the size of the static \<open>dataBuffer\<close>: 256 bytes in
  \<open>src/main.cpp\<close>, and one byte in the copy whose buffer is marked \<open>EMERGENCY: Single
  byte processing\<close>. \<open>B\<close> is \<open>sizeof(dataBuffer)\<close>; everything else is the same in
  the two copies.
\<close>

definition dataBuffer_main :: nat where "dataBuffer_main = 256"
definition dataBuffer_emergency :: nat where "dataBuffer_emergency = 1"

definition processParallelPortData :: "nat \<Rightarrow> nat \<Rightarrow> System \<Rightarrow> System" where
  "processParallelPortData N B sys =
     (let availableBytes = getAvailableBytes (ppm sys)
      in if availableBytes > 0 then
           (let bytesToRead = min availableBytes B;
                (p, dataBuffer) = ParallelPortManager_readData N (ppm sys) bytesToRead;
                sys1 = sys\<lparr>ppm := p\<rparr>
            in if length dataBuffer > 0 then
                 (let name = captureFilename (fileCounter sys1);
                      sys2 = sys1\<lparr>fileCounter := fileCounter sys1 + 1\<rparr>;
                      (m, w, bytesWritten) =
                         FileSystemManager_writeFile (fsm sys2) (world sys2) name dataBuffer
                  in sys2\<lparr>fsm := m, world := w\<rparr>)
               else sys1)
         else sys)"

text \<open>
  One pass of \<open>loop()\<close> as far as the receiver and the storage are concerned:
  the two \<open>update()\<close> calls of \<open>ServiceLocator::updateAll\<close>, then
  \<open>processParallelPortData\<close>. A failing update ends the pass. The steps that follow in
  \<open>loop()\<close> (status display, debug commands, the overflow warning, memory and
  performance monitoring) are left out; no interrupt arrives during the pass.
\<close>

definition loopTick :: "nat \<Rightarrow> nat \<Rightarrow> System \<Rightarrow> System" where
  "loopTick N B sys =
     (let (p, r1, ev) = ParallelPortManager_update (ppm sys);
          sys1 = sys\<lparr>ppm := p\<rparr>
      in if r1 \<noteq> STATUS_OK then sys1
         else (let (m, w, r2) = FileSystemManager_update (fsm sys1) (world sys1);
                   sys2 = sys1\<lparr>fsm := m, world := w\<rparr>
               in if r2 \<noteq> STATUS_OK then sys2
                  else processParallelPortData N B sys2))"

text \<open>A strobe interrupt delivering the byte \<open>b\<close>.\<close>

definition strobe :: "nat \<Rightarrow> u8 \<Rightarrow> System \<Rightarrow> System" where
  "strobe N b sys = sys\<lparr>ppm := fst (handleInterrupt N (pinsOf b) 0 27 (ppm sys))\<rparr>"

text \<open>
  Scenario S1: the SD slot is empty, the NOR is formatted and selected, the serial
  plugin is idle, and the receiver has just been initialised.
\<close>

definition sd_absent :: SDCardStoragePlugin where
  "sd_absent = \<lparr>sd_initialized = True, cardPresent = False, writeProtected = False,
                sd_debugEnabled = False, cardSize = 0, freeSpace = 0,
                card = \<lparr>cardDetectLow = False, writeProtectHigh = False, sdFiles = []\<rparr>\<rparr>"

definition s1_world :: World where
  "s1_world = \<lparr>sd = sd_absent, eeprom = eeprom_formatted, serial = serial_fresh False,
               uart = uart_with []\<rparr>"

definition s1_fsm :: FileSystemManager where
  "s1_fsm = \<lparr>sdCardPlugin = True, eepromPlugin = True, serialPlugin = True,
             currentStorage = Some STORAGE_EEPROM, currentStorageType = STORAGE_EEPROM,
             fsm_initialized = True, fsm_debugEnabled = False,
             totalFilesWritten = 0, totalBytesWritten = 0, totalFilesRead = 0,
             totalBytesRead = 0, transferBuffer = replicate TRANSFER_BUFFER_SIZE 0\<rparr>"

definition s1_system :: System where
  "s1_system = \<lparr>ppm = ppm_initial RING_BUFFER_SIZE, fsm = s1_fsm, world = s1_world,
                fileCounter = 1\<rparr>"

declare saveLoop.simps [simp del]
declare writeLoop.simps [simp del]
declare streamLoop.simps [simp del]

section \<open>Observations on a run\<close>

text \<open>
  What is read off the command log of the chip: the page programs that land in the data
  area (at or above the second sector) and the addresses of the sector erases.
\<close>

definition dataPrograms :: "flash_cmd list \<Rightarrow> (nat \<times> u8 list) list" where
  "dataPrograms log = concat (map (\<lambda>c. case c of PAGE_PROGRAM a d \<Rightarrow> (if a \<ge> 4096 then [(a, d)] else []) | _ \<Rightarrow> []) log)"

definition erases :: "flash_cmd list \<Rightarrow> nat list" where
  "erases log = concat (map (\<lambda>c. case c of SECTOR_ERASE a \<Rightarrow> [a] | _ \<Rightarrow> []) log)"

text \<open>
  Every page program of a command sequence is preceded, in that sequence, by an erase of
  the sector it writes to (\<open>erased\<close> holds the sectors erased so far).
\<close>

fun erasedBeforeWritten :: "nat list \<Rightarrow> flash_cmd list \<Rightarrow> bool" where
  "erasedBeforeWritten erased [] = True"
| "erasedBeforeWritten erased (SECTOR_ERASE a # cs) = erasedBeforeWritten ((a div 4096) # erased) cs"
| "erasedBeforeWritten erased (PAGE_PROGRAM a d # cs) =
     (a div 4096 \<in> set erased \<and> erasedBeforeWritten erased cs)"
| "erasedBeforeWritten erased (READ_DATA a n # cs) = erasedBeforeWritten erased cs"

text \<open>An entry whose two arrays have the size the struct gives them.\<close>

definition wf_entry :: "FileEntry \<Rightarrow> bool" where
  "wf_entry e = (length (filename e) = 8 \<and> length (reserved e) = 3)"

text \<open>The formatted plugin on a chip whose write-in-progress bit never clears.\<close>

definition eeprom_stuck :: EEPROMStoragePlugin where
  "eeprom_stuck = eeprom_formatted\<lparr>chip := (chip eeprom_formatted)\<lparr>wipClears := (\<lambda>n. False)\<rparr>\<rparr>"

text \<open>
  A chip whose first data sector has been used: the one-byte file \<open>"A"\<close> is stored
  on the formatted plugin, and the plugin is then formatted again, which empties the
  directory and makes sector 1 the next free sector.
\<close>

definition c4_reused :: EEPROMStoragePlugin where
  "c4_reused = fst (EEPROMStoragePlugin_format
                      (fst (EEPROMStoragePlugin_writeFile eeprom_formatted ''A'' [0x48])))"

text \<open>
  The properties of an ACTIVE entry: what \<open>validateFileEntry\<close> guarantees, and the
  bound on the end of the extent, \<open>start + ceil(size / SECTOR) \<le> TOTAL_SECTORS\<close>.
\<close>

definition entry_invariant :: "FileEntry \<Rightarrow> bool" where
  "entry_invariant e =
     (sizeBytes e XOR sizeComplement e = 0xFFFFFFFF \<and>
      startSector e \<ge> DATA_START_SECTOR \<and> startSector e < TOTAL_SECTORS)"

definition extent_in_bounds :: "FileEntry \<Rightarrow> bool" where
  "extent_in_bounds e =
     (unat (startSector e) + (unat (sizeBytes e) + EEPROM_SECTOR_SIZE - 1) div EEPROM_SECTOR_SIZE
        \<le> unat TOTAL_SECTORS)"

text \<open>
  A chip whose directory sector starts with the given bytes. The first one holds an
  ACTIVE entry \<open>"A"\<close> of 8192 bytes that starts in sector 4095, with a matching size
  complement; the second one an ACTIVE entry \<open>"A"\<close> of 3 bytes in sector 1. Both
  plugins have been mounted by \<open>initialize()\<close>.
\<close>

definition chip_with_entry :: "u8 list \<Rightarrow> Flash" where
  "chip_with_entry bs = blankChip\<lparr>cells := (\<lambda>a. if a < length bs then bs ! a else 0xFF)\<rparr>"

definition c6_bad_bytes :: "u8 list" where
  "c6_bad_bytes = [0x41, 0, 0, 0, 0, 0, 0, 0,  0xFF, 0x0F, 0, 0,  0x00, 0x20, 0, 0,
                   0xFF, 0xDF, 0xFF, 0xFF,  0xAA,  0, 0, 0]"

definition c6_good_bytes :: "u8 list" where
  "c6_good_bytes = [0x41, 0, 0, 0, 0, 0, 0, 0,  0x01, 0, 0, 0,  0x03, 0, 0, 0,
                    0xFC, 0xFF, 0xFF, 0xFF,  0xAA,  0, 0, 0]"

definition c6_bad :: EEPROMStoragePlugin where
  "c6_bad = fst (EEPROMStoragePlugin_initialize (eeprom_constructed (chip_with_entry c6_bad_bytes)))"

definition c6_good :: EEPROMStoragePlugin where
  "c6_good = fst (EEPROMStoragePlugin_initialize (eeprom_constructed (chip_with_entry c6_good_bytes)))"

text \<open>The manager of scenario S1 with the absent SD card selected.\<close>

definition s3_fsm :: FileSystemManager where
  "s3_fsm = s1_fsm\<lparr>currentStorage := Some STORAGE_SD_CARD, currentStorageType := STORAGE_SD_CARD\<rparr>"

text \<open>
  Scenario S1 in motion: the three strobes arrive, then the loop runs. With the 256-byte
  buffer one pass takes the three bytes; with the one-byte buffer three passes are needed.
\<close>

definition s1_strobed :: System where
  "s1_strobed = strobe RING_BUFFER_SIZE 0x0A (strobe RING_BUFFER_SIZE 0x69 (strobe RING_BUFFER_SIZE 0x48 s1_system))"

definition s1_main :: System where
  "s1_main = loopTick RING_BUFFER_SIZE dataBuffer_main s1_strobed"

definition s1_tick1 :: System where
  "s1_tick1 = loopTick RING_BUFFER_SIZE dataBuffer_emergency s1_strobed"

definition s1_tick2 :: System where
  "s1_tick2 = loopTick RING_BUFFER_SIZE dataBuffer_emergency s1_tick1"

definition s1_final :: System where
  "s1_final = loopTick RING_BUFFER_SIZE dataBuffer_emergency
                (loopTick RING_BUFFER_SIZE dataBuffer_emergency
                  (loopTick RING_BUFFER_SIZE dataBuffer_emergency s1_strobed))"

text \<open>The directory entry that \<open>writeFile\<close> builds for a one-byte file captured under
  the name \<open>data_00\<close> in sector \<open>n\<close>.\<close>

definition capturedEntry :: "u32 \<Rightarrow> FileEntry" where
  "capturedEntry n = \<lparr>filename = ''data_00'' @ [NUL], startSector = n, sizeBytes = 1,
                       sizeComplement = 0xFFFE, status = STATUS_ACTIVE, reserved = [0, 0, 0]\<rparr>"

text \<open>The entry built for the three bytes captured in one pass, in sector 1.\<close>

definition capturedEntry3 :: FileEntry where
  "capturedEntry3 = \<lparr>filename = ''data_00'' @ [NUL], startSector = 1, sizeBytes = 3,
                      sizeComplement = 0xFFFC, status = STATUS_ACTIVE, reserved = [0, 0, 0]\<rparr>"

section \<open>Properties of the parallel receiver\<close>

lemmas pin_defs = LPT_DATA0_PIN_def LPT_DATA1_PIN_def LPT_DATA2_PIN_def LPT_DATA3_PIN_def
  LPT_DATA4_PIN_def LPT_DATA5_PIN_def LPT_DATA6_PIN_def LPT_DATA7_PIN_def
  LPT_ACKNOWLEDGE_PIN_def LPT_BUSY_PIN_def LPT_ACTIVITY_LED_PIN_def

lemma handleInterrupt_trace:
  "captureEnabled p \<Longrightarrow> ppm_initialized p \<Longrightarrow>
   snd (handleInterrupt N pins t0 t1 p) =
     [DigitalWrite LPT_BUSY_PIN True, DelayMicroseconds HARDWARE_DELAY] @ readDataEvents @
     [BufferWrite (readDataPins pins) (count (ringBuffer p) < N),
      DigitalWrite LPT_ACKNOWLEDGE_PIN False, DelayMicroseconds ACK_PULSE_WIDTH,
      DigitalWrite LPT_ACKNOWLEDGE_PIN True, DigitalWrite LPT_BUSY_PIN False]"
  by (auto simp: handleInterrupt_def RingBuffer_write_def Let_def split: prod.splits)

lemma handleInterrupt_full:
  assumes "captureEnabled p" "ppm_initialized p" "count (ringBuffer p) \<ge> N"
  shows "ringBuffer (fst (handleInterrupt N pins t0 t1 p)) = (ringBuffer p)\<lparr>overflowFlag := True\<rparr>"
    "overflowCount (fst (handleInterrupt N pins t0 t1 p)) = overflowCount p"
    "totalInterrupts (fst (handleInterrupt N pins t0 t1 p)) = totalInterrupts p + 1"
    "bytesReceived (fst (handleInterrupt N pins t0 t1 p)) = bytesReceived p"
    "captureEnabled (fst (handleInterrupt N pins t0 t1 p))"
    "ppm_initialized (fst (handleInterrupt N pins t0 t1 p))"
  using assms
  by (auto simp: handleInterrupt_def RingBuffer_write_def Let_def updateTimingStats_def
           split: prod.splits)

lemma handleInterrupt_room:
  assumes "captureEnabled p" "ppm_initialized p" "count (ringBuffer p) < N"
  shows "ringBuffer (fst (handleInterrupt N pins t0 t1 p)) =
           (ringBuffer p)\<lparr>buffer := (buffer (ringBuffer p))[head (ringBuffer p) := readDataPins pins],
                head := (head (ringBuffer p) + 1) mod N, count := count (ringBuffer p) + 1\<rparr>"
    "overflowCount (fst (handleInterrupt N pins t0 t1 p)) = overflowCount p"
    "totalInterrupts (fst (handleInterrupt N pins t0 t1 p)) = totalInterrupts p + 1"
    "bytesReceived (fst (handleInterrupt N pins t0 t1 p)) = bytesReceived p + 1"
    "captureEnabled (fst (handleInterrupt N pins t0 t1 p))"
    "ppm_initialized (fst (handleInterrupt N pins t0 t1 p))"
  using assms
  by (auto simp: handleInterrupt_def RingBuffer_write_def Let_def updateTimingStats_def
           split: prod.splits)

lemma strobes_counters:
  "captureEnabled p \<Longrightarrow> ppm_initialized p \<Longrightarrow> count (ringBuffer p) \<le> N \<Longrightarrow>
   (let p' = strobes N ds p; c = count (ringBuffer p); c' = min N (c + length ds) in
     count (ringBuffer p') = c' \<and>
     overflowCount p' = overflowCount p \<and>
     totalInterrupts p' = totalInterrupts p + of_nat (length ds) \<and>
     bytesReceived p' = bytesReceived p + of_nat (c' - c) \<and>
     overflowFlag (ringBuffer p') = (overflowFlag (ringBuffer p) \<or> c + length ds > N) \<and>
     captureEnabled p' \<and> ppm_initialized p')"
proof (induction ds arbitrary: p)
  case Nil
  then show ?case by (simp add: Let_def)
next
  case (Cons a ds)
  obtain pins t0 t1 where a: "a = (pins, t0, t1)" by (cases a) auto
  let ?q = "fst (handleInterrupt N pins t0 t1 p)"
  show ?case
  proof (cases "count (ringBuffer p) < N")
    case True
    note h = handleInterrupt_room[OF Cons.prems(1,2) True, of pins t0 t1]
    have c: "count (ringBuffer ?q) = count (ringBuffer p) + 1" by (simp add: h(1))
    have le: "count (ringBuffer ?q) \<le> N" using True c by simp
    from Cons.IH[OF h(5) h(6) le] True c h
    show ?thesis unfolding a by (auto simp: Let_def min_def)
  next
    case False
    then have full: "count (ringBuffer p) \<ge> N" by simp
    note h = handleInterrupt_full[OF Cons.prems(1,2) full, of pins t0 t1]
    have c: "count (ringBuffer ?q) = count (ringBuffer p)" by (simp add: h(1))
    have le: "count (ringBuffer ?q) \<le> N" using Cons.prems(3) c by simp
    from Cons.IH[OF h(5) h(6) le] full c h Cons.prems(3)
    show ?thesis unfolding a by (auto simp: Let_def min_def)
  qed
qed

lemma update_overflow:
  "ppm_initialized p \<Longrightarrow>
   overflowCount (fst (ParallelPortManager_update p)) =
     (if overflowFlag (ringBuffer p) then overflowCount p + 1 else overflowCount p) \<and>
   \<not> overflowFlag (ringBuffer (fst (ParallelPortManager_update p)))"
  by (simp add: ParallelPortManager_update_def RingBuffer_hasOverflow_def
                RingBuffer_clearOverflow_def Let_def)

lemma s2_burst_length: "length s2_burst = 20"
  by (simp add: s2_burst_def)

lemma ppm_initial_facts:
  "captureEnabled (ppm_initial N)" "ppm_initialized (ppm_initial N)"
  "count (ringBuffer (ppm_initial N)) = 0" "overflowCount (ppm_initial N) = 0"
  "totalInterrupts (ppm_initial N) = 0" "bytesReceived (ppm_initial N) = 0"
  "\<not> overflowFlag (ringBuffer (ppm_initial N))"
  by (simp_all add: ppm_initial_def RingBuffer_init_def)

lemma ppm_full2_facts:
  "captureEnabled ppm_full2" "ppm_initialized ppm_full2" "count (ringBuffer ppm_full2) = 2"
  using strobes_counters [of "ppm_initial 2" 2 "[strobe_of 0x41, strobe_of 0x42]"]
  by (simp_all add: Let_def ppm_initial_facts ppm_full2_def)

lemma burst97_length: "length burst97 = 97"
  by (simp add: burst97_def RING_BUFFER_SIZE_def)

text \<open>
  Claim C7 on the code. An ISR execution that finds the ring full leaves the buffer, the
  head, the tail and the count as they are, so the byte is dropped; it latches the ring's
  overflow flag and counts the interrupt, but it does not touch \<open>overflowCount\<close>.
  That counter moves only in \<open>update()\<close>, by one, when the flag is found set. After the
  twenty strobes of scenario S2 into an empty ring of capacity 16 the ring holds the
  bytes 0..15, 16 bytes and 20 interrupts have been counted, the flag is set, and
  \<open>overflowCount\<close> is 0, where the claim asks for 4; the next \<open>update()\<close> makes
  it 1. After the \<open>RING_BUFFER_SIZE + 1\<close> strobes of the repository's overflow test,
  with no \<open>update()\<close>, 96 bytes have been counted and \<open>overflowCount\<close> is 0,
  where that test asserts 1.
\<close>

theorem C7_isr_does_not_count_overflows:
  assumes "captureEnabled p" and "ppm_initialized p" and "N \<le> count (ringBuffer p)"
  shows "ringBuffer (fst (handleInterrupt N pins t0 t1 p)) = (ringBuffer p)\<lparr>overflowFlag := True\<rparr> \<and>
         bytesReceived (fst (handleInterrupt N pins t0 t1 p)) = bytesReceived p \<and>
         totalInterrupts (fst (handleInterrupt N pins t0 t1 p)) = totalInterrupts p + 1 \<and>
         overflowCount (fst (handleInterrupt N pins t0 t1 p)) = overflowCount p \<and>
         overflowCount (fst (ParallelPortManager_update (fst (handleInterrupt N pins t0 t1 p)))) =
           overflowCount p + 1 \<and>
         snd (RingBuffer_readBytes 16 (ringBuffer (strobes 16 s2_burst (ppm_initial 16))) 16) =
           map of_nat [0..<16] \<and>
         bytesReceived (strobes 16 s2_burst (ppm_initial 16)) = 16 \<and>
         totalInterrupts (strobes 16 s2_burst (ppm_initial 16)) = 20 \<and>
         overflowFlag (ringBuffer (strobes 16 s2_burst (ppm_initial 16))) \<and>
         overflowCount (strobes 16 s2_burst (ppm_initial 16)) = 0 \<and>
         overflowCount (fst (ParallelPortManager_update (strobes 16 s2_burst (ppm_initial 16)))) = 1 \<and>
         bytesReceived (strobes RING_BUFFER_SIZE burst97 (ppm_initial RING_BUFFER_SIZE)) = 96 \<and>
         overflowFlag (ringBuffer (strobes RING_BUFFER_SIZE burst97 (ppm_initial RING_BUFFER_SIZE))) \<and>
         overflowCount (strobes RING_BUFFER_SIZE burst97 (ppm_initial RING_BUFFER_SIZE)) = 0"
proof -
  note h = handleInterrupt_full[OF assms, of pins t0 t1]
  have u: "overflowCount (fst (ParallelPortManager_update (fst (handleInterrupt N pins t0 t1 p)))) =
             overflowCount p + 1"
    using update_overflow[OF h(6)] h(1,2) by simp
  have r: "snd (RingBuffer_readBytes 16 (ringBuffer (strobes 16 s2_burst (ppm_initial 16))) 16) =
             map of_nat [0..<16]"
    by code_simp
  note S = strobes_counters [of "ppm_initial 16" 16 s2_burst, unfolded Let_def s2_burst_length,
      OF ppm_initial_facts(1) ppm_initial_facts(2)]
  have a: "bytesReceived (strobes 16 s2_burst (ppm_initial 16)) = 16"
    "totalInterrupts (strobes 16 s2_burst (ppm_initial 16)) = 20"
    "overflowFlag (ringBuffer (strobes 16 s2_burst (ppm_initial 16)))"
    "overflowCount (strobes 16 s2_burst (ppm_initial 16)) = 0"
    "ppm_initialized (strobes 16 s2_burst (ppm_initial 16))"
    using S by (simp_all add: ppm_initial_facts)
  note T = strobes_counters [of "ppm_initial RING_BUFFER_SIZE" RING_BUFFER_SIZE burst97,
      unfolded Let_def burst97_length, OF ppm_initial_facts(1) ppm_initial_facts(2)]
  have b: "bytesReceived (strobes RING_BUFFER_SIZE burst97 (ppm_initial RING_BUFFER_SIZE)) = 96"
    "overflowFlag (ringBuffer (strobes RING_BUFFER_SIZE burst97 (ppm_initial RING_BUFFER_SIZE)))"
    "overflowCount (strobes RING_BUFFER_SIZE burst97 (ppm_initial RING_BUFFER_SIZE)) = 0"
    using T by (simp_all add: ppm_initial_facts RING_BUFFER_SIZE_def)
  from h u r a(1-4) update_overflow[OF a(5)] a(3,4) b show ?thesis by simp
qed

theorem C7_isr_does_not_count_overflows_witness:
  "captureEnabled ppm_full2 \<and> ppm_initialized ppm_full2 \<and> 2 \<le> count (ringBuffer ppm_full2) \<and>
   ringBuffer (fst (handleInterrupt 2 (pinsOf 0x43) 0 27 ppm_full2)) =
     (ringBuffer ppm_full2)\<lparr>overflowFlag := True\<rparr> \<and>
   overflowCount (fst (handleInterrupt 2 (pinsOf 0x43) 0 27 ppm_full2)) = overflowCount ppm_full2 \<and>
   overflowCount (strobes 16 s2_burst (ppm_initial 16)) \<noteq> 4 \<and>
   overflowCount (strobes RING_BUFFER_SIZE burst97 (ppm_initial RING_BUFFER_SIZE)) \<noteq> 1"
  using C7_isr_does_not_count_overflows [of ppm_full2 2 "pinsOf 0x43" 0 27]
  by (simp add: ppm_full2_facts)

text \<open>
  Claim C8. In every execution of the ISR with capture enabled, the events are, in this
  order: BUSY driven high, the settle delay, the eight data-pin reads, the attempt to
  store the byte in the ring, nACK driven low, the pulse delay, nACK driven high, BUSY
  driven low. BUSY is released last, after the store attempt and after nACK is back
  high, and the sequence is the same when the ring is full and the byte is dropped (the
  store attempt then reports failure).
\<close>

theorem C8_busy_released_after_enqueue_and_ack:
  assumes "captureEnabled p" and "ppm_initialized p"
  shows "let es = snd (handleInterrupt N pins t0 t1 p);
             enq = BufferWrite (readDataPins pins) (count (ringBuffer p) < N);
             busyHi = DigitalWrite LPT_BUSY_PIN True; busyLo = DigitalWrite LPT_BUSY_PIN False;
             ackLo = DigitalWrite LPT_ACKNOWLEDGE_PIN False;
             ackHi = DigitalWrite LPT_ACKNOWLEDGE_PIN True
         in es = [busyHi, DelayMicroseconds HARDWARE_DELAY] @ readDataEvents @
                 [enq, ackLo, DelayMicroseconds ACK_PULSE_WIDTH, ackHi, busyLo] \<and>
            hd es = busyHi \<and> last es = busyLo \<and>
            (\<forall>r \<in> set readDataEvents. occurs_before busyHi r es \<and> occurs_before r enq es) \<and>
            occurs_before enq ackLo es \<and> occurs_before ackLo ackHi es \<and>
            occurs_before ackHi busyLo es \<and> occurs_before enq busyLo es"
  unfolding Let_def handleInterrupt_trace[OF assms]
  by (simp add: occurs_before_def readDataEvents_def pin_defs)

theorem C8_busy_released_after_enqueue_and_ack_witness:
  "captureEnabled ppm_full2 \<and> ppm_initialized ppm_full2 \<and>
   snd (handleInterrupt 2 (pinsOf 0x43) 0 27 ppm_full2) =
     [DigitalWrite 43 True, DelayMicroseconds 5,
      DigitalRead 25, DigitalRead 27, DigitalRead 29, DigitalRead 31,
      DigitalRead 33, DigitalRead 35, DigitalRead 37, DigitalRead 39,
      BufferWrite 0x43 False,
      DigitalWrite 41 False, DelayMicroseconds 20, DigitalWrite 41 True,
      DigitalWrite 43 False] \<and>
   occurs_before (DigitalWrite 41 True) (DigitalWrite 43 False)
     (snd (handleInterrupt 2 (pinsOf 0x43) 0 27 ppm_full2))"
proof -
  have e: "snd (handleInterrupt 2 (pinsOf 0x43) 0 27 ppm_full2) =
     [DigitalWrite 43 True, DelayMicroseconds 5,
      DigitalRead 25, DigitalRead 27, DigitalRead 29, DigitalRead 31,
      DigitalRead 33, DigitalRead 35, DigitalRead 37, DigitalRead 39,
      BufferWrite 0x43 False,
      DigitalWrite 41 False, DelayMicroseconds 20, DigitalWrite 41 True,
      DigitalWrite 43 False]"
    using C8_busy_released_after_enqueue_and_ack [of ppm_full2 2 "pinsOf 0x43" 0 27]
    by (simp add: Let_def ppm_full2_facts readDataEvents_def pin_defs HARDWARE_DELAY_def
                  ACK_PULSE_WIDTH_def readDataPins_def pinsOf_def)
  show ?thesis
    unfolding e by (simp add: occurs_before_def ppm_full2_facts)
qed

section \<open>Properties of the flat file system\<close>

lemma strlen_le: "strlen s \<le> length s"
  by (simp add: strlen_def cstr_def length_takeWhile_le)

lemma equalsIgnoreCase_len: "equalsIgnoreCase a n b \<Longrightarrow> strlen b = n"
  by (auto simp: equalsIgnoreCase_def Let_def split: if_splits)

lemma firstIndex_None: "(\<And>x. x \<in> set xs \<Longrightarrow> \<not> P x) \<Longrightarrow> firstIndex P xs = None"
  by (induction xs) auto

lemma findFileEntry_None:
  "strlen name \<noteq> MAX_FILENAME_LENGTH \<Longrightarrow> findFileEntry p name = None"
  unfolding findFileEntry_def
  by (rule firstIndex_None) (auto dest: equalsIgnoreCase_len)

text \<open>What the chip operations leave unchanged, and when they succeed.\<close>

lemma wait_frame [simp]:
  "wipClears (fst (waitForWriteComplete f)) = wipClears f"
  "cells (fst (waitForWriteComplete f)) = cells f"
  "spiLog (fst (waitForWriteComplete f)) = spiLog f"
  "snd (waitForWriteComplete f) = wipClears f (waits f)"
  by (simp_all add: waitForWriteComplete_def)

lemma writePage_wip [simp]: "wipClears (fst (writePage f a d)) = wipClears f"
  by (simp add: writePage_def flash_program_def)

lemma eraseSector_wip [simp]: "wipClears (fst (eraseSector f n)) = wipClears f"
  by (simp add: eraseSector_def flash_erase_def Let_def)

lemma writePage_ok:
  "wipClears f = (\<lambda>n. True) \<Longrightarrow> snd (writePage f a d) = (0 < length d \<and> length d \<le> EEPROM_PAGE_SIZE)"
  by (auto simp: writePage_def flash_program_def)

lemma eraseSector_ok:
  "wipClears f = (\<lambda>n. True) \<Longrightarrow> snd (eraseSector f n) = (n < TOTAL_SECTORS)"
  by (auto simp: eraseSector_def flash_erase_def Let_def)

lemma saveLoop_wip [simp]: "wipClears (fst (saveLoop f a d)) = wipClears f"
proof (induction f a d rule: saveLoop.induct)
  case (1 f address remaining)
  show ?case
  proof (cases "remaining = []")
    case True
    then show ?thesis by (subst saveLoop.simps) simp
  next
    case False
    obtain f' ok where w: "writePage f address (take (min (length remaining) EEPROM_PAGE_SIZE) remaining) = (f', ok)"
      by (cases "writePage f address (take (min (length remaining) EEPROM_PAGE_SIZE) remaining)")
    have f': "wipClears f' = wipClears f" using writePage_wip[of f address "take (min (length remaining) EEPROM_PAGE_SIZE) remaining"] w by simp
    show ?thesis
    proof (cases ok)
      case True
      with 1[OF False refl refl w[symmetric]] f' w False show ?thesis
        by (subst saveLoop.simps) (simp add: Let_def)
    next
      case False
      with f' w \<open>remaining \<noteq> []\<close> show ?thesis
        by (subst saveLoop.simps) (simp add: Let_def)
    qed
  qed
qed

lemma saveLoop_ok: "wipClears f = (\<lambda>n. True) \<Longrightarrow> snd (saveLoop f a d)"
proof (induction f a d rule: saveLoop.induct)
  case (1 f address remaining)
  show ?case
  proof (cases "remaining = []")
    case True
    then show ?thesis by (subst saveLoop.simps) simp
  next
    case False
    let ?pg = "take (min (length remaining) EEPROM_PAGE_SIZE) remaining"
    obtain f' ok where w: "writePage f address ?pg = (f', ok)" by (cases "writePage f address ?pg")
    have f': "wipClears f' = (\<lambda>n. True)" using writePage_wip[of f address ?pg] w 1(2) by simp
    have "ok" using writePage_ok[OF 1(2), of address ?pg] w False by (simp add: EEPROM_PAGE_SIZE_def)
    with 1(1)[OF False refl refl w[symmetric]] f' w False show ?thesis
      by (subst saveLoop.simps) (simp add: Let_def)
  qed
qed

lemma dataPrograms_append [simp]: "dataPrograms (xs @ ys) = dataPrograms xs @ dataPrograms ys"
  by (simp add: dataPrograms_def)

lemma erases_append [simp]: "erases (xs @ ys) = erases xs @ erases ys"
  by (simp add: erases_def)

lemma writePage_log:
  "spiLog (fst (writePage f a d)) =
     (if length d = 0 \<or> length d > EEPROM_PAGE_SIZE then spiLog f
      else spiLog f @ [PAGE_PROGRAM (addr24 a) d])"
  by (simp add: writePage_def flash_program_def)

lemma eraseSector_log:
  "spiLog (fst (eraseSector f n)) =
     (if n \<ge> TOTAL_SECTORS then spiLog f
      else spiLog f @ [SECTOR_ERASE (addr24 (n * of_nat EEPROM_SECTOR_SIZE))])"
  by (simp add: eraseSector_def flash_erase_def Let_def)

lemma addr24_small: "unat a < 16777216 \<Longrightarrow> addr24 a = unat a"
  by (simp add: addr24_def)

text \<open>\<open>saveLoop\<close> programs only below the end of the data it is given, and never erases.\<close>

lemma saveLoop_log:
  "unat a + length d \<le> 4096 \<Longrightarrow>
   dataPrograms (spiLog (fst (saveLoop f a d))) = dataPrograms (spiLog f) \<and>
   erases (spiLog (fst (saveLoop f a d))) = erases (spiLog f)"
proof (induction f a d rule: saveLoop.induct)
  case (1 f address remaining)
  show ?case
  proof (cases "remaining = []")
    case True
    then show ?thesis by (subst (1 2) saveLoop.simps) simp
  next
    case False
    let ?n = "min (length remaining) EEPROM_PAGE_SIZE"
    let ?pg = "take ?n remaining"
    obtain f' ok where w: "writePage f address ?pg = (f', ok)" by (cases "writePage f address ?pg")
    have n: "0 < ?n" "?n \<le> 256" "?n \<le> length remaining" using False by (auto simp: EEPROM_PAGE_SIZE_def)
    have lg: "spiLog f' = spiLog f @ [PAGE_PROGRAM (addr24 address) ?pg]"
      using writePage_log[of f address ?pg] w n by (simp add: EEPROM_PAGE_SIZE_def)
    have small: "addr24 address < 4096"
      using 1(2) False by (cases remaining) (auto simp: addr24_def)
    have f': "dataPrograms (spiLog f') = dataPrograms (spiLog f)" "erases (spiLog f') = erases (spiLog f)"
      using lg small by (simp_all add: dataPrograms_def erases_def)
    show ?thesis
    proof (cases ok)
      case True
      have u: "unat (address + of_nat ?n) = unat address + ?n"
        using 1(2) n by (simp add: unat_word_ariths unat_of_nat)
      have "unat (address + of_nat ?n) + length (drop ?n remaining) \<le> 4096"
        using 1(2) n u by simp
      with 1(1)[OF False refl refl w[symmetric]] True f' w False show ?thesis
        by (subst (1 2) saveLoop.simps) (simp add: Let_def)
    next
      case False
      with f' w \<open>remaining \<noteq> []\<close> show ?thesis
        by (subst (1 2) saveLoop.simps) (simp add: Let_def)
    qed
  qed
qed

lemma writeLoop_wip [simp]: "wipClears (fst (writeLoop f a d t)) = wipClears f"
proof (induction f a d t rule: writeLoop.induct)
  case (1 f address remaining totalWritten)
  show ?case
  proof (cases "remaining = []")
    case True
    then show ?thesis by (subst writeLoop.simps) simp
  next
    case False
    let ?pg = "take (min (length remaining) EEPROM_PAGE_SIZE) remaining"
    obtain f' ok where w: "writePage f (address + of_nat totalWritten) ?pg = (f', ok)"
      by (cases "writePage f (address + of_nat totalWritten) ?pg")
    have f': "wipClears f' = wipClears f"
      using writePage_wip[of f "address + of_nat totalWritten" ?pg] w by simp
    show ?thesis
    proof (cases ok)
      case True
      with 1[OF False refl refl w[symmetric]] f' w False show ?thesis
        by (subst writeLoop.simps) (simp add: Let_def)
    next
      case False
      with f' w \<open>remaining \<noteq> []\<close> show ?thesis
        by (subst writeLoop.simps) (simp add: Let_def)
    qed
  qed
qed

lemma writeLoop_ok: "wipClears f = (\<lambda>n. True) \<Longrightarrow> snd (writeLoop f a d t)"
proof (induction f a d t rule: writeLoop.induct)
  case (1 f address remaining totalWritten)
  show ?case
  proof (cases "remaining = []")
    case True
    then show ?thesis by (subst writeLoop.simps) simp
  next
    case False
    let ?pg = "take (min (length remaining) EEPROM_PAGE_SIZE) remaining"
    obtain f' ok where w: "writePage f (address + of_nat totalWritten) ?pg = (f', ok)"
      by (cases "writePage f (address + of_nat totalWritten) ?pg")
    have f': "wipClears f' = (\<lambda>n. True)"
      using writePage_wip[of f "address + of_nat totalWritten" ?pg] w 1(2) by simp
    have "ok" using writePage_ok[OF 1(2), of "address + of_nat totalWritten" ?pg] w False
      by (simp add: EEPROM_PAGE_SIZE_def)
    with 1(1)[OF False refl refl w[symmetric]] f' w False show ?thesis
      by (subst writeLoop.simps) (simp add: Let_def)
  qed
qed

text \<open>\<open>writeLoop\<close> issues page programs only, the first one at the start of the extent.\<close>

lemma writeLoop_log:
  "\<exists>r. spiLog (fst (writeLoop f a d t)) = spiLog f @ r \<and> erases r = [] \<and>
       (d \<noteq> [] \<longrightarrow> (\<exists>r'. r = PAGE_PROGRAM (addr24 (a + of_nat t)) (take EEPROM_PAGE_SIZE d) # r'))"
proof (induction f a d t rule: writeLoop.induct)
  case (1 f address remaining totalWritten)
  show ?case
  proof (cases "remaining = []")
    case True
    then show ?thesis by (subst writeLoop.simps) (simp add: erases_def)
  next
    case False
    let ?n = "min (length remaining) EEPROM_PAGE_SIZE"
    let ?pg = "take ?n remaining"
    have pg: "?pg = take EEPROM_PAGE_SIZE remaining" by (simp add: min_def)
    obtain f' ok where w: "writePage f (address + of_nat totalWritten) ?pg = (f', ok)"
      by (cases "writePage f (address + of_nat totalWritten) ?pg")
    have n: "0 < ?n" "?n \<le> 256" using False by (auto simp: EEPROM_PAGE_SIZE_def)
    have lg: "spiLog f' = spiLog f @ [PAGE_PROGRAM (addr24 (address + of_nat totalWritten)) ?pg]"
      using writePage_log[of f "address + of_nat totalWritten" ?pg] w n
      by (simp add: EEPROM_PAGE_SIZE_def)
    show ?thesis
    proof (cases ok)
      case True
      from 1[OF False refl refl w[symmetric]] True
      obtain r where r: "spiLog (fst (writeLoop f' address (drop ?n remaining) (totalWritten + ?n))) = spiLog f' @ r"
        "erases r = []" by auto
      have "fst (writeLoop f address remaining totalWritten) =
            fst (writeLoop f' address (drop ?n remaining) (totalWritten + ?n))"
        using w False True by (subst writeLoop.simps) (simp add: Let_def)
      with r lg pg show ?thesis by (simp add: erases_def)
    next
      case False
      have "fst (writeLoop f address remaining totalWritten) = f'"
        using w \<open>remaining \<noteq> []\<close> False by (subst writeLoop.simps) (simp add: Let_def)
      with lg pg \<open>remaining \<noteq> []\<close> show ?thesis by (simp add: erases_def)
    qed
  qed
qed

lemma saveDirectory_frame [simp]:
  "directory (fst (saveDirectory p)) = directory p"
  "nextFreeSector (fst (saveDirectory p)) = nextFreeSector p"
  "totalFiles (fst (saveDirectory p)) = totalFiles p"
  "deletedFiles (fst (saveDirectory p)) = deletedFiles p"
  "ee_initialized (fst (saveDirectory p)) = ee_initialized p"
  "ee_debugEnabled (fst (saveDirectory p)) = ee_debugEnabled p"
  by (simp_all add: saveDirectory_def Let_def split: prod.splits)

lemma saveDirectory_wip [simp]: "wipClears (chip (fst (saveDirectory p))) = wipClears (chip p)"
proof -
  obtain f ok where e: "eraseSector (chip p) DIRECTORY_SECTOR = (f, ok)"
    by (cases "eraseSector (chip p) DIRECTORY_SECTOR")
  have f: "wipClears f = wipClears (chip p)" using eraseSector_wip[of "chip p" DIRECTORY_SECTOR] e by simp
  obtain f' ok' where s: "saveLoop f 0 (directoryBytes (directory p)) = (f', ok')"
    by (cases "saveLoop f 0 (directoryBytes (directory p))")
  have "wipClears f' = wipClears f" using saveLoop_wip[of f 0 "directoryBytes (directory p)"] s by simp
  with f e s show ?thesis by (simp add: saveDirectory_def Let_def)
qed

lemma saveDirectory_ok:
  assumes "wipClears (chip p) = (\<lambda>n. True)"
  shows "snd (saveDirectory p)"
proof -
  obtain f ok where e: "eraseSector (chip p) DIRECTORY_SECTOR = (f, ok)"
    by (cases "eraseSector (chip p) DIRECTORY_SECTOR")
  have f: "wipClears f = (\<lambda>n. True)" using eraseSector_wip[of "chip p" DIRECTORY_SECTOR] e assms by simp
  have ok: "ok" using eraseSector_ok[OF assms, of DIRECTORY_SECTOR] e
    by (simp add: DIRECTORY_SECTOR_def TOTAL_SECTORS_def)
  obtain f' ok' where s: "saveLoop f 0 (directoryBytes (directory p)) = (f', ok')"
    by (cases "saveLoop f 0 (directoryBytes (directory p))")
  from saveLoop_ok[OF f, of 0 "directoryBytes (directory p)"] s have "ok'" by simp
  with e ok s show ?thesis
    by (simp add: saveDirectory_def Let_def)
qed

lemma length_entryBytes: "wf_entry e \<Longrightarrow> length (entryBytes e) = 24"
  by (simp add: wf_entry_def entryBytes_def le32_def)

lemma length_directoryBytes:
  "(\<And>e. e \<in> set dir \<Longrightarrow> wf_entry e) \<Longrightarrow> length (directoryBytes dir) = 24 * length dir"
  by (induction dir) (simp_all add: directoryBytes_def length_entryBytes)

lemma wf_emptyEntry: "wf_entry emptyEntry"
  by (simp add: wf_entry_def emptyEntry_def)

lemma saveDirectory_log:
  assumes "length (directoryBytes (directory p)) \<le> 4096"
  shows "dataPrograms (spiLog (chip (fst (saveDirectory p)))) = dataPrograms (spiLog (chip p))"
proof -
  obtain f ok where e: "eraseSector (chip p) DIRECTORY_SECTOR = (f, ok)"
    by (cases "eraseSector (chip p) DIRECTORY_SECTOR")
  have f: "dataPrograms (spiLog f) = dataPrograms (spiLog (chip p))"
    using eraseSector_log[of "chip p" DIRECTORY_SECTOR] e by (simp add: dataPrograms_def)
  obtain f' ok' where s: "saveLoop f 0 (directoryBytes (directory p)) = (f', ok')"
    by (cases "saveLoop f 0 (directoryBytes (directory p))")
  have "dataPrograms (spiLog (fst (saveLoop f 0 (directoryBytes (directory p))))) = dataPrograms (spiLog f)"
    using saveLoop_log[of 0 "directoryBytes (directory p)" f] assms by simp
  with f e s show ?thesis by (simp add: saveDirectory_def Let_def)
qed

lemma readFile_unfound:
  "strlen name \<noteq> MAX_FILENAME_LENGTH \<Longrightarrow> EEPROMStoragePlugin_readFile p name maxSize = (p, 0, [])"
  by (simp add: EEPROMStoragePlugin_readFile_def findFileEntry_None)

lemma allocateSectors_room:
  "\<not> nextFreeSector p + getSectorCount sz > TOTAL_SECTORS \<Longrightarrow>
   allocateSectors p sz = (p\<lparr>nextFreeSector := nextFreeSector p + getSectorCount sz\<rparr>, nextFreeSector p)"
  by (simp add: allocateSectors_def Let_def)

lemma writeFile_success:
  assumes init: "ee_initialized p" and clear: "wipClears (chip p) = (\<lambda>n. True)"
    and data: "data \<noteq> []" and nf: "findFileEntry p name = None"
    and slot: "findEmptyEntry p = Some j"
    and room: "\<not> nextFreeSector p + getSectorCount (of_nat (length data)) > TOTAL_SECTORS"
    and nz: "nextFreeSector p \<noteq> 0"
  shows "snd (EEPROMStoragePlugin_writeFile p name data) = length data"
    and "directory (fst (EEPROMStoragePlugin_writeFile p name data)) =
           (directory p)[j := (directory p ! j)
              \<lparr>filename := fst (safeCopy (filename (directory p ! j)) MAX_FILENAME_LENGTH name),
               startSector := nextFreeSector p,
               sizeBytes := of_nat (length data),
               sizeComplement := ucast (NOT (of_nat (length data) :: u16)),
               status := STATUS_ACTIVE\<rparr>]"
    and "nextFreeSector (fst (EEPROMStoragePlugin_writeFile p name data)) =
           nextFreeSector p + getSectorCount (of_nat (length data))"
    and "totalFiles (fst (EEPROMStoragePlugin_writeFile p name data)) = totalFiles p + 1"
    and "ee_initialized (fst (EEPROMStoragePlugin_writeFile p name data))"
    and "wipClears (chip (fst (EEPROMStoragePlugin_writeFile p name data))) = (\<lambda>n. True)"
proof -
  let ?sz = "of_nat (length data) :: u32"
  let ?p2 = "p\<lparr>nextFreeSector := nextFreeSector p + getSectorCount ?sz\<rparr>"
  let ?addr = "nextFreeSector p * of_nat EEPROM_SECTOR_SIZE"
  obtain f ok where wl: "writeLoop (chip p) ?addr data 0 = (f, ok)"
    by (cases "writeLoop (chip p) ?addr data 0")
  have ok: "ok" using writeLoop_ok[OF clear, of ?addr data 0] wl by simp
  have fw: "wipClears f = (\<lambda>n. True)" using writeLoop_wip[of "chip p" ?addr data 0] wl clear by simp
  let ?e = "(directory p ! j)
              \<lparr>filename := fst (safeCopy (filename (directory p ! j)) MAX_FILENAME_LENGTH name),
               startSector := nextFreeSector p,
               sizeBytes := of_nat (length data),
               sizeComplement := ucast (NOT (of_nat (length data) :: u16)),
               status := STATUS_ACTIVE\<rparr>"
  let ?p4 = "?p2\<lparr>chip := f, directory := (directory p)[j := ?e]\<rparr>"
  have sv: "snd (saveDirectory ?p4)" by (rule saveDirectory_ok) (simp add: fw)
  obtain q where q: "saveDirectory ?p4 = (q, True)"
    using sv by (cases "saveDirectory ?p4") auto
  have fe: "findEmptyEntry ?p2 = Some j" using slot by (simp add: findEmptyEntry_def)
  have W: "EEPROMStoragePlugin_writeFile p name data =
        ((fst (saveDirectory ?p4))\<lparr>totalFiles := totalFiles (fst (saveDirectory ?p4)) + 1\<rparr>, length data)"
    using init data nf slot room nz wl ok q
    by (simp add: EEPROMStoragePlugin_writeFile_def allocateSectors_room Let_def)
  show "snd (EEPROMStoragePlugin_writeFile p name data) = length data" by (simp add: W)
  show "directory (fst (EEPROMStoragePlugin_writeFile p name data)) = (directory p)[j := ?e]"
    by (simp add: W)
  show "nextFreeSector (fst (EEPROMStoragePlugin_writeFile p name data)) =
           nextFreeSector p + getSectorCount (of_nat (length data))" by (simp add: W)
  show "totalFiles (fst (EEPROMStoragePlugin_writeFile p name data)) = totalFiles p + 1" by (simp add: W)
  show "ee_initialized (fst (EEPROMStoragePlugin_writeFile p name data))" by (simp add: W init)
  show "wipClears (chip (fst (EEPROMStoragePlugin_writeFile p name data))) = (\<lambda>n. True)"
    by (simp add: W fw)
qed

lemma loadDirectory_frame [simp]:
  "ee_initialized (fst (loadDirectory p)) = ee_initialized p"
  "wipClears (chip (fst (loadDirectory p))) = wipClears (chip p)"
  "spiLog (chip (fst (loadDirectory p))) = spiLog (chip p) @ [READ_DATA 0 (MAX_FILES * FILE_ENTRY_SIZE)]"
  "snd (loadDirectory p)"
  by (simp_all add: loadDirectory_def readData_def flash_read_def Let_def addr24_def
        MAX_FILES_def FILE_ENTRY_SIZE_def split: prod.splits)

lemma loadDirectory_cells [simp]: "cells (chip (fst (loadDirectory p))) = cells (chip p)"
  by (simp add: loadDirectory_def readData_def flash_read_def Let_def case_prod_beta)

lemma saveLoop_prefix: "\<exists>r. spiLog (fst (saveLoop f a d)) = spiLog f @ r"
proof (induction f a d rule: saveLoop.induct)
  case (1 f address remaining)
  show ?case
  proof (cases "remaining = []")
    case True
    then show ?thesis by (subst saveLoop.simps) simp
  next
    case False
    let ?n = "min (length remaining) EEPROM_PAGE_SIZE"
    let ?pg = "take ?n remaining"
    obtain f' ok where w: "writePage f address ?pg = (f', ok)" by (cases "writePage f address ?pg")
    have lg: "\<exists>r. spiLog f' = spiLog f @ r"
      using writePage_log[of f address ?pg] w by (auto split: if_splits)
    show ?thesis
    proof (cases ok)
      case True
      have "fst (saveLoop f address remaining) = fst (saveLoop f' (address + of_nat ?n) (drop ?n remaining))"
        using w False True by (subst saveLoop.simps) (simp add: Let_def)
      with 1[OF False refl refl w[symmetric]] True lg show ?thesis by auto
    next
      case False
      have "fst (saveLoop f address remaining) = f'"
        using w \<open>remaining \<noteq> []\<close> False by (subst saveLoop.simps) (simp add: Let_def)
      with lg show ?thesis by simp
    qed
  qed
qed

lemma saveDirectory_prefix: "\<exists>r. spiLog (chip (fst (saveDirectory p))) = spiLog (chip p) @ r"
proof -
  obtain f ok where e: "eraseSector (chip p) DIRECTORY_SECTOR = (f, ok)"
    by (cases "eraseSector (chip p) DIRECTORY_SECTOR")
  have f: "\<exists>r. spiLog f = spiLog (chip p) @ r"
    using eraseSector_log[of "chip p" DIRECTORY_SECTOR] e by (auto split: if_splits)
  obtain f' ok' where s: "saveLoop f 0 (directoryBytes (directory p)) = (f', ok')"
    by (cases "saveLoop f 0 (directoryBytes (directory p))")
  have "\<exists>r. spiLog f' = spiLog f @ r" using saveLoop_prefix[of f 0 "directoryBytes (directory p)"] s by simp
  with f e s show ?thesis by (auto simp: saveDirectory_def Let_def)
qed

lemma eeprom_formatted_facts:
  "ee_initialized eeprom_formatted"
  "directory eeprom_formatted = replicate MAX_FILES emptyEntry"
  "nextFreeSector eeprom_formatted = DATA_START_SECTOR"
  "totalFiles eeprom_formatted = 0"
  "deletedFiles eeprom_formatted = 0"
  "wipClears (chip eeprom_formatted) = (\<lambda>n. True)"
proof -
  let ?p0 = "eeprom_constructed blankChip"
  obtain p1 where l: "loadDirectory ?p0 = (p1, True)"
    using loadDirectory_frame(4)[of ?p0] by (cases "loadDirectory ?p0") auto
  have c: "\<not> ee_initialized ?p0" "jedecId (chip ?p0) = 0xEF4018"
    by (simp_all add: eeprom_constructed_def blankChip_def)
  have i: "EEPROMStoragePlugin_initialize ?p0 = ((fst (loadDirectory ?p0))\<lparr>ee_initialized := True\<rparr>, STATUS_OK)"
    using l c by (simp add: EEPROMStoragePlugin_initialize_def Let_def)
  have w: "wipClears (chip ?p0) = (\<lambda>n. True)" by (simp add: eeprom_constructed_def blankChip_def)
  show "ee_initialized eeprom_formatted" "directory eeprom_formatted = replicate MAX_FILES emptyEntry"
    "nextFreeSector eeprom_formatted = DATA_START_SECTOR" "totalFiles eeprom_formatted = 0"
    "deletedFiles eeprom_formatted = 0" "wipClears (chip eeprom_formatted) = (\<lambda>n. True)"
    by (simp_all add: eeprom_formatted_def i EEPROMStoragePlugin_format_def w)
qed

lemma findEmptyEntry_formatted: "findEmptyEntry eeprom_formatted = Some 0"
  by (simp add: findEmptyEntry_def eeprom_formatted_facts MAX_FILES_def emptyEntry_def
        numeral_eq_Suc)

lemma strlen_A: "strlen ''A'' = 1"
  by (simp add: strlen_def cstr_def NUL_def)

lemma sector_count_1: "getSectorCount 1 = 1"
  by (simp add: getSectorCount_def EEPROM_SECTOR_SIZE_def)

lemma cstr_take: "length (cstr (take n s)) < n \<Longrightarrow> cstr (take n s) = cstr s"
proof (induction s arbitrary: n)
  case Nil
  then show ?case by simp
next
  case (Cons c s)
  show ?case
  proof (cases n)
    case 0
    with Cons.prems show ?thesis by simp
  next
    case (Suc k)
    show ?thesis
    proof (cases "c = NUL")
      case True
      then show ?thesis by (simp add: Suc cstr_def)
    next
      case False
      with Cons.prems Suc have "length (cstr (take k s)) < k" by (simp add: cstr_def)
      from Cons.IH[OF this] False show ?thesis by (simp add: Suc cstr_def)
    qed
  qed
qed

text \<open>A name that the router accepts has between one and seven characters.\<close>

lemma valid_name_short: "isValidFilename name \<Longrightarrow> strlen name \<noteq> MAX_FILENAME_LENGTH"
proof -
  assume "isValidFilename name"
  then have l: "length (cstr (take MAX_FILENAME_LENGTH name)) < MAX_FILENAME_LENGTH"
    by (auto simp: isValidFilename_def safeStrlen_def Let_def split: if_splits)
  from cstr_take[OF l] l show ?thesis by (simp add: strlen_def)
qed

text \<open>
  Claim C1 on the code. \<open>findFileEntry\<close> compares each stored name with
  \<open>equalsIgnoreCase(entry.filename, MAX_FILENAME_LENGTH, name)\<close>, which fails at once
  unless \<open>name\<close> has exactly eight characters, and \<open>writeFile\<close> stores at most
  seven. On the formatted chip, writing the one-byte file \<open>"A"\<close> reports one byte
  written; the file then does not exist for \<open>fileExists\<close>, and reading it back into a
  16-byte buffer returns 0 bytes. More generally, in every state of the plugin,
  \<open>readFile\<close> returns 0 bytes for every name that the router accepts.
\<close>

theorem C1_written_file_is_not_found_on_read:
  "snd (EEPROMStoragePlugin_writeFile eeprom_formatted ''A'' [0x48]) = 1 \<and>
   EEPROMStoragePlugin_fileExists (fst (EEPROMStoragePlugin_writeFile eeprom_formatted ''A'' [0x48])) ''A'' = False \<and>
   fst (snd (EEPROMStoragePlugin_readFile
               (fst (EEPROMStoragePlugin_writeFile eeprom_formatted ''A'' [0x48])) ''A'' 16)) = 0 \<and>
   (isValidFilename name \<longrightarrow> EEPROMStoragePlugin_readFile p name maxSize = (p, 0, []))"
proof -
  have n: "strlen ''A'' \<noteq> MAX_FILENAME_LENGTH" by (simp add: strlen_A MAX_FILENAME_LENGTH_def)
  have "snd (EEPROMStoragePlugin_writeFile eeprom_formatted ''A'' [0x48]) = length [0x48 :: u8]"
    by (rule writeFile_success(1))
       (simp_all add: eeprom_formatted_facts findFileEntry_None[OF n] findEmptyEntry_formatted
          sector_count_1 DATA_START_SECTOR_def TOTAL_SECTORS_def)
  then show ?thesis
    by (simp add: readFile_unfound[OF n] EEPROMStoragePlugin_fileExists_def findFileEntry_None[OF n]
          readFile_unfound[OF valid_name_short])
qed

theorem C1_written_file_is_not_found_on_read_witness:
  "snd (EEPROMStoragePlugin_writeFile eeprom_formatted ''A'' [0x48]) = length [0x48 :: u8] \<and>
   fst (snd (EEPROMStoragePlugin_readFile
               (fst (EEPROMStoragePlugin_writeFile eeprom_formatted ''A'' [0x48])) ''A'' 16))
     \<noteq> length [0x48 :: u8] \<and>
   isValidFilename ''data_00'' \<and>
   EEPROMStoragePlugin_readFile eeprom_formatted ''data_00'' 16 = (eeprom_formatted, 0, [])"
  using C1_written_file_is_not_found_on_read [of "''data_00''" eeprom_formatted 16]
  by (simp add: isValidFilename_def safeStrlen_def cstr_def NUL_def MAX_FILENAME_LENGTH_def
        invalidChar_def)

lemma freeSectors_frame [simp]:
  "directory (freeSectors p s z) = directory p"
  "nextFreeSector (freeSectors p s z) = nextFreeSector p"
  "totalFiles (freeSectors p s z) = totalFiles p"
  "deletedFiles (freeSectors p s z) = deletedFiles p"
  "ee_initialized (freeSectors p s z) = ee_initialized p"
  by (simp_all add: freeSectors_def Let_def)

lemma writeFile_success_eq:
  assumes init: "ee_initialized p" and clear: "wipClears (chip p) = (\<lambda>n. True)"
    and data: "data \<noteq> []" and nf: "findFileEntry p name = None"
    and slot: "findEmptyEntry p = Some j"
    and room: "\<not> nextFreeSector p + getSectorCount (of_nat (length data)) > TOTAL_SECTORS"
    and nz: "nextFreeSector p \<noteq> 0"
  shows "EEPROMStoragePlugin_writeFile p name data =
     ((fst (saveDirectory
         (p\<lparr>nextFreeSector := nextFreeSector p + getSectorCount (of_nat (length data)),
            chip := fst (writeLoop (chip p) (nextFreeSector p * of_nat EEPROM_SECTOR_SIZE) data 0),
            directory := (directory p)[j := (directory p ! j)
              \<lparr>filename := fst (safeCopy (filename (directory p ! j)) MAX_FILENAME_LENGTH name),
               startSector := nextFreeSector p,
               sizeBytes := of_nat (length data),
               sizeComplement := ucast (NOT (of_nat (length data) :: u16)),
               status := STATUS_ACTIVE\<rparr>]\<rparr>)))
       \<lparr>totalFiles := totalFiles p + 1\<rparr>, length data)"
proof -
  let ?sz = "of_nat (length data) :: u32"
  let ?p2 = "p\<lparr>nextFreeSector := nextFreeSector p + getSectorCount ?sz\<rparr>"
  let ?addr = "nextFreeSector p * of_nat EEPROM_SECTOR_SIZE"
  obtain f ok where wl: "writeLoop (chip p) ?addr data 0 = (f, ok)"
    by (cases "writeLoop (chip p) ?addr data 0")
  have ok: "ok" using writeLoop_ok[OF clear, of ?addr data 0] wl by simp
  have fw: "wipClears f = (\<lambda>n. True)" using writeLoop_wip[of "chip p" ?addr data 0] wl clear by simp
  let ?e = "(directory p ! j)
              \<lparr>filename := fst (safeCopy (filename (directory p ! j)) MAX_FILENAME_LENGTH name),
               startSector := nextFreeSector p,
               sizeBytes := of_nat (length data),
               sizeComplement := ucast (NOT (of_nat (length data) :: u16)),
               status := STATUS_ACTIVE\<rparr>"
  let ?p4 = "?p2\<lparr>chip := f, directory := (directory p)[j := ?e]\<rparr>"
  have sv: "snd (saveDirectory ?p4)" by (rule saveDirectory_ok) (simp add: fw)
  obtain q where q: "saveDirectory ?p4 = (q, True)"
    using sv by (cases "saveDirectory ?p4") auto
  have tf: "totalFiles q = totalFiles p" using saveDirectory_frame(3)[of ?p4] q by simp
  show ?thesis
    using init data nf slot room nz wl ok q tf
    by (simp add: EEPROMStoragePlugin_writeFile_def allocateSectors_room Let_def)
qed

lemma writeFile_first_command:
  assumes init: "ee_initialized p" and clear: "wipClears (chip p) = (\<lambda>n. True)"
    and data: "data \<noteq> []" and nf: "findFileEntry p name = None"
    and slot: "findEmptyEntry p = Some j"
    and room: "\<not> nextFreeSector p + getSectorCount (of_nat (length data)) > TOTAL_SECTORS"
    and nz: "nextFreeSector p \<noteq> 0"
  shows "\<exists>r. spiLog (chip (fst (EEPROMStoragePlugin_writeFile p name data))) =
           spiLog (chip p) @
           PAGE_PROGRAM (addr24 (nextFreeSector p * of_nat EEPROM_SECTOR_SIZE))
             (take EEPROM_PAGE_SIZE data) # r"
proof -
  let ?addr = "nextFreeSector p * of_nat EEPROM_SECTOR_SIZE"
  from writeLoop_log[of "chip p" ?addr data 0] data
  obtain r' where r': "spiLog (fst (writeLoop (chip p) ?addr data 0)) =
      spiLog (chip p) @ PAGE_PROGRAM (addr24 ?addr) (take EEPROM_PAGE_SIZE data) # r'"
    by auto
  show ?thesis
    unfolding writeFile_success_eq[OF assms]
    using saveDirectory_prefix[of "p\<lparr>nextFreeSector := nextFreeSector p + getSectorCount (of_nat (length data)),
            chip := fst (writeLoop (chip p) (nextFreeSector p * of_nat EEPROM_SECTOR_SIZE) data 0),
            directory := (directory p)[j := (directory p ! j)
              \<lparr>filename := fst (safeCopy (filename (directory p ! j)) MAX_FILENAME_LENGTH name),
               startSector := nextFreeSector p,
               sizeBytes := of_nat (length data),
               sizeComplement := ucast (NOT (of_nat (length data) :: u16)),
               status := STATUS_ACTIVE\<rparr>]\<rparr>"] r'
    by auto
qed

text \<open>Programming and erasing the directory sector leaves the data area as it is.\<close>

lemma fold_program_other:
  "(\<And>i. x \<noteq> (a0 div 256) * 256 + (a0 + i) mod 256) \<Longrightarrow>
   fold (\<lambda>id m. programCell a0 m id) ids m x = m x"
  by (induction ids arbitrary: m) (auto simp: programCell_def Let_def)

lemma flash_program_high:
  "a0 < 4096 \<Longrightarrow> x \<ge> 4096 \<Longrightarrow> cells (flash_program f a0 data) x = cells f x"
proof -
  assume a: "a0 < 4096" and x: "x \<ge> 4096"
  have "\<And>i. x \<noteq> (a0 div 256) * 256 + (a0 + i) mod 256"
  proof -
    fix i
    have "(a0 div 256) * 256 \<le> a0" by simp
    moreover have "(a0 + i) mod 256 < 256" by simp
    moreover have "a0 div 256 < 16" using a by simp
    ultimately have "(a0 div 256) * 256 + (a0 + i) mod 256 < 4096" by simp
    with x show "x \<noteq> (a0 div 256) * 256 + (a0 + i) mod 256" by simp
  qed
  then show ?thesis by (simp add: flash_program_def fold_program_other)
qed

lemma writePage_high:
  "addr24 a < 4096 \<Longrightarrow> x \<ge> 4096 \<Longrightarrow> cells (fst (writePage f a d)) x = cells f x"
  by (simp add: writePage_def flash_program_high)

lemma eraseSector0_high:
  "x \<ge> 4096 \<Longrightarrow> cells (fst (eraseSector f DIRECTORY_SECTOR)) x = cells f x"
proof -
  assume x: "x \<ge> 4096"
  then have "x div 4096 \<noteq> 0" by simp
  then show ?thesis
    by (simp add: eraseSector_def flash_erase_def Let_def DIRECTORY_SECTOR_def TOTAL_SECTORS_def
        addr24_def)
qed

lemma saveLoop_high:
  "unat a + length d \<le> 4096 \<Longrightarrow> x \<ge> 4096 \<Longrightarrow> cells (fst (saveLoop f a d)) x = cells f x"
proof (induction f a d rule: saveLoop.induct)
  case (1 f address remaining)
  show ?case
  proof (cases "remaining = []")
    case True
    then show ?thesis by (subst saveLoop.simps) simp
  next
    case False
    let ?n = "min (length remaining) EEPROM_PAGE_SIZE"
    let ?pg = "take ?n remaining"
    obtain f' ok where w: "writePage f address ?pg = (f', ok)" by (cases "writePage f address ?pg")
    have n: "0 < ?n" "?n \<le> 256" "?n \<le> length remaining" using False by (auto simp: EEPROM_PAGE_SIZE_def)
    have small: "addr24 address < 4096"
      using 1(2) False by (cases remaining) (auto simp: addr24_def)
    have f': "cells f' x = cells f x"
      using writePage_high[OF small 1(3), of f ?pg] w by simp
    show ?thesis
    proof (cases ok)
      case True
      have u: "unat (address + of_nat ?n) = unat address + ?n"
        using 1(2) n by (simp add: unat_word_ariths unat_of_nat)
      have "unat (address + of_nat ?n) + length (drop ?n remaining) \<le> 4096"
        using 1(2) n u by simp
      with 1(1)[OF False refl refl w[symmetric]] True f' w False 1(3) show ?thesis
        by (subst saveLoop.simps) (simp add: Let_def)
    next
      case False
      with f' w \<open>remaining \<noteq> []\<close> show ?thesis
        by (subst saveLoop.simps) (simp add: Let_def)
    qed
  qed
qed

lemma saveDirectory_high:
  assumes "length (directoryBytes (directory p)) \<le> 4096" and "x \<ge> 4096"
  shows "cells (chip (fst (saveDirectory p))) x = cells (chip p) x"
proof -
  obtain f ok where e: "eraseSector (chip p) DIRECTORY_SECTOR = (f, ok)"
    by (cases "eraseSector (chip p) DIRECTORY_SECTOR")
  have f: "cells f x = cells (chip p) x"
    using eraseSector0_high[OF assms(2), of "chip p"] e by simp
  obtain f' ok' where s: "saveLoop f 0 (directoryBytes (directory p)) = (f', ok')"
    by (cases "saveLoop f 0 (directoryBytes (directory p))")
  have "cells (fst (saveLoop f 0 (directoryBytes (directory p)))) x = cells f x"
    using saveLoop_high[of 0 "directoryBytes (directory p)" x f] assms by simp
  with f e s show ?thesis by (simp add: saveDirectory_def Let_def)
qed

lemma writeLoop_single_cells:
  "cells (fst (writeLoop f a [b] 0)) = (cells f)(addr24 a := cells f (addr24 a) AND b)"
  by (subst writeLoop.simps, subst writeLoop.simps)
     (simp add: Let_def case_prod_beta writePage_def flash_program_def programCell_def
        EEPROM_PAGE_SIZE_def)

lemma format_facts:
  assumes "ee_initialized p" and "wipClears (chip p) = (\<lambda>n. True)"
  shows "ee_initialized (fst (EEPROMStoragePlugin_format p))"
    and "directory (fst (EEPROMStoragePlugin_format p)) = replicate MAX_FILES emptyEntry"
    and "nextFreeSector (fst (EEPROMStoragePlugin_format p)) = DATA_START_SECTOR"
    and "wipClears (chip (fst (EEPROMStoragePlugin_format p))) = (\<lambda>n. True)"
    and "x \<ge> 4096 \<Longrightarrow> cells (chip (fst (EEPROMStoragePlugin_format p))) x = cells (chip p) x"
proof -
  have wf: "\<And>e. e \<in> set (replicate MAX_FILES emptyEntry) \<Longrightarrow> wf_entry e"
    by (simp add: wf_emptyEntry)
  have lb: "length (directoryBytes (replicate MAX_FILES emptyEntry)) \<le> 4096"
    using length_directoryBytes[of "replicate MAX_FILES emptyEntry", OF wf] by (simp add: MAX_FILES_def)
  show "ee_initialized (fst (EEPROMStoragePlugin_format p))"
    "directory (fst (EEPROMStoragePlugin_format p)) = replicate MAX_FILES emptyEntry"
    "nextFreeSector (fst (EEPROMStoragePlugin_format p)) = DATA_START_SECTOR"
    "wipClears (chip (fst (EEPROMStoragePlugin_format p))) = (\<lambda>n. True)"
    using assms by (simp_all add: EEPROMStoragePlugin_format_def)
  show "x \<ge> 4096 \<Longrightarrow> cells (chip (fst (EEPROMStoragePlugin_format p))) x = cells (chip p) x"
    unfolding EEPROMStoragePlugin_format_def
    using saveDirectory_high[of "p\<lparr>directory := replicate MAX_FILES emptyEntry, totalFiles := 0,
                      deletedFiles := 0, nextFreeSector := DATA_START_SECTOR\<rparr>" x] lb
    by simp
qed

lemma formatted_cells: "x \<ge> 4096 \<Longrightarrow> cells (chip eeprom_formatted) x = 0xFF"
proof -
  assume x: "x \<ge> 4096"
  let ?p0 = "eeprom_constructed blankChip"
  obtain p1 where l: "loadDirectory ?p0 = (p1, True)"
    using loadDirectory_frame(4)[of ?p0] by (cases "loadDirectory ?p0") auto
  have c: "\<not> ee_initialized ?p0" "jedecId (chip ?p0) = 0xEF4018"
    by (simp_all add: eeprom_constructed_def blankChip_def)
  have i: "fst (EEPROMStoragePlugin_initialize ?p0) = p1\<lparr>ee_initialized := True\<rparr>"
    using l c by (simp add: EEPROMStoragePlugin_initialize_def Let_def)
  have "cells (chip p1) = cells (chip ?p0)" using loadDirectory_cells[of ?p0] l by simp
  then have c1: "cells (chip p1) = (\<lambda>a. 0xFF)"
    by (simp add: eeprom_constructed_def blankChip_def)
  have "wipClears (chip p1) = wipClears (chip ?p0)" using loadDirectory_frame(2)[of ?p0] l by simp
  then have w1: "wipClears (chip p1) = (\<lambda>n. True)"
    by (simp add: eeprom_constructed_def blankChip_def)
  show ?thesis
    unfolding eeprom_formatted_def i
    using format_facts(5)[of "p1\<lparr>ee_initialized := True\<rparr>" x] x w1 c1 by simp
qed

text \<open>The cells of the data area after a one-byte file has been stored in the first empty
  slot of a directory.\<close>

lemma writeFile_single_cells:
  assumes init: "ee_initialized p" and clear: "wipClears (chip p) = (\<lambda>n. True)"
    and nf: "findFileEntry p name = None"
    and dir: "directory p = replicate MAX_FILES emptyEntry"
    and nfs: "nextFreeSector p = DATA_START_SECTOR"
    and x: "x \<ge> 4096"
  shows "cells (chip (fst (EEPROMStoragePlugin_writeFile p name [b]))) x =
           ((cells (chip p))(4096 := cells (chip p) 4096 AND b)) x"
    and "snd (EEPROMStoragePlugin_writeFile p name [b]) = 1"
    and "ee_initialized (fst (EEPROMStoragePlugin_writeFile p name [b]))"
    and "wipClears (chip (fst (EEPROMStoragePlugin_writeFile p name [b]))) = (\<lambda>n. True)"
proof -
  have slot: "findEmptyEntry p = Some 0"
    by (simp add: findEmptyEntry_def dir MAX_FILES_def emptyEntry_def numeral_eq_Suc)
  have room: "\<not> nextFreeSector p + getSectorCount (of_nat (length [b])) > TOTAL_SECTORS"
    by (simp add: nfs sector_count_1 DATA_START_SECTOR_def TOTAL_SECTORS_def)
  have nz: "nextFreeSector p \<noteq> 0" by (simp add: nfs DATA_START_SECTOR_def)
  note W = writeFile_success[OF init clear _ nf slot room nz, simplified]
  show "snd (EEPROMStoragePlugin_writeFile p name [b]) = 1" using W(1) by simp
  show "ee_initialized (fst (EEPROMStoragePlugin_writeFile p name [b]))" by (rule W(5))
  show "wipClears (chip (fst (EEPROMStoragePlugin_writeFile p name [b]))) = (\<lambda>n. True)"
    by (rule W(6))
  let ?e = "(directory p ! 0)
              \<lparr>filename := fst (safeCopy (filename (directory p ! 0)) MAX_FILENAME_LENGTH name),
               startSector := nextFreeSector p,
               sizeBytes := of_nat (length [b]),
               sizeComplement := ucast (NOT (of_nat (length [b]) :: u16)),
               status := STATUS_ACTIVE\<rparr>"
  let ?newdir = "(directory p)[0 := ?e]"
  have d0: "directory p ! 0 = emptyEntry" by (simp add: dir MAX_FILES_def)
  have wfe: "wf_entry ?e"
    by (simp add: d0 wf_entry_def emptyEntry_def safeCopy_def MAX_FILENAME_LENGTH_def Let_def
          strlen_def)
  have wf: "\<And>e. e \<in> set ?newdir \<Longrightarrow> wf_entry e"
  proof -
    fix e assume "e \<in> set ?newdir"
    then have "e = ?e \<or> e \<in> set (directory p)" using set_update_subset_insert by fastforce
    then show "wf_entry e" using wfe by (auto simp: dir wf_emptyEntry)
  qed
  have ln: "length ?newdir = 64" by (simp add: dir MAX_FILES_def)
  have lb: "length (directoryBytes ?newdir) \<le> 4096"
    using length_directoryBytes[of ?newdir, OF wf] ln by simp
  have a: "addr24 (nextFreeSector p * of_nat EEPROM_SECTOR_SIZE) = 4096"
    by (simp add: nfs DATA_START_SECTOR_def addr24_def EEPROM_SECTOR_SIZE_def)
  show "cells (chip (fst (EEPROMStoragePlugin_writeFile p name [b]))) x =
           ((cells (chip p))(4096 := cells (chip p) 4096 AND b)) x"
    unfolding writeFile_success_eq[OF init clear _ nf slot room nz, simplified]
    using saveDirectory_high[of "p\<lparr>nextFreeSector := nextFreeSector p + getSectorCount 1,
            chip := fst (writeLoop (chip p) (nextFreeSector p * of_nat EEPROM_SECTOR_SIZE) [b] 0),
            directory := ?newdir\<rparr>" x] lb a x
    by (simp add: writeLoop_single_cells)
qed

lemma strlen_B: "strlen ''B'' = 1"
  by (simp add: strlen_def cstr_def NUL_def)

text \<open>
  Claim C4 on the code. The first command that \<open>writeFile\<close> sends to the chip for the
  one-byte file \<open>"A"\<close> on the formatted chip is the page program at the start of
  sector 1; no erase of that sector precedes it among the commands of the call. On the
  chip whose sector 1 has been used, storing the file \<open>"B"\<close> with the byte
  \<open>0x69\<close> reports one byte written, and the first cell of sector 1 then holds
  \<open>0x48\<close>: the program could only clear bits of what the cell held.
\<close>

theorem C4_data_sector_programmed_without_erase:
  "hd (drop (length (spiLog (chip eeprom_formatted)))
        (spiLog (chip (fst (EEPROMStoragePlugin_writeFile eeprom_formatted ''A'' [0x48]))))) =
     PAGE_PROGRAM 4096 [0x48] \<and>
   \<not> erasedBeforeWritten []
        (drop (length (spiLog (chip eeprom_formatted)))
          (spiLog (chip (fst (EEPROMStoragePlugin_writeFile eeprom_formatted ''A'' [0x48]))))) \<and>
   snd (EEPROMStoragePlugin_writeFile c4_reused ''B'' [0x69]) = 1 \<and>
   cells (chip (fst (EEPROMStoragePlugin_writeFile c4_reused ''B'' [0x69]))) 4096 = 0x48"
proof -
  have n: "strlen ''A'' \<noteq> MAX_FILENAME_LENGTH" by (simp add: strlen_A MAX_FILENAME_LENGTH_def)
  have nB: "strlen ''B'' \<noteq> MAX_FILENAME_LENGTH" by (simp add: strlen_B MAX_FILENAME_LENGTH_def)
  have "\<exists>r. spiLog (chip (fst (EEPROMStoragePlugin_writeFile eeprom_formatted ''A'' [0x48]))) =
           spiLog (chip eeprom_formatted) @
           PAGE_PROGRAM (addr24 (nextFreeSector eeprom_formatted * of_nat EEPROM_SECTOR_SIZE))
             (take EEPROM_PAGE_SIZE [0x48]) # r"
    by (rule writeFile_first_command)
       (simp_all add: eeprom_formatted_facts findFileEntry_None[OF n] findEmptyEntry_formatted
          sector_count_1 DATA_START_SECTOR_def TOTAL_SECTORS_def)
  then obtain r where lg: "spiLog (chip (fst (EEPROMStoragePlugin_writeFile eeprom_formatted ''A'' [0x48]))) =
           spiLog (chip eeprom_formatted) @ PAGE_PROGRAM 4096 [0x48] # r"
    by (auto simp: eeprom_formatted_facts DATA_START_SECTOR_def EEPROM_SECTOR_SIZE_def
          EEPROM_PAGE_SIZE_def addr24_def)
  let ?p1 = "fst (EEPROMStoragePlugin_writeFile eeprom_formatted ''A'' [0x48])"
  note A = writeFile_single_cells[OF eeprom_formatted_facts(1) eeprom_formatted_facts(6)
              findFileEntry_None[OF n] eeprom_formatted_facts(2) eeprom_formatted_facts(3),
              of 4096 "0x48", simplified]
  have c1: "cells (chip ?p1) 4096 = 0x48" using A(1) by (simp add: formatted_cells)
  note F = format_facts[OF A(3) A(4)]
  have c2: "cells (chip c4_reused) 4096 = 0x48" unfolding c4_reused_def using F(5)[of 4096] c1 by simp
  note B = writeFile_single_cells[of c4_reused "''B''" 4096 "0x69",
              OF _ _ findFileEntry_None[OF nB], unfolded c4_reused_def, OF F(1) F(4) F(2) F(3),
              folded c4_reused_def, simplified]
  have c3: "cells (chip (fst (EEPROMStoragePlugin_writeFile c4_reused ''B'' [0x69]))) 4096 = 0x48"
    using B(1) c2 by simp
  from lg B(2) c3 show ?thesis by simp
qed

theorem C4_data_sector_programmed_without_erase_witness:
  "erasedBeforeWritten []
     (drop (length (spiLog (chip eeprom_formatted)))
       (spiLog (chip (fst (EEPROMStoragePlugin_writeFile eeprom_formatted ''A'' [0x48]))))) = False \<and>
   cells (chip (fst (EEPROMStoragePlugin_writeFile c4_reused ''B'' [0x69]))) 4096 \<noteq> 0x69"
  using C4_data_sector_programmed_without_erase by simp

lemma writeLoop_stuck:
  "wipClears f = (\<lambda>n. False) \<Longrightarrow> d \<noteq> [] \<Longrightarrow> \<not> snd (writeLoop f a d t)"
  by (subst writeLoop.simps)
     (auto simp: Let_def writePage_def flash_program_def waitForWriteComplete_def EEPROM_PAGE_SIZE_def
        split: prod.splits)

lemma writeFile_page_failure:
  assumes init: "ee_initialized p"
    and data: "data \<noteq> []" and nf: "findFileEntry p name = None"
    and slot: "findEmptyEntry p = Some j"
    and room: "\<not> nextFreeSector p + getSectorCount (of_nat (length data)) > TOTAL_SECTORS"
    and nz: "nextFreeSector p \<noteq> 0"
    and fail: "\<not> snd (writeLoop (chip p) (nextFreeSector p * of_nat EEPROM_SECTOR_SIZE) data 0)"
  shows "snd (EEPROMStoragePlugin_writeFile p name data) = 0"
    and "nextFreeSector (fst (EEPROMStoragePlugin_writeFile p name data)) =
           nextFreeSector p + getSectorCount (of_nat (length data))"
    and "directory (fst (EEPROMStoragePlugin_writeFile p name data)) = directory p"
proof -
  let ?addr = "nextFreeSector p * of_nat EEPROM_SECTOR_SIZE"
  obtain f where wl: "writeLoop (chip p) ?addr data 0 = (f, False)"
    using fail by (cases "writeLoop (chip p) ?addr data 0") auto
  have W: "EEPROMStoragePlugin_writeFile p name data =
     (freeSectors (p\<lparr>nextFreeSector := nextFreeSector p + getSectorCount (of_nat (length data)),
                      chip := f\<rparr>) (nextFreeSector p) (of_nat (length data)), 0)"
    using init data nf slot room nz wl
    by (simp add: EEPROMStoragePlugin_writeFile_def allocateSectors_room Let_def)
  show "snd (EEPROMStoragePlugin_writeFile p name data) = 0"
    "nextFreeSector (fst (EEPROMStoragePlugin_writeFile p name data)) =
           nextFreeSector p + getSectorCount (of_nat (length data))"
    "directory (fst (EEPROMStoragePlugin_writeFile p name data)) = directory p"
    by (simp_all add: W)
qed

lemma eeprom_stuck_facts:
  "ee_initialized eeprom_stuck"
  "directory eeprom_stuck = replicate MAX_FILES emptyEntry"
  "nextFreeSector eeprom_stuck = 1"
  "wipClears (chip eeprom_stuck) = (\<lambda>n. False)"
  by (simp_all add: eeprom_stuck_def eeprom_formatted_facts DATA_START_SECTOR_def)

text \<open>
  Claim C5 on the code. On a chip whose writes never complete, \<open>writeFile\<close> of the
  one-byte file \<open>"A"\<close> returns 0 and leaves the directory as it was, but
  \<open>nextFreeSector\<close> has moved from 1 to 2: \<open>freeSectors\<close> erases the sectors and
  does not give the reservation back.
\<close>

theorem C5_reservation_kept_after_failed_write:
  "snd (EEPROMStoragePlugin_writeFile eeprom_stuck ''A'' [0x48]) = 0 \<and>
   nextFreeSector eeprom_stuck = 1 \<and>
   nextFreeSector (fst (EEPROMStoragePlugin_writeFile eeprom_stuck ''A'' [0x48])) = 2 \<and>
   directory (fst (EEPROMStoragePlugin_writeFile eeprom_stuck ''A'' [0x48])) = directory eeprom_stuck"
proof -
  have n: "strlen ''A'' \<noteq> MAX_FILENAME_LENGTH" by (simp add: strlen_A MAX_FILENAME_LENGTH_def)
  have fe: "findEmptyEntry eeprom_stuck = Some 0"
    using findEmptyEntry_formatted by (simp add: findEmptyEntry_def eeprom_stuck_def)
  have fail: "\<not> snd (writeLoop (chip eeprom_stuck)
                      (nextFreeSector eeprom_stuck * of_nat EEPROM_SECTOR_SIZE) [0x48] 0)"
    by (rule writeLoop_stuck) (simp_all add: eeprom_stuck_facts)
  have room: "\<not> nextFreeSector eeprom_stuck + getSectorCount (of_nat (length [0x48 :: u8])) > TOTAL_SECTORS"
    by (simp add: eeprom_stuck_facts sector_count_1 TOTAL_SECTORS_def)
  have nz: "nextFreeSector eeprom_stuck \<noteq> 0" by (simp add: eeprom_stuck_facts)
  note r = writeFile_page_failure[OF eeprom_stuck_facts(1) _ findFileEntry_None[OF n] fe room nz fail]
  from r show ?thesis by (simp add: eeprom_stuck_facts sector_count_1)
qed

theorem C5_reservation_kept_after_failed_write_witness:
  "snd (EEPROMStoragePlugin_writeFile eeprom_stuck ''A'' [0x48]) = 0 \<and>
   nextFreeSector (fst (EEPROMStoragePlugin_writeFile eeprom_stuck ''A'' [0x48])) \<noteq>
     nextFreeSector eeprom_stuck"
  using C5_reservation_kept_after_failed_write by simp

lemma not_xor: "(a :: u32) = NOT b \<Longrightarrow> a XOR b = 0xFFFFFFFF"
proof -
  assume a: "a = NOT b"
  have m: "(0xFFFFFFFF :: u32) = - 1" by simp
  have "NOT b XOR b = - 1" by (simp add: bit_eq_iff bit_simps)
  with a m show ?thesis by simp
qed

lemma validate_invariant: "validateFileEntry e \<Longrightarrow> entry_invariant e"
  by (auto simp: validateFileEntry_def entry_invariant_def not_xor split: if_splits)

lemma loadLoop_valid:
  "e \<in> set (fst (loadLoop es t d n)) \<Longrightarrow> status e = STATUS_ACTIVE \<Longrightarrow> validateFileEntry e"
proof (induction es arbitrary: t d n)
  case Nil
  then show ?case by simp
next
  case (Cons a es)
  then show ?case
    by (auto simp: Let_def STATUS_ACTIVE_def STATUS_DELETED_def split: if_splits prod.splits)
       (metis fst_conv)+
qed

lemma loadDirectory_directory:
  "directory (fst (loadDirectory p)) =
     fst (loadLoop (parseDirectory (map (\<lambda>i. cells (chip p) i) [0..<MAX_FILES * FILE_ENTRY_SIZE]))
            0 0 DATA_START_SECTOR)"
proof -
  have h: "map (\<lambda>i. cells (chip p) (i mod 16777216)) [0..<1536] = map (cells (chip p)) [0..<1536]"
    by (rule map_cong) auto
  show ?thesis
    by (simp add: loadDirectory_def readData_def flash_read_def Let_def addr24_def
          MAX_FILES_def FILE_ENTRY_SIZE_def case_prod_beta h)
qed

lemma loadDirectory_valid:
  "e \<in> set (directory (fst (loadDirectory p))) \<Longrightarrow> status e = STATUS_ACTIVE \<Longrightarrow> validateFileEntry e"
  unfolding loadDirectory_directory by (rule loadLoop_valid)

lemma fsckLoop_clean:
  "\<not> snd (fsckLoop dir) \<Longrightarrow> fst (fsckLoop dir) = dir \<and>
     (\<forall>e \<in> set dir. status e = STATUS_ACTIVE \<longrightarrow> validateFileEntry e)"
  by (induction dir) (auto simp: Let_def split: prod.splits if_splits)

lemma fsckLoop_valid:
  "(\<And>e. e \<in> set dir \<Longrightarrow> status e = STATUS_ACTIVE \<Longrightarrow> validateFileEntry e) \<Longrightarrow>
   fsckLoop dir = (dir, False)"
  by (induction dir) (auto simp: Let_def split: prod.splits if_splits)

lemma fsck_valid:
  assumes "ee_initialized p" "e \<in> set (directory (fst (fsck p)))" "status e = STATUS_ACTIVE"
  shows "validateFileEntry e"
proof (cases "snd (fsckLoop (directory p))")
  case True
  then have "directory (fst (fsck p)) =
      directory (fst (loadDirectory (fst (saveDirectory (p\<lparr>directory := fst (fsckLoop (directory p))\<rparr>)))))"
    using assms(1) by (simp add: fsck_def Let_def case_prod_beta)
  with assms(2,3) show ?thesis by (auto dest: loadDirectory_valid)
next
  case False
  with fsckLoop_clean[OF False] assms show ?thesis
    by (auto simp: fsck_def Let_def case_prod_beta)
qed

text \<open>
  Claim C6, as the source has it. After \<open>loadDirectory\<close>, and after \<open>fsck\<close> on an
  initialised plugin, every directory entry with status ACTIVE satisfies
  \<open>size XOR size_complement = 0xFFFFFFFF\<close> and
  \<open>DATA_START_SECTOR \<le> start_sector < TOTAL_SECTORS\<close>: these are the checks of
  \<open>validateFileEntry\<close>, and an entry that fails one of them is demoted to DELETED.
\<close>

theorem C6_active_entries_pass_validation:
  "(\<forall>e \<in> set (directory (fst (loadDirectory p))). status e = STATUS_ACTIVE \<longrightarrow> entry_invariant e) \<and>
   (ee_initialized p \<longrightarrow>
     (\<forall>e \<in> set (directory (fst (fsck p))). status e = STATUS_ACTIVE \<longrightarrow> entry_invariant e))"
  by (auto intro: validate_invariant loadDirectory_valid fsck_valid)

text \<open>The first directory entry after a load.\<close>

lemma loadLoop_length [simp]: "length (fst (loadLoop es t d n)) = length es"
  by (induction es arbitrary: t d n) (simp_all add: Let_def case_prod_beta)

lemma loadLoop_hd:
  "fst (loadLoop (e # es) t d n) ! 0 =
     (if status e = STATUS_ACTIVE \<and> \<not> validateFileEntry e then e\<lparr>status := STATUS_DELETED\<rparr> else e)"
  by (simp add: Let_def case_prod_beta)

lemma parseDirectory_Cons:
  "parseDirectory bs = parseEntry (take FILE_ENTRY_SIZE bs) #
     map (\<lambda>i. parseEntry (take FILE_ENTRY_SIZE (drop (i * FILE_ENTRY_SIZE) bs))) [1..<MAX_FILES]"
  by (simp add: parseDirectory_def MAX_FILES_def upt_conv_Cons)

lemma entry0_after_load:
  "directory (fst (loadDirectory p)) ! 0 =
     (let e = parseEntry (map (\<lambda>i. cells (chip p) i) [0..<FILE_ENTRY_SIZE])
      in if status e = STATUS_ACTIVE \<and> \<not> validateFileEntry e then e\<lparr>status := STATUS_DELETED\<rparr> else e)"
  unfolding loadDirectory_directory parseDirectory_Cons loadLoop_hd
  by (simp add: Let_def take_map MAX_FILES_def FILE_ENTRY_SIZE_def)

lemma length_directory_load [simp]: "length (directory (fst (loadDirectory p))) = MAX_FILES"
  unfolding loadDirectory_directory by (simp add: parseDirectory_def)

lemma initialize_fresh:
  "EEPROMStoragePlugin_initialize (eeprom_constructed (chip_with_entry bs)) =
     ((fst (loadDirectory (eeprom_constructed (chip_with_entry bs))))\<lparr>ee_initialized := True\<rparr>, STATUS_OK)"
proof -
  let ?p0 = "eeprom_constructed (chip_with_entry bs)"
  obtain p1 where l: "loadDirectory ?p0 = (p1, True)"
    using loadDirectory_frame(4)[of ?p0] by (cases "loadDirectory ?p0") auto
  have c: "\<not> ee_initialized ?p0" "jedecId (chip ?p0) = 0xEF4018"
    by (simp_all add: eeprom_constructed_def blankChip_def chip_with_entry_def)
  show ?thesis using l c by (simp add: EEPROMStoragePlugin_initialize_def Let_def)
qed

lemma bad_entry:
  "parseEntry (map (\<lambda>i. cells (chip_with_entry c6_bad_bytes) i) [0..<FILE_ENTRY_SIZE]) =
     \<lparr>filename = [CHR ''A'', NUL, NUL, NUL, NUL, NUL, NUL, NUL], startSector = 4095,
      sizeBytes = 8192, sizeComplement = 0xFFFFDFFF, status = 0xAA, reserved = [0, 0, 0]\<rparr>"
  by (simp add: parseEntry_def chip_with_entry_def c6_bad_bytes_def FILE_ENTRY_SIZE_def
        from_le32_def NUL_def upt_conv_Cons char_of_def bit_0)

lemma good_entry:
  "parseEntry (map (\<lambda>i. cells (chip_with_entry c6_good_bytes) i) [0..<FILE_ENTRY_SIZE]) =
     \<lparr>filename = [CHR ''A'', NUL, NUL, NUL, NUL, NUL, NUL, NUL], startSector = 1,
      sizeBytes = 3, sizeComplement = 0xFFFFFFFC, status = 0xAA, reserved = [0, 0, 0]\<rparr>"
  by (simp add: parseEntry_def chip_with_entry_def c6_good_bytes_def FILE_ENTRY_SIZE_def
        from_le32_def NUL_def upt_conv_Cons char_of_def bit_0)

lemma c6_bad_entry0:
  "directory c6_bad ! 0 =
     \<lparr>filename = [CHR ''A'', NUL, NUL, NUL, NUL, NUL, NUL, NUL], startSector = 4095,
      sizeBytes = 8192, sizeComplement = 0xFFFFDFFF, status = 0xAA, reserved = [0, 0, 0]\<rparr>"
  unfolding c6_bad_def initialize_fresh
  by (simp add: entry0_after_load eeprom_constructed_def bad_entry Let_def validateFileEntry_def
        STATUS_ACTIVE_def DATA_START_SECTOR_def TOTAL_SECTORS_def safeStrlen_def cstr_def NUL_def
        MAX_FILENAME_LENGTH_def word_le_nat_alt word_less_nat_alt)

lemma c6_good_entry0:
  "directory c6_good ! 0 =
     \<lparr>filename = [CHR ''A'', NUL, NUL, NUL, NUL, NUL, NUL, NUL], startSector = 1,
      sizeBytes = 3, sizeComplement = 0xFFFFFFFC, status = 0xAA, reserved = [0, 0, 0]\<rparr>"
  unfolding c6_good_def initialize_fresh
  by (simp add: entry0_after_load eeprom_constructed_def good_entry Let_def validateFileEntry_def
        STATUS_ACTIVE_def DATA_START_SECTOR_def TOTAL_SECTORS_def safeStrlen_def cstr_def NUL_def
        MAX_FILENAME_LENGTH_def word_le_nat_alt word_less_nat_alt)

lemma mounted_facts:
  "ee_initialized (fst (EEPROMStoragePlugin_initialize (eeprom_constructed (chip_with_entry bs))))"
  "cells (chip (fst (EEPROMStoragePlugin_initialize (eeprom_constructed (chip_with_entry bs))))) =
     cells (chip_with_entry bs)"
  "length (directory (fst (EEPROMStoragePlugin_initialize (eeprom_constructed (chip_with_entry bs))))) = MAX_FILES"
  "e \<in> set (directory (fst (EEPROMStoragePlugin_initialize (eeprom_constructed (chip_with_entry bs))))) \<Longrightarrow>
     status e = STATUS_ACTIVE \<Longrightarrow> validateFileEntry e"
  unfolding initialize_fresh
  by (auto simp: eeprom_constructed_def dest: loadDirectory_valid)

lemma fsck_mounted:
  "fsck (fst (EEPROMStoragePlugin_initialize (eeprom_constructed (chip_with_entry bs)))) =
     (fst (EEPROMStoragePlugin_initialize (eeprom_constructed (chip_with_entry bs))), True)"
proof -
  let ?p = "fst (EEPROMStoragePlugin_initialize (eeprom_constructed (chip_with_entry bs)))"
  have "fsckLoop (directory ?p) = (directory ?p, False)"
    by (rule fsckLoop_valid) (rule mounted_facts(4))
  then show ?thesis using mounted_facts(1)[of bs] by (simp add: fsck_def Let_def)
qed

text \<open>
  Claim C6 as stated also bounds the end of the extent. \<open>validateFileEntry\<close> does not
  look at it: an entry that starts in the last sector and is two sectors long is still
  ACTIVE after the mount and after \<open>fsck\<close>.
\<close>

theorem C6_extent_may_exceed_chip:
  "status (directory c6_bad ! 0) = STATUS_ACTIVE \<and> \<not> extent_in_bounds (directory c6_bad ! 0) \<and>
   status (directory (fst (fsck c6_bad)) ! 0) = STATUS_ACTIVE \<and>
   \<not> extent_in_bounds (directory (fst (fsck c6_bad)) ! 0)"
proof -
  have f: "fst (fsck c6_bad) = c6_bad" unfolding c6_bad_def by (simp add: fsck_mounted)
  show ?thesis unfolding f
    by (simp add: c6_bad_entry0 STATUS_ACTIVE_def extent_in_bounds_def EEPROM_SECTOR_SIZE_def
          TOTAL_SECTORS_def)
qed

theorem C6_active_entries_pass_validation_witness:
  "ee_initialized c6_good \<and>
   directory (fst (loadDirectory c6_good)) ! 0 \<in> set (directory (fst (loadDirectory c6_good))) \<and>
   status (directory (fst (loadDirectory c6_good)) ! 0) = STATUS_ACTIVE \<and>
   entry_invariant (directory (fst (loadDirectory c6_good)) ! 0) \<and>
   directory (fst (fsck c6_good)) ! 0 \<in> set (directory (fst (fsck c6_good))) \<and>
   status (directory (fst (fsck c6_good)) ! 0) = STATUS_ACTIVE \<and>
   entry_invariant (directory (fst (fsck c6_good)) ! 0)"
proof -
  have i: "ee_initialized c6_good" unfolding c6_good_def by (rule mounted_facts(1))
  have f: "fst (fsck c6_good) = c6_good" unfolding c6_good_def by (simp add: fsck_mounted)
  have c: "cells (chip c6_good) = cells (chip_with_entry c6_good_bytes)"
    unfolding c6_good_def by (rule mounted_facts(2))
  have l0: "directory (fst (loadDirectory c6_good)) ! 0 = directory c6_good ! 0"
    by (simp add: entry0_after_load c good_entry c6_good_entry0 Let_def validateFileEntry_def
        STATUS_ACTIVE_def DATA_START_SECTOR_def TOTAL_SECTORS_def safeStrlen_def cstr_def NUL_def
        MAX_FILENAME_LENGTH_def word_le_nat_alt word_less_nat_alt)
  have m1: "directory (fst (loadDirectory c6_good)) ! 0 \<in> set (directory (fst (loadDirectory c6_good)))"
    by (rule nth_mem) (simp add: MAX_FILES_def)
  have len: "length (directory c6_good) = MAX_FILES" unfolding c6_good_def by (rule mounted_facts(3))
  have m2: "directory c6_good ! 0 \<in> set (directory c6_good)"
    by (rule nth_mem) (simp add: len MAX_FILES_def)
  have a: "status (directory c6_good ! 0) = STATUS_ACTIVE"
    by (simp add: c6_good_entry0 STATUS_ACTIVE_def)
  from C6_active_entries_pass_validation[of c6_good] i m1 m2 a l0 f show ?thesis by auto
qed

section \<open>Properties of the hex framing\<close>

text \<open>
  Claim C3 on the code. \<open>sendHexLine\<close> puts a space after every eighth byte of a line,
  and \<open>receiveFile\<close> steps through a line two characters at a time, skipping a pair
  that is not hex: after the space the pairs are out of step. For the nine bytes
  \<open>00 11 22 33 44 55 66 77 88\<close> the stream is the line \<open>0011223344556677 88\<close>
  between its header and footer, and receiving that stream into a nine-byte buffer
  yields the first eight bytes only.
\<close>

theorem C3_nine_bytes_do_not_round_trip:
  "streamed ''A'' [0x00, 0x11, 0x22, 0x33, 0x44, 0x55, 0x66, 0x77, 0x88] =
     ''BEGIN:A'' @ CRLF @ ''SIZE:9'' @ CRLF @ ''0011223344556677 88'' @ CRLF @ ''END:A'' @ CRLF \<and>
   hexRoundTrip ''A'' [0x00, 0x11, 0x22, 0x33, 0x44, 0x55, 0x66, 0x77, 0x88] 9 =
     Some [0x00, 0x11, 0x22, 0x33, 0x44, 0x55, 0x66, 0x77]"
  by code_simp

theorem C3_nine_bytes_do_not_round_trip_witness:
  "hexRoundTrip ''A'' [0x00, 0x11, 0x22, 0x33, 0x44, 0x55, 0x66, 0x77, 0x88] 9 \<noteq>
     Some [0x00, 0x11, 0x22, 0x33, 0x44, 0x55, 0x66, 0x77, 0x88]"
  using C3_nine_bytes_do_not_round_trip by simp

section \<open>Properties of the storage router\<close>

lemma getPluginByType_Some: "getPluginByType m t = Some k \<Longrightarrow> k = t"
  by (auto simp: getPluginByType_def split: StorageType.splits if_splits)

text \<open>A diagnostic line of the manager changes nothing but the characters printed.\<close>

lemma fsm_println_frame [simp]:
  "sd (fsm_println m w msg) = sd w"
  "eeprom (fsm_println m w msg) = eeprom w"
  "serial (fsm_println m w msg) = serial w"
  "serialReady (uart (fsm_println m w msg)) = serialReady (uart w)"
  "rx (uart (fsm_println m w msg)) = rx (uart w)"
  "plugin_isReady (fsm_println m w msg) k = plugin_isReady w k"
  by (simp_all add: fsm_println_def serial_print_def plugin_isReady_def
        SerialStoragePlugin_isReady_def split: StorageType.splits)

lemma fsm_println_quiet: "\<not> fsm_debugEnabled m \<Longrightarrow> fsm_println m w msg = w"
  by (simp add: fsm_println_def)

lemma fsm_println_tx:
  "tx (uart (fsm_println m w msg)) =
     (if fsm_debugEnabled m then tx (uart w) @ cstr (msg @ CRLF) else tx (uart w))"
  by (simp add: fsm_println_def serial_print_def)

text \<open>
  Claim C9. With the three plugins registered, \<open>autoDetectStorage\<close> answers SD if it
  is ready, else EEPROM if it is ready, else Serial if it is ready, else SD. On an
  \<open>update()\<close> of the initialised manager whose selected backend is \<open>cur\<close>: if
  \<open>cur\<close> is not ready and the backend resolved by \<open>autoDetectStorage\<close> is ready,
  the selection becomes that backend; in every other case the manager is unchanged.
\<close>

theorem C9_auto_priority_and_failover:
  assumes "sdCardPlugin m" and "eepromPlugin m" and "serialPlugin m"
  shows "autoDetectStorage m w =
           (if plugin_isReady w STORAGE_SD_CARD then STORAGE_SD_CARD
            else if plugin_isReady w STORAGE_EEPROM then STORAGE_EEPROM
            else if plugin_isReady w STORAGE_SERIAL then STORAGE_SERIAL
            else STORAGE_SD_CARD) \<and>
         (fsm_initialized m \<longrightarrow> currentStorage m = Some cur \<longrightarrow> currentStorageType m = cur \<longrightarrow>
            snd (snd (FileSystemManager_update m w)) = STATUS_OK \<and>
            fst (FileSystemManager_update m w) =
              (if \<not> plugin_isReady w cur \<and> plugin_isReady w (autoDetectStorage m w)
               then m\<lparr>currentStorage := Some (autoDetectStorage m w),
                      currentStorageType := autoDetectStorage m w\<rparr>
               else m))"
proof (intro conjI impI)
  show "autoDetectStorage m w =
           (if plugin_isReady w STORAGE_SD_CARD then STORAGE_SD_CARD
            else if plugin_isReady w STORAGE_EEPROM then STORAGE_EEPROM
            else if plugin_isReady w STORAGE_SERIAL then STORAGE_SERIAL
            else STORAGE_SD_CARD)"
    using assms by (simp add: autoDetectStorage_def)
next
  assume "fsm_initialized m" "currentStorage m = Some cur"
  then show "snd (snd (FileSystemManager_update m w)) = STATUS_OK"
    by (simp add: FileSystemManager_update_def Let_def case_prod_beta)
next
  assume i: "fsm_initialized m" and c: "currentStorage m = Some cur"
    and t: "currentStorageType m = cur"
  let ?n = "autoDetectStorage m w"
  have reg: "getPluginByType m ?n = Some ?n"
    using assms by (auto simp: getPluginByType_def autoDetectStorage_def)
  show "fst (FileSystemManager_update m w) =
          (if \<not> plugin_isReady w cur \<and> plugin_isReady w ?n
           then m\<lparr>currentStorage := Some ?n, currentStorageType := ?n\<rparr> else m)"
  proof (cases "plugin_isReady w cur")
    case True
    then show ?thesis using i c by (simp add: FileSystemManager_update_def)
  next
    case nr: False
    show ?thesis
    proof (cases "plugin_isReady w ?n")
      case True
      then have "?n \<noteq> cur" using nr by auto
      then show ?thesis
        using i c t nr True reg
        by (simp add: FileSystemManager_update_def setStorageType_def Let_def case_prod_beta)
    next
      case False
      then show ?thesis
        using i c t nr reg
        by (simp add: FileSystemManager_update_def setStorageType_def Let_def case_prod_beta)
    qed
  qed
qed

lemma s1_ready:
  "\<not> plugin_isReady s1_world STORAGE_SD_CARD" "plugin_isReady s1_world STORAGE_EEPROM"
  by (simp_all add: plugin_isReady_def s1_world_def SDCardStoragePlugin_isReady_def sd_absent_def
        EEPROMStoragePlugin_isReady_def eeprom_formatted_facts)

theorem C9_auto_priority_and_failover_witness:
  "sdCardPlugin s3_fsm \<and> eepromPlugin s3_fsm \<and> serialPlugin s3_fsm \<and> fsm_initialized s3_fsm \<and>
   currentStorage s3_fsm = Some STORAGE_SD_CARD \<and> currentStorageType s3_fsm = STORAGE_SD_CARD \<and>
   \<not> plugin_isReady s1_world STORAGE_SD_CARD \<and>
   autoDetectStorage s3_fsm s1_world = STORAGE_EEPROM \<and>
   plugin_isReady s1_world (autoDetectStorage s3_fsm s1_world) \<and>
   currentStorage (fst (FileSystemManager_update s3_fsm s1_world)) = Some STORAGE_EEPROM \<and>
   currentStorageType (fst (FileSystemManager_update s3_fsm s1_world)) = STORAGE_EEPROM"
  using C9_auto_priority_and_failover [of s3_fsm s1_world STORAGE_SD_CARD]
  by (simp add: s3_fsm_def s1_fsm_def s1_ready)

text \<open>
  Claim C10. \<open>copyFile\<close> returns false whenever the source and destination kinds are
  equal, the source reports that the file does not exist, the source reports size 0, or
  the size exceeds the 32-byte transfer buffer. The manager and the three plugins are
  then exactly as they were: nothing has been read from the source or handed to the
  destination. The only effect is the manager's own diagnostic line on the console, when
  its debugging is on and the refusal comes from the existence or the size test; with
  debugging off nothing changes at all.
\<close>

theorem C10_copy_rejected_without_effect:
  assumes "sourceType = destType \<or> \<not> plugin_fileExists w sourceType name \<or>
           plugin_getFileSize w sourceType name = 0 \<or>
           plugin_getFileSize w sourceType name > of_nat TRANSFER_BUFFER_SIZE"
  shows "fst (copyFile m w name sourceType destType) = m \<and>
         \<not> snd (snd (copyFile m w name sourceType destType)) \<and>
         (let w' = fst (snd (copyFile m w name sourceType destType))
          in sd w' = sd w \<and> eeprom w' = eeprom w \<and> serial w' = serial w \<and>
             serialReady (uart w') = serialReady (uart w) \<and> rx (uart w') = rx (uart w) \<and>
             (tx (uart w') = tx (uart w) \<or>
              tx (uart w') = tx (uart w) @ ''FileSystemManager: Source file not found'' @ CRLF \<or>
              tx (uart w') = tx (uart w) @ ''FileSystemManager: File too large for transfer'' @ CRLF) \<and>
             (\<not> fsm_debugEnabled m \<longrightarrow> w' = w))"
proof (cases "sourceType = destType")
  case True
  then show ?thesis by (simp add: copyFile_def)
next
  case False
  show ?thesis
  proof (cases "getPluginByType m sourceType")
    case None
    then show ?thesis using False by (simp add: copyFile_def)
  next
    case (Some sp)
    then have sp: "sp = sourceType" by (rule getPluginByType_Some)
    show ?thesis
    proof (cases "getPluginByType m destType")
      case None
      then show ?thesis using False Some by (simp add: copyFile_def)
    next
      case (Some dp)
      with assms False \<open>getPluginByType m sourceType = Some sp\<close> sp
      show ?thesis
        by (auto simp: copyFile_def Let_def fsm_println_tx fsm_println_quiet cstr_def NUL_def
              CRLF_def)
    qed
  qed
qed

theorem C10_copy_rejected_without_effect_witness:
  "\<not> plugin_fileExists s1_world STORAGE_EEPROM ''A'' \<and> \<not> fsm_debugEnabled s1_fsm \<and>
   copyFile s1_fsm s1_world ''A'' STORAGE_EEPROM STORAGE_SERIAL = (s1_fsm, s1_world, False) \<and>
   serial (fst (snd (copyFile s1_fsm s1_world ''A'' STORAGE_EEPROM STORAGE_SERIAL))) = serial s1_world \<and>
   tx (uart (fst (snd (copyFile s1_fsm s1_world ''A'' STORAGE_EEPROM STORAGE_SERIAL)))) = []"
proof -
  have n: "strlen ''A'' \<noteq> MAX_FILENAME_LENGTH" by (simp add: strlen_A MAX_FILENAME_LENGTH_def)
  have e: "\<not> plugin_fileExists s1_world STORAGE_EEPROM ''A''"
    by (simp add: plugin_fileExists_def EEPROMStoragePlugin_fileExists_def findFileEntry_None[OF n])
  have d: "\<not> fsm_debugEnabled s1_fsm" by (simp add: s1_fsm_def)
  have u: "tx (uart s1_world) = []" by (simp add: s1_world_def uart_with_def)
  from C10_copy_rejected_without_effect [of STORAGE_EEPROM STORAGE_SERIAL s1_world "''A''" s1_fsm] e d u
  show ?thesis by (simp add: Let_def prod_eq_iff)
qed

section \<open>Properties of the capture path\<close>

lemma captureFilename_1_3:
  "captureFilename 1 = ''data_00''" "captureFilename 2 = ''data_00''" "captureFilename 3 = ''data_00''"
  by (simp_all add: captureFilename_def fmt04d_def zeroPad_def digitChar_def MAX_FILENAME_LENGTH_def
        replicate_Suc[symmetric] eval_nat_numeral)

lemma valid_data_00: "isValidFilename ''data_00''"
  by (simp add: isValidFilename_def safeStrlen_def cstr_def NUL_def MAX_FILENAME_LENGTH_def
        invalidChar_def)

text \<open>The ISR reads back the byte that the peer presents on the data lines.\<close>

lemma readDataPins_pinsOf: "readDataPins (pinsOf b) = b"
proof (rule bit_word_eqI)
  fix n assume "n < LENGTH(8)"
  then consider "n = 0" | "n = 1" | "n = 2" | "n = 3" | "n = 4" | "n = 5" | "n = 6" | "n = 7"
    by fastforce
  then show "bit (readDataPins (pinsOf b)) n = bit b n"
    by cases (simp_all add: readDataPins_def pinsOf_def pin_defs bit_simps bit_0)
qed

lemma s1_strobed_ppm:
  "ringBuffer (ppm s1_strobed) =
     \<lparr>buffer = (replicate 96 0)[0 := 0x48, Suc 0 := 0x69, Suc (Suc 0) := 0x0A], head = 3, tail = 0, count = 3,
      overflowFlag = False\<rparr>"
  "ppm_initialized (ppm s1_strobed)"
  "fsm s1_strobed = s1_fsm" "world s1_strobed = s1_world" "fileCounter s1_strobed = 1"
  by (simp_all add: s1_strobed_def strobe_def s1_system_def handleInterrupt_def ppm_initial_def
        RingBuffer_init_def RingBuffer_write_def RING_BUFFER_SIZE_def readDataPins_pinsOf Let_def
        updateTimingStats_def)

text \<open>One pass of the loop with the one-byte buffer, capturing a byte into the NOR.\<close>

lemma loopTick_capture:
  assumes "ppm_initialized (ppm s)" and "\<not> overflowFlag (ringBuffer (ppm s))"
    and "count (ringBuffer (ppm s)) > 0"
    and "fsm_initialized (fsm s)" and "currentStorage (fsm s) = Some STORAGE_EEPROM"
    and "ee_initialized (eeprom (world s))"
    and "isValidFilename (captureFilename (fileCounter s))"
  shows "eeprom (world (loopTick N dataBuffer_emergency s)) =
           fst (EEPROMStoragePlugin_writeFile (eeprom (world s)) (captureFilename (fileCounter s))
                  [buffer (ringBuffer (ppm s)) ! tail (ringBuffer (ppm s))])"
    and "ringBuffer (ppm (loopTick N dataBuffer_emergency s)) =
           (ringBuffer (ppm s))\<lparr>tail := (tail (ringBuffer (ppm s)) + 1) mod N,
                                 count := count (ringBuffer (ppm s)) - 1\<rparr>"
    and "ppm_initialized (ppm (loopTick N dataBuffer_emergency s))"
    and "fileCounter (loopTick N dataBuffer_emergency s) = fileCounter s + 1"
    and "fsm_initialized (fsm (loopTick N dataBuffer_emergency s))"
    and "currentStorage (fsm (loopTick N dataBuffer_emergency s)) = Some STORAGE_EEPROM"
  using assms
  by (simp_all add: loopTick_def ParallelPortManager_update_def RingBuffer_hasOverflow_def
        FileSystemManager_update_def plugin_isReady_def EEPROMStoragePlugin_isReady_def
        processParallelPortData_def getAvailableBytes_def RingBuffer_available_def
        dataBuffer_emergency_def ParallelPortManager_readData_def RingBuffer_readBytes_def Let_def case_prod_beta
        FileSystemManager_writeFile_def plugin_writeFile_def STATUS_OK_def)

lemma strlen_data_00: "strlen ''data_00'' \<noteq> MAX_FILENAME_LENGTH"
  by (simp add: strlen_def cstr_def NUL_def MAX_FILENAME_LENGTH_def)

lemma firstIndex_append:
  "(\<And>e. e \<in> set xs \<Longrightarrow> \<not> P e) \<Longrightarrow> P y \<Longrightarrow> firstIndex P (xs @ y # ys) = Some (length xs)"
  by (induction xs) auto

lemma writeLoop_single: "spiLog (fst (writeLoop f a [b] 0)) = spiLog f @ [PAGE_PROGRAM (addr24 a) [b]]"
  by (subst writeLoop.simps, subst writeLoop.simps)
     (simp add: Let_def case_prod_beta writePage_log EEPROM_PAGE_SIZE_def)

lemma wf_capturedEntry: "wf_entry (capturedEntry n)"
  by (simp add: wf_entry_def capturedEntry_def)

lemma new_entry:
  "emptyEntry\<lparr>filename := fst (safeCopy (filename emptyEntry) MAX_FILENAME_LENGTH ''data_00''),
              startSector := n, sizeBytes := of_nat (length [b :: u8]),
              sizeComplement := ucast (NOT (of_nat (length [b]) :: u16)),
              status := STATUS_ACTIVE\<rparr> = capturedEntry n"
  by (simp add: emptyEntry_def capturedEntry_def safeCopy_def MAX_FILENAME_LENGTH_def strlen_def
        cstr_def NUL_def Let_def)

text \<open>Storing one captured byte in the next empty slot.\<close>

lemma capture_write:
  assumes init: "ee_initialized p" and clear: "wipClears (chip p) = (\<lambda>n. True)"
    and dir: "directory p = xs @ replicate (Suc k) emptyEntry"
    and act: "\<And>e. e \<in> set xs \<Longrightarrow> status e = STATUS_ACTIVE \<and> wf_entry e"
    and len: "length xs + Suc k = MAX_FILES"
    and nfs: "nextFreeSector p = 1 + of_nat (length xs)"
  shows "directory (fst (EEPROMStoragePlugin_writeFile p ''data_00'' [b])) =
           (xs @ [capturedEntry (nextFreeSector p)]) @ replicate k emptyEntry"
    and "nextFreeSector (fst (EEPROMStoragePlugin_writeFile p ''data_00'' [b])) = nextFreeSector p + 1"
    and "ee_initialized (fst (EEPROMStoragePlugin_writeFile p ''data_00'' [b]))"
    and "wipClears (chip (fst (EEPROMStoragePlugin_writeFile p ''data_00'' [b]))) = (\<lambda>n. True)"
    and "snd (EEPROMStoragePlugin_writeFile p ''data_00'' [b]) = 1"
    and "dataPrograms (spiLog (chip (fst (EEPROMStoragePlugin_writeFile p ''data_00'' [b])))) =
           dataPrograms (spiLog (chip p)) @ [(4096 * Suc (length xs), [b])]"
proof -
  have lx: "length xs < 64" using len by (simp add: MAX_FILES_def)
  have nf: "findFileEntry p ''data_00'' = None" by (rule findFileEntry_None[OF strlen_data_00])
  have slot: "findEmptyEntry p = Some (length xs)"
    unfolding findEmptyEntry_def dir using len act
    by (simp add: firstIndex_append emptyEntry_def STATUS_ACTIVE_def STATUS_EMPTY_def
          STATUS_DELETED_def)
  have un: "unat (1 + of_nat (length xs) :: u32) = Suc (length xs)"
    using lx by (simp add: unat_word_ariths unat_of_nat)
  have room: "\<not> nextFreeSector p + getSectorCount (of_nat (length [b])) > TOTAL_SECTORS"
    using lx un unfolding nfs
    by (simp add: sector_count_1 TOTAL_SECTORS_def word_less_nat_alt unat_word_ariths unat_of_nat)
  have nz: "nextFreeSector p \<noteq> 0" using un unfolding nfs by (metis Zero_not_Suc unat_0)
  have j: "directory p ! length xs = emptyEntry" unfolding dir by simp
  note W = writeFile_success[OF init clear _ nf slot room nz, simplified]
  show "directory (fst (EEPROMStoragePlugin_writeFile p ''data_00'' [b])) =
           (xs @ [capturedEntry (nextFreeSector p)]) @ replicate k emptyEntry"
    using W(2) j new_entry[where n = "nextFreeSector p" and b = b] unfolding dir by simp
  show "nextFreeSector (fst (EEPROMStoragePlugin_writeFile p ''data_00'' [b])) = nextFreeSector p + 1"
    using W(3) by (simp add: sector_count_1)
  show "ee_initialized (fst (EEPROMStoragePlugin_writeFile p ''data_00'' [b]))" by (rule W(5))
  show "wipClears (chip (fst (EEPROMStoragePlugin_writeFile p ''data_00'' [b]))) = (\<lambda>n. True)"
    by (rule W(6))
  show "snd (EEPROMStoragePlugin_writeFile p ''data_00'' [b]) = 1" using W(1) by simp
  let ?newdir = "(directory p)[length xs := (directory p ! length xs)
              \<lparr>filename := fst (safeCopy (filename (directory p ! length xs)) MAX_FILENAME_LENGTH ''data_00''),
               startSector := nextFreeSector p,
               sizeBytes := of_nat (length [b]),
               sizeComplement := ucast (NOT (of_nat (length [b]) :: u16)),
               status := STATUS_ACTIVE\<rparr>]"
  have nd: "?newdir = (xs @ [capturedEntry (nextFreeSector p)]) @ replicate k emptyEntry"
    using j new_entry[where n = "nextFreeSector p" and b = b] unfolding dir by simp
  have wf: "\<And>e. e \<in> set ?newdir \<Longrightarrow> wf_entry e"
    unfolding nd using act by (auto simp: wf_emptyEntry wf_capturedEntry)
  have ln: "length ?newdir = 64" using len unfolding dir by (simp add: MAX_FILES_def)
  have lb: "length (directoryBytes ?newdir) \<le> 4096"
    using length_directoryBytes[of ?newdir, OF wf] ln by simp
  have a: "addr24 (nextFreeSector p * of_nat EEPROM_SECTOR_SIZE) = 4096 * Suc (length xs)"
    using lx un unfolding nfs
    by (simp add: addr24_def EEPROM_SECTOR_SIZE_def unat_word_ariths unat_of_nat)
  show "dataPrograms (spiLog (chip (fst (EEPROMStoragePlugin_writeFile p ''data_00'' [b])))) =
           dataPrograms (spiLog (chip p)) @ [(4096 * Suc (length xs), [b])]"
    unfolding writeFile_success_eq[OF init clear _ nf slot room nz, simplified]
    using saveDirectory_log[of "p\<lparr>nextFreeSector := nextFreeSector p + getSectorCount 1,
            chip := fst (writeLoop (chip p) (nextFreeSector p * of_nat EEPROM_SECTOR_SIZE) [b] 0),
            directory := ?newdir\<rparr>"] lb a
    by (simp add: writeLoop_single dataPrograms_def)
qed

lemma formatted_log: "dataPrograms (spiLog (chip eeprom_formatted)) = []"
proof -
  let ?p0 = "eeprom_constructed blankChip"
  obtain p1 where l: "loadDirectory ?p0 = (p1, True)"
    using loadDirectory_frame(4)[of ?p0] by (cases "loadDirectory ?p0") auto
  have c: "\<not> ee_initialized ?p0" "jedecId (chip ?p0) = 0xEF4018"
    by (simp_all add: eeprom_constructed_def blankChip_def)
  have i: "fst (EEPROMStoragePlugin_initialize ?p0) = p1\<lparr>ee_initialized := True\<rparr>"
    using l c by (simp add: EEPROMStoragePlugin_initialize_def Let_def)
  have l0: "spiLog (chip ?p0) = []" by (simp add: eeprom_constructed_def blankChip_def)
  have lg: "spiLog (chip p1) = [READ_DATA 0 (MAX_FILES * FILE_ENTRY_SIZE)]"
    using loadDirectory_frame(3)[of ?p0] l l0 by simp
  have wf: "\<And>e. e \<in> set (replicate MAX_FILES emptyEntry) \<Longrightarrow> wf_entry e"
    by (simp add: wf_emptyEntry)
  have lb: "length (directoryBytes (replicate MAX_FILES emptyEntry)) \<le> 4096"
    using length_directoryBytes[of "replicate MAX_FILES emptyEntry", OF wf] by (simp add: MAX_FILES_def)
  show ?thesis
    unfolding eeprom_formatted_def i EEPROMStoragePlugin_format_def
    using saveDirectory_log[of "p1\<lparr>ee_initialized := True, directory := replicate MAX_FILES emptyEntry,
        totalFiles := 0, deletedFiles := 0, nextFreeSector := DATA_START_SECTOR\<rparr>"] lb lg
    by (simp add: dataPrograms_def)
qed

lemma s1_fsm_facts: "fsm_initialized s1_fsm" "currentStorage s1_fsm = Some STORAGE_EEPROM"
  by (simp_all add: s1_fsm_def)

text \<open>One pass of the loop on a system that captures to the NOR: the oldest byte of the
  ring goes into a new one-byte file in the next slot and the next sector.\<close>

lemma capture_tick:
  assumes pi: "ppm_initialized (ppm s)"
    and rb: "ringBuffer (ppm s) = \<lparr>buffer = B, head = h, tail = t, count = Suc c, overflowFlag = False\<rparr>"
    and fi: "fsm_initialized (fsm s)" and cs: "currentStorage (fsm s) = Some STORAGE_EEPROM"
    and nm: "captureFilename (fileCounter s) = ''data_00''"
    and init: "ee_initialized (eeprom (world s))"
    and clear: "wipClears (chip (eeprom (world s))) = (\<lambda>n. True)"
    and dir: "directory (eeprom (world s)) = xs @ replicate (Suc k) emptyEntry"
    and act: "\<And>e. e \<in> set xs \<Longrightarrow> status e = STATUS_ACTIVE \<and> wf_entry e"
    and len: "length xs + Suc k = MAX_FILES"
    and nfs: "nextFreeSector (eeprom (world s)) = 1 + of_nat (length xs)"
  shows "directory (eeprom (world (loopTick N dataBuffer_emergency s))) =
           (xs @ [capturedEntry (1 + of_nat (length xs))]) @ replicate k emptyEntry"
    and "nextFreeSector (eeprom (world (loopTick N dataBuffer_emergency s))) = 1 + of_nat (length xs) + 1"
    and "ee_initialized (eeprom (world (loopTick N dataBuffer_emergency s)))"
    and "wipClears (chip (eeprom (world (loopTick N dataBuffer_emergency s)))) = (\<lambda>n. True)"
    and "dataPrograms (spiLog (chip (eeprom (world (loopTick N dataBuffer_emergency s))))) =
           dataPrograms (spiLog (chip (eeprom (world s)))) @ [(4096 * Suc (length xs), [B ! t])]"
    and "ringBuffer (ppm (loopTick N dataBuffer_emergency s)) =
           \<lparr>buffer = B, head = h, tail = (t + 1) mod N, count = c, overflowFlag = False\<rparr>"
    and "ppm_initialized (ppm (loopTick N dataBuffer_emergency s))"
    and "fileCounter (loopTick N dataBuffer_emergency s) = fileCounter s + 1"
    and "fsm_initialized (fsm (loopTick N dataBuffer_emergency s))"
    and "currentStorage (fsm (loopTick N dataBuffer_emergency s)) = Some STORAGE_EEPROM"
proof -
  have a2: "\<not> overflowFlag (ringBuffer (ppm s))" by (simp add: rb)
  have a3: "count (ringBuffer (ppm s)) > 0" by (simp add: rb)
  have v: "isValidFilename (captureFilename (fileCounter s))" by (simp add: nm valid_data_00)
  note T = loopTick_capture[of s N, OF pi a2 a3 fi cs init v]
  have E: "eeprom (world (loopTick N dataBuffer_emergency s)) =
             fst (EEPROMStoragePlugin_writeFile (eeprom (world s)) ''data_00'' [B ! t])"
    using T(1) by (simp add: nm rb)
  note C = capture_write[of "eeprom (world s)" xs k "B ! t", OF init clear dir act len nfs]
  show "directory (eeprom (world (loopTick N dataBuffer_emergency s))) =
           (xs @ [capturedEntry (1 + of_nat (length xs))]) @ replicate k emptyEntry"
    unfolding E using C(1) nfs by simp
  show "nextFreeSector (eeprom (world (loopTick N dataBuffer_emergency s))) = 1 + of_nat (length xs) + 1"
    unfolding E using C(2) nfs by simp
  show "ee_initialized (eeprom (world (loopTick N dataBuffer_emergency s)))" unfolding E by (rule C(3))
  show "wipClears (chip (eeprom (world (loopTick N dataBuffer_emergency s)))) = (\<lambda>n. True)" unfolding E by (rule C(4))
  show "dataPrograms (spiLog (chip (eeprom (world (loopTick N dataBuffer_emergency s))))) =
           dataPrograms (spiLog (chip (eeprom (world s)))) @ [(4096 * Suc (length xs), [B ! t])]"
    unfolding E by (rule C(6))
  show "ringBuffer (ppm (loopTick N dataBuffer_emergency s)) =
           \<lparr>buffer = B, head = h, tail = (t + 1) mod N, count = c, overflowFlag = False\<rparr>"
    using T(2) by (simp add: rb)
  show "ppm_initialized (ppm (loopTick N dataBuffer_emergency s))" by (rule T(3))
  show "fileCounter (loopTick N dataBuffer_emergency s) = fileCounter s + 1" by (rule T(4))
  show "fsm_initialized (fsm (loopTick N dataBuffer_emergency s))" by (rule T(5))
  show "currentStorage (fsm (loopTick N dataBuffer_emergency s)) = Some STORAGE_EEPROM" by (rule T(6))
qed

lemma wf_act_captured: "status (capturedEntry n) = STATUS_ACTIVE \<and> wf_entry (capturedEntry n)"
  by (simp add: capturedEntry_def wf_entry_def)

lemma s1_buffer:
  "(replicate 96 (0::u8))[0 := 0x48, Suc 0 := 0x69, Suc (Suc 0) := 0x0A] ! 0 = 0x48"
  "(replicate 96 (0::u8))[0 := 0x48, Suc 0 := 0x69, Suc (Suc 0) := 0x0A] ! Suc 0 = 0x69"
  "(replicate 96 (0::u8))[0 := 0x48, Suc 0 := 0x69, Suc (Suc 0) := 0x0A] ! 2 = 0x0A"
  by (simp_all add: nth_list_update)

lemma tick1:
  "directory (eeprom (world s1_tick1)) = [capturedEntry 1] @ replicate 63 emptyEntry"
  "nextFreeSector (eeprom (world s1_tick1)) = 2"
  "ee_initialized (eeprom (world s1_tick1))"
  "wipClears (chip (eeprom (world s1_tick1))) = (\<lambda>n. True)"
  "dataPrograms (spiLog (chip (eeprom (world s1_tick1)))) = [(4096, [0x48])]"
  "ringBuffer (ppm s1_tick1) =
     \<lparr>buffer = (replicate 96 0)[0 := 0x48, Suc 0 := 0x69, Suc (Suc 0) := 0x0A], head = 3, tail = 1,
      count = 2, overflowFlag = False\<rparr>"
  "ppm_initialized (ppm s1_tick1)" "fileCounter s1_tick1 = 2"
  "fsm_initialized (fsm s1_tick1)" "currentStorage (fsm s1_tick1) = Some STORAGE_EEPROM"
proof -
  have e0: "eeprom (world s1_strobed) = eeprom_formatted" by (simp add: s1_strobed_ppm s1_world_def)
  have rb: "ringBuffer (ppm s1_strobed) =
     \<lparr>buffer = (replicate 96 0)[0 := 0x48, Suc 0 := 0x69, Suc (Suc 0) := 0x0A], head = 3, tail = 0,
      count = Suc 2, overflowFlag = False\<rparr>" by (simp add: s1_strobed_ppm)
  have fi: "fsm_initialized (fsm s1_strobed)" "currentStorage (fsm s1_strobed) = Some STORAGE_EEPROM"
    by (simp_all add: s1_strobed_ppm s1_fsm_facts)
  have nm: "captureFilename (fileCounter s1_strobed) = ''data_00''"
    by (simp add: s1_strobed_ppm captureFilename_1_3)
  have d: "directory (eeprom (world s1_strobed)) = [] @ replicate (Suc 63) emptyEntry"
    by (simp add: e0 eeprom_formatted_facts MAX_FILES_def)
  have n: "nextFreeSector (eeprom (world s1_strobed)) = 1 + of_nat (length ([] :: FileEntry list))"
    by (simp add: e0 eeprom_formatted_facts DATA_START_SECTOR_def)
  note K = capture_tick[of s1_strobed _ 3 0 2 "[]" 63 RING_BUFFER_SIZE, OF s1_strobed_ppm(2) rb fi nm _ _ d _ _ n,
      folded s1_tick1_def]
  have i: "ee_initialized (eeprom (world s1_strobed))"
    "wipClears (chip (eeprom (world s1_strobed))) = (\<lambda>n. True)"
    by (simp_all add: e0 eeprom_formatted_facts)
  show "directory (eeprom (world s1_tick1)) = [capturedEntry 1] @ replicate 63 emptyEntry"
    using K(1)[OF i] by (simp add: MAX_FILES_def)
  show "nextFreeSector (eeprom (world s1_tick1)) = 2" using K(2)[OF i] by (simp add: MAX_FILES_def)
  show "ee_initialized (eeprom (world s1_tick1))" using K(3)[OF i] by (simp add: MAX_FILES_def)
  show "wipClears (chip (eeprom (world s1_tick1))) = (\<lambda>n. True)"
    using K(4)[OF i] by (simp add: MAX_FILES_def)
  show "dataPrograms (spiLog (chip (eeprom (world s1_tick1)))) = [(4096, [0x48])]"
    using K(5)[OF i] by (simp add: MAX_FILES_def e0 formatted_log s1_buffer)
  show "ringBuffer (ppm s1_tick1) =
     \<lparr>buffer = (replicate 96 0)[0 := 0x48, Suc 0 := 0x69, Suc (Suc 0) := 0x0A], head = 3, tail = 1,
      count = 2, overflowFlag = False\<rparr>"
    using K(6)[OF i] by (simp add: MAX_FILES_def RING_BUFFER_SIZE_def)
  show "ppm_initialized (ppm s1_tick1)" using K(7)[OF i] by (simp add: MAX_FILES_def)
  show "fileCounter s1_tick1 = 2" using K(8)[OF i] by (simp add: MAX_FILES_def s1_strobed_ppm)
  show "fsm_initialized (fsm s1_tick1)" using K(9)[OF i] by (simp add: MAX_FILES_def)
  show "currentStorage (fsm s1_tick1) = Some STORAGE_EEPROM" using K(10)[OF i] by (simp add: MAX_FILES_def)
qed

lemma tick2:
  "directory (eeprom (world s1_tick2)) = [capturedEntry 1, capturedEntry 2] @ replicate 62 emptyEntry"
  "nextFreeSector (eeprom (world s1_tick2)) = 3"
  "ee_initialized (eeprom (world s1_tick2))"
  "wipClears (chip (eeprom (world s1_tick2))) = (\<lambda>n. True)"
  "dataPrograms (spiLog (chip (eeprom (world s1_tick2)))) = [(4096, [0x48]), (8192, [0x69])]"
  "ringBuffer (ppm s1_tick2) =
     \<lparr>buffer = (replicate 96 0)[0 := 0x48, Suc 0 := 0x69, Suc (Suc 0) := 0x0A], head = 3, tail = 2,
      count = 1, overflowFlag = False\<rparr>"
  "ppm_initialized (ppm s1_tick2)" "fileCounter s1_tick2 = 3"
  "fsm_initialized (fsm s1_tick2)" "currentStorage (fsm s1_tick2) = Some STORAGE_EEPROM"
proof -
  have rb: "ringBuffer (ppm s1_tick1) =
     \<lparr>buffer = (replicate 96 0)[0 := 0x48, Suc 0 := 0x69, Suc (Suc 0) := 0x0A], head = 3, tail = 1,
      count = Suc 1, overflowFlag = False\<rparr>" by (simp add: tick1)
  have nm: "captureFilename (fileCounter s1_tick1) = ''data_00''"
    by (simp add: tick1 captureFilename_1_3)
  have d: "directory (eeprom (world s1_tick1)) = [capturedEntry 1] @ replicate (Suc 62) emptyEntry"
    by (simp add: tick1)
  have n: "nextFreeSector (eeprom (world s1_tick1)) = 1 + of_nat (length [capturedEntry 1])"
    by (simp add: tick1)
  have act: "\<And>e. e \<in> set [capturedEntry 1] \<Longrightarrow> status e = STATUS_ACTIVE \<and> wf_entry e"
    by (simp add: wf_act_captured)
  have len: "length [capturedEntry 1] + Suc 62 = MAX_FILES" by (simp add: MAX_FILES_def)
  note K = capture_tick[of s1_tick1 _ 3 1 1 "[capturedEntry 1]" 62 RING_BUFFER_SIZE,
      OF tick1(7) rb tick1(9) tick1(10) nm tick1(3) tick1(4) d act len n, folded s1_tick2_def]
  show "directory (eeprom (world s1_tick2)) = [capturedEntry 1, capturedEntry 2] @ replicate 62 emptyEntry"
    using K(1) by simp
  show "nextFreeSector (eeprom (world s1_tick2)) = 3" using K(2) by simp
  show "ee_initialized (eeprom (world s1_tick2))" by (rule K(3))
  show "wipClears (chip (eeprom (world s1_tick2))) = (\<lambda>n. True)" by (rule K(4))
  show "dataPrograms (spiLog (chip (eeprom (world s1_tick2)))) = [(4096, [0x48]), (8192, [0x69])]"
    using K(5) by (simp add: tick1 s1_buffer)
  show "ringBuffer (ppm s1_tick2) =
     \<lparr>buffer = (replicate 96 0)[0 := 0x48, Suc 0 := 0x69, Suc (Suc 0) := 0x0A], head = 3, tail = 2,
      count = 1, overflowFlag = False\<rparr>"
    using K(6) by (simp add: RING_BUFFER_SIZE_def)
  show "ppm_initialized (ppm s1_tick2)" by (rule K(7))
  show "fileCounter s1_tick2 = 3" using K(8) by (simp add: tick1)
  show "fsm_initialized (fsm s1_tick2)" by (rule K(9))
  show "currentStorage (fsm s1_tick2) = Some STORAGE_EEPROM" by (rule K(10))
qed

lemma s1_final_eq: "s1_final = loopTick RING_BUFFER_SIZE dataBuffer_emergency s1_tick2"
  by (simp add: s1_final_def s1_tick2_def s1_tick1_def)

lemma tick3:
  "directory (eeprom (world s1_final)) =
     [capturedEntry 1, capturedEntry 2, capturedEntry 3] @ replicate 61 emptyEntry"
  "nextFreeSector (eeprom (world s1_final)) = 4"
  "dataPrograms (spiLog (chip (eeprom (world s1_final)))) =
     [(4096, [0x48]), (8192, [0x69]), (12288, [0x0A])]"
  "ringBuffer (ppm s1_final) =
     \<lparr>buffer = (replicate 96 0)[0 := 0x48, Suc 0 := 0x69, Suc (Suc 0) := 0x0A], head = 3, tail = 3,
      count = 0, overflowFlag = False\<rparr>"
  "ppm_initialized (ppm s1_final)" "fileCounter s1_final = 4"
  "fsm_initialized (fsm s1_final)" "currentStorage (fsm s1_final) = Some STORAGE_EEPROM"
  "ee_initialized (eeprom (world s1_final))"
proof -
  have rb: "ringBuffer (ppm s1_tick2) =
     \<lparr>buffer = (replicate 96 0)[0 := 0x48, Suc 0 := 0x69, Suc (Suc 0) := 0x0A], head = 3, tail = 2,
      count = Suc 0, overflowFlag = False\<rparr>" by (simp add: tick2)
  have nm: "captureFilename (fileCounter s1_tick2) = ''data_00''"
    by (simp add: tick2 captureFilename_1_3)
  have d: "directory (eeprom (world s1_tick2)) =
      [capturedEntry 1, capturedEntry 2] @ replicate (Suc 61) emptyEntry"
    by (simp add: tick2)
  have n: "nextFreeSector (eeprom (world s1_tick2)) = 1 + of_nat (length [capturedEntry 1, capturedEntry 2])"
    by (simp add: tick2)
  have act: "\<And>e. e \<in> set [capturedEntry 1, capturedEntry 2] \<Longrightarrow> status e = STATUS_ACTIVE \<and> wf_entry e"
    by (auto simp: wf_act_captured)
  have len: "length [capturedEntry 1, capturedEntry 2] + Suc 61 = MAX_FILES" by (simp add: MAX_FILES_def)
  note K = capture_tick[of s1_tick2 _ 3 2 0 "[capturedEntry 1, capturedEntry 2]" 61 RING_BUFFER_SIZE,
      OF tick2(7) rb tick2(9) tick2(10) nm tick2(3) tick2(4) d act len n, folded s1_final_eq]
  show "directory (eeprom (world s1_final)) =
     [capturedEntry 1, capturedEntry 2, capturedEntry 3] @ replicate 61 emptyEntry"
    using K(1) by simp
  show "nextFreeSector (eeprom (world s1_final)) = 4" using K(2) by simp
  show "dataPrograms (spiLog (chip (eeprom (world s1_final)))) =
     [(4096, [0x48]), (8192, [0x69]), (12288, [0x0A])]"
    using K(5) by (simp add: tick2 s1_buffer)
  show "ringBuffer (ppm s1_final) =
     \<lparr>buffer = (replicate 96 0)[0 := 0x48, Suc 0 := 0x69, Suc (Suc 0) := 0x0A], head = 3, tail = 3,
      count = 0, overflowFlag = False\<rparr>"
    using K(6) by (simp add: RING_BUFFER_SIZE_def)
  show "ppm_initialized (ppm s1_final)" by (rule K(7))
  show "fileCounter s1_final = 4" using K(8) by (simp add: tick2)
  show "fsm_initialized (fsm s1_final)" by (rule K(9))
  show "currentStorage (fsm s1_final) = Some STORAGE_EEPROM" by (rule K(10))
  show "ee_initialized (eeprom (world s1_final))" by (rule K(3))
qed

lemma listFiles_final:
  "EEPROMStoragePlugin_listFiles (eeprom (world s1_final)) MAX_FILES = [''data_00'', ''data_00'', ''data_00'']"
  by (simp add: EEPROMStoragePlugin_listFiles_def tick3 MAX_FILES_def capturedEntry_def emptyEntry_def
        STATUS_ACTIVE_def STATUS_EMPTY_def safeCopy_def strlen_def cstr_def NUL_def
        MAX_FILENAME_LENGTH_def Let_def)

text \<open>The same scenario with the 256-byte buffer: one pass takes the three bytes.\<close>

lemma writeLoop_onepage:
  "d \<noteq> [] \<Longrightarrow> length d \<le> EEPROM_PAGE_SIZE \<Longrightarrow>
   spiLog (fst (writeLoop f a d 0)) = spiLog f @ [PAGE_PROGRAM (addr24 a) d]"
  by (subst writeLoop.simps, subst writeLoop.simps)
     (simp add: Let_def case_prod_beta writePage_log min_def)

lemma sector_count_3: "getSectorCount 3 = 1"
  by (simp add: getSectorCount_def EEPROM_SECTOR_SIZE_def)

lemma new_entry3:
  "emptyEntry\<lparr>filename := fst (safeCopy (filename emptyEntry) MAX_FILENAME_LENGTH ''data_00''),
              startSector := 1, sizeBytes := of_nat (length [0x48 :: u8, 0x69, 0x0A]),
              sizeComplement := ucast (NOT (of_nat (length [0x48 :: u8, 0x69, 0x0A]) :: u16)),
              status := STATUS_ACTIVE\<rparr> = capturedEntry3"
  by (simp add: emptyEntry_def capturedEntry3_def safeCopy_def MAX_FILENAME_LENGTH_def strlen_def
        cstr_def NUL_def Let_def)

lemma wf_capturedEntry3: "wf_entry capturedEntry3"
  by (simp add: wf_entry_def capturedEntry3_def)

text \<open>One pass of the loop with a buffer of \<open>B\<close> bytes, when the receiver hands over
  at least one byte.\<close>

lemma loopTick_capture_bytes:
  assumes "ppm_initialized (ppm s)" and "\<not> overflowFlag (ringBuffer (ppm s))"
    and "count (ringBuffer (ppm s)) > 0"
    and "fsm_initialized (fsm s)" and "currentStorage (fsm s) = Some STORAGE_EEPROM"
    and "ee_initialized (eeprom (world s))"
    and "isValidFilename (captureFilename (fileCounter s))"
    and "RingBuffer_readBytes N (ringBuffer (ppm s)) (min (count (ringBuffer (ppm s))) B) = (rb, bs)"
    and "bs \<noteq> []"
  shows "eeprom (world (loopTick N B s)) =
           fst (EEPROMStoragePlugin_writeFile (eeprom (world s)) (captureFilename (fileCounter s)) bs)"
    and "ringBuffer (ppm (loopTick N B s)) = rb"
    and "fsm_initialized (fsm (loopTick N B s))"
    and "currentStorage (fsm (loopTick N B s)) = Some STORAGE_EEPROM"
  using assms
  by (simp_all add: loopTick_def ParallelPortManager_update_def RingBuffer_hasOverflow_def
        FileSystemManager_update_def plugin_isReady_def EEPROMStoragePlugin_isReady_def
        processParallelPortData_def getAvailableBytes_def RingBuffer_available_def
        ParallelPortManager_readData_def Let_def case_prod_beta
        FileSystemManager_writeFile_def plugin_writeFile_def STATUS_OK_def)

lemma readBytes_three:
  "count rb = 3 \<Longrightarrow>
   RingBuffer_readBytes N rb 3 =
     (rb\<lparr>tail := (((tail rb + 1) mod N + 1) mod N + 1) mod N, count := 0\<rparr>,
      [buffer rb ! tail rb, buffer rb ! ((tail rb + 1) mod N),
       buffer rb ! (((tail rb + 1) mod N + 1) mod N)])"
  by (simp add: RingBuffer_readBytes_def numeral_3_eq_3 Let_def)

lemma s1_read3:
  "RingBuffer_readBytes RING_BUFFER_SIZE (ringBuffer (ppm s1_strobed))
     (min (count (ringBuffer (ppm s1_strobed))) dataBuffer_main) =
   ((ringBuffer (ppm s1_strobed))\<lparr>tail := 3, count := 0\<rparr>, [0x48, 0x69, 0x0A])"
proof -
  have c: "count (ringBuffer (ppm s1_strobed)) = 3" by (simp add: s1_strobed_ppm(1))
  have m: "min (count (ringBuffer (ppm s1_strobed))) dataBuffer_main = 3"
    by (simp add: c dataBuffer_main_def)
  have t: "tail (ringBuffer (ppm s1_strobed)) = 0" by (simp add: s1_strobed_ppm(1))
  have b: "buffer (ringBuffer (ppm s1_strobed)) =
             (replicate 96 0)[0 := 0x48, Suc 0 := 0x69, Suc (Suc 0) := 0x0A]"
    by (simp add: s1_strobed_ppm(1))
  show ?thesis
    unfolding m readBytes_three[OF c] t b
    by (simp add: RING_BUFFER_SIZE_def s1_buffer)
qed

lemma s1_main_eeprom:
  "eeprom (world s1_main) =
     fst (EEPROMStoragePlugin_writeFile eeprom_formatted ''data_00'' [0x48, 0x69, 0x0A])"
  "getAvailableBytes (ppm s1_main) = 0"
  "fsm_initialized (fsm s1_main)" "currentStorage (fsm s1_main) = Some STORAGE_EEPROM"
proof -
  have e0: "eeprom (world s1_strobed) = eeprom_formatted" by (simp add: s1_strobed_ppm s1_world_def)
  have o: "\<not> overflowFlag (ringBuffer (ppm s1_strobed))" "count (ringBuffer (ppm s1_strobed)) > 0"
    by (simp_all add: s1_strobed_ppm(1))
  have fi: "fsm_initialized (fsm s1_strobed)" "currentStorage (fsm s1_strobed) = Some STORAGE_EEPROM"
    by (simp_all add: s1_strobed_ppm s1_fsm_facts)
  have ei: "ee_initialized (eeprom (world s1_strobed))" by (simp add: e0 eeprom_formatted_facts)
  have v: "isValidFilename (captureFilename (fileCounter s1_strobed))"
    by (simp add: s1_strobed_ppm captureFilename_1_3 valid_data_00)
  note T = loopTick_capture_bytes[OF s1_strobed_ppm(2) o fi ei v s1_read3, folded s1_main_def]
  show "eeprom (world s1_main) =
     fst (EEPROMStoragePlugin_writeFile eeprom_formatted ''data_00'' [0x48, 0x69, 0x0A])"
    using T(1) unfolding e0 by (simp add: s1_strobed_ppm(5) captureFilename_1_3)
  show "getAvailableBytes (ppm s1_main) = 0"
    using T(2) by (simp add: getAvailableBytes_def RingBuffer_available_def)
  show "fsm_initialized (fsm s1_main)" using T(3) by simp
  show "currentStorage (fsm s1_main) = Some STORAGE_EEPROM" using T(4) by simp
qed

lemma main_capture:
  "directory (eeprom (world s1_main)) = capturedEntry3 # replicate 63 emptyEntry"
  "ee_initialized (eeprom (world s1_main))"
  "dataPrograms (spiLog (chip (eeprom (world s1_main)))) = [(4096, [0x48, 0x69, 0x0A])]"
proof -
  let ?d = "[0x48 :: u8, 0x69, 0x0A]"
  have nf: "findFileEntry eeprom_formatted ''data_00'' = None"
    by (rule findFileEntry_None[OF strlen_data_00])
  have room: "\<not> nextFreeSector eeprom_formatted + getSectorCount (of_nat (length ?d)) > TOTAL_SECTORS"
    by (simp add: eeprom_formatted_facts sector_count_3 DATA_START_SECTOR_def TOTAL_SECTORS_def)
  have nz: "nextFreeSector eeprom_formatted \<noteq> 0"
    by (simp add: eeprom_formatted_facts DATA_START_SECTOR_def)
  note W = writeFile_success[OF eeprom_formatted_facts(1) eeprom_formatted_facts(6) _ nf
      findEmptyEntry_formatted room nz]
  have j: "directory eeprom_formatted ! 0 = emptyEntry"
    by (simp add: eeprom_formatted_facts MAX_FILES_def)
  have r: "(replicate 64 emptyEntry)[0 := capturedEntry3] = capturedEntry3 # replicate 63 emptyEntry"
    by (simp add: numeral_eq_Suc)
  have nd: "(directory eeprom_formatted)[0 := (directory eeprom_formatted ! 0)
              \<lparr>filename := fst (safeCopy (filename (directory eeprom_formatted ! 0)) MAX_FILENAME_LENGTH ''data_00''),
               startSector := nextFreeSector eeprom_formatted,
               sizeBytes := of_nat (length ?d),
               sizeComplement := ucast (NOT (of_nat (length ?d) :: u16)),
               status := STATUS_ACTIVE\<rparr>] = capturedEntry3 # replicate 63 emptyEntry"
    unfolding j using new_entry3 r
    by (simp add: eeprom_formatted_facts DATA_START_SECTOR_def MAX_FILES_def)
  show "directory (eeprom (world s1_main)) = capturedEntry3 # replicate 63 emptyEntry"
    unfolding s1_main_eeprom(1) using W(2) nd by simp
  show "ee_initialized (eeprom (world s1_main))" unfolding s1_main_eeprom(1) using W(5) by simp
  have wf: "\<And>e. e \<in> set (capturedEntry3 # replicate 63 emptyEntry) \<Longrightarrow> wf_entry e"
    by (auto simp: wf_emptyEntry wf_capturedEntry3)
  have lb: "length (directoryBytes (capturedEntry3 # replicate 63 emptyEntry)) \<le> 4096"
    using length_directoryBytes[of "capturedEntry3 # replicate 63 emptyEntry", OF wf] by simp
  have a: "addr24 (nextFreeSector eeprom_formatted * of_nat EEPROM_SECTOR_SIZE) = 4096"
    by (simp add: eeprom_formatted_facts DATA_START_SECTOR_def addr24_def EEPROM_SECTOR_SIZE_def)
  have E: "EEPROMStoragePlugin_writeFile eeprom_formatted ''data_00'' ?d =
     ((fst (saveDirectory
         (eeprom_formatted\<lparr>nextFreeSector := nextFreeSector eeprom_formatted + getSectorCount (of_nat (length ?d)),
            chip := fst (writeLoop (chip eeprom_formatted) (nextFreeSector eeprom_formatted * of_nat EEPROM_SECTOR_SIZE) ?d 0),
            directory := capturedEntry3 # replicate 63 emptyEntry\<rparr>)))
       \<lparr>totalFiles := totalFiles eeprom_formatted + 1\<rparr>, length ?d)"
    using writeFile_success_eq[OF eeprom_formatted_facts(1) eeprom_formatted_facts(6) _ nf
      findEmptyEntry_formatted room nz] nd by simp
  show "dataPrograms (spiLog (chip (eeprom (world s1_main)))) = [(4096, [0x48, 0x69, 0x0A])]"
    unfolding s1_main_eeprom(1) E
    using saveDirectory_log[of "eeprom_formatted\<lparr>nextFreeSector := nextFreeSector eeprom_formatted + getSectorCount (of_nat (length ?d)),
            chip := fst (writeLoop (chip eeprom_formatted) (nextFreeSector eeprom_formatted * of_nat EEPROM_SECTOR_SIZE) ?d 0),
            directory := capturedEntry3 # replicate 63 emptyEntry\<rparr>"] lb a formatted_log
    by (simp add: writeLoop_onepage EEPROM_PAGE_SIZE_def dataPrograms_def)
qed

lemma listFiles_main:
  "EEPROMStoragePlugin_listFiles (eeprom (world s1_main)) MAX_FILES = [''data_00'']"
  by (simp add: EEPROMStoragePlugin_listFiles_def main_capture MAX_FILES_def capturedEntry3_def
        emptyEntry_def STATUS_ACTIVE_def STATUS_EMPTY_def safeCopy_def strlen_def cstr_def NUL_def
        MAX_FILENAME_LENGTH_def Let_def)

text \<open>Reading through the router: a name of nine characters is refused, and a name of
  seven characters is looked up by the NOR plugin and not found.\<close>

lemma router_read_data_0001:
  "fst (snd (snd (FileSystemManager_readFile m w ''data_0001'' maxSize))) = 0"
  by (simp add: FileSystemManager_readFile_def isValidFilename_def safeStrlen_def cstr_def NUL_def
        MAX_FILENAME_LENGTH_def split: option.splits)

lemma router_read_data_00:
  "currentStorage m = Some STORAGE_EEPROM \<Longrightarrow>
   fst (snd (snd (FileSystemManager_readFile m w ''data_00'' maxSize))) = 0"
  by (simp add: FileSystemManager_readFile_def plugin_readFile_def
        readFile_unfound[OF strlen_data_00] Let_def)

text \<open>
  Claim C2 on the code. The name is built by \<open>snprintf\<close> into a buffer of
  \<open>MAX_FILENAME_LENGTH\<close> = 8 cells, which keeps \<open>data_00\<close> of
  \<open>data_0001.bin\<close>, and the same of the next two names. After the three strobes
  of scenario S1 and one pass of the loop of \<open>src/main.cpp\<close> the NOR directory lists one
  file, of three bytes, programmed with \<open>0x48 0x69 0x0A\<close> at sector 1; its name is
  \<open>data_00\<close>, not \<open>data_0001\<close>, and reading through the router returns 0 bytes
  under either name: \<open>data_0001\<close> is refused as too long, and \<open>data_00\<close> is
  never found by \<open>findFileEntry\<close>. With the one-byte buffer of the other copy of the
  loop, three passes leave three files of one byte each, all named \<open>data_00\<close>, in
  sectors 1, 2 and 3, and reading returns 0 bytes in the same way.
\<close>

theorem C2_captured_file_misnamed_and_unreadable:
  "captureFilename 1 = ''data_00'' \<and>
   EEPROMStoragePlugin_listFiles (eeprom (world s1_main)) MAX_FILES = [''data_00''] \<and>
   map sizeBytes (take 1 (directory (eeprom (world s1_main)))) = [3] \<and>
   dataPrograms (spiLog (chip (eeprom (world s1_main)))) = [(4096, [0x48, 0x69, 0x0A])] \<and>
   getAvailableBytes (ppm s1_main) = 0 \<and>
   fst (snd (snd (FileSystemManager_readFile (fsm s1_main) (world s1_main) ''data_0001'' 16))) = 0 \<and>
   fst (snd (snd (FileSystemManager_readFile (fsm s1_main) (world s1_main) ''data_00'' 16))) = 0 \<and>
   EEPROMStoragePlugin_listFiles (eeprom (world s1_final)) MAX_FILES =
     [''data_00'', ''data_00'', ''data_00''] \<and>
   map sizeBytes (take 3 (directory (eeprom (world s1_final)))) = [1, 1, 1] \<and>
   map startSector (take 3 (directory (eeprom (world s1_final)))) = [1, 2, 3] \<and>
   dataPrograms (spiLog (chip (eeprom (world s1_final)))) =
     [(4096, [0x48]), (8192, [0x69]), (12288, [0x0A])] \<and>
   getAvailableBytes (ppm s1_final) = 0 \<and>
   fst (snd (snd (FileSystemManager_readFile (fsm s1_final) (world s1_final) ''data_0001'' 16))) = 0 \<and>
   fst (snd (snd (FileSystemManager_readFile (fsm s1_final) (world s1_final) ''data_00'' 16))) = 0"
proof -
  have a: "getAvailableBytes (ppm s1_main) = 0" by (rule s1_main_eeprom(2))
  have b: "getAvailableBytes (ppm s1_final) = 0"
    by (simp add: tick3 getAvailableBytes_def RingBuffer_available_def)
  show ?thesis
    by (simp add: a b captureFilename_1_3 listFiles_main main_capture capturedEntry3_def
          s1_main_eeprom(4) router_read_data_0001 router_read_data_00 listFiles_final tick3
          capturedEntry_def)
qed

theorem C2_captured_file_misnamed_and_unreadable_witness:
  "EEPROMStoragePlugin_listFiles (eeprom (world s1_main)) MAX_FILES \<noteq> [''data_0001''] \<and>
   fst (snd (snd (FileSystemManager_readFile (fsm s1_main) (world s1_main) ''data_00'' 16))) \<noteq> 3 \<and>
   length (EEPROMStoragePlugin_listFiles (eeprom (world s1_final)) MAX_FILES) \<noteq> 1"
  using C2_captured_file_misnamed_and_unreadable by simp

end
